theory Spec2Isabelle
  imports Main "HOL-Library.Sublist" "HOL-Library.Product_Lexorder"
begin

section \<open>FTP backup of multi-volume archives: a model of \<^verbatim>\<open>backup_ftp.py\<close>\<close>

text \<open>
  The development follows the class \<^verbatim>\<open>FTPBackup\<close> of \<^verbatim>\<open>backup_ftp.py\<close> function by
  function. File names are Python strings; they are modelled as \<^typ>\<open>string\<close> and taken to
  be ASCII, so that \<^verbatim>\<open>\d\<close>, \<^verbatim>\<open>int()\<close> and \<^verbatim>\<open>str.strip\<close> see the ASCII digits and
  blanks only. Logging has no effect on control flow and is left out.
\<close>

subsection \<open>String helpers of the Python library\<close>

text \<open>\<^verbatim>\<open>s.startswith(p)\<close>, \<^verbatim>\<open>s.endswith(p)\<close> and \<^verbatim>\<open>p in s\<close>.\<close>

fun startswith :: "string \<Rightarrow> string \<Rightarrow> bool" where
  "startswith s [] = True"
| "startswith [] (p # ps) = False"
| "startswith (c # s) (p # ps) = (c = p \<and> startswith s ps)"

definition endswith :: "string \<Rightarrow> string \<Rightarrow> bool" where
  "endswith s p = startswith (rev s) (rev p)"

fun contains :: "string \<Rightarrow> string \<Rightarrow> bool" where
  "contains [] p = (p = [])"
| "contains (c # s) p = (startswith (c # s) p \<or> contains s p)"

text \<open>\<^verbatim>\<open>s.rsplit('.', 1)[0]\<close>: the text before the last dot, all of \<^verbatim>\<open>s\<close> when it has no dot.\<close>

definition rsplit_dot_head :: "string \<Rightarrow> string" where
  "rsplit_dot_head s =
     (if CHR ''.'' \<in> set s then rev (tl (dropWhile (\<lambda>c. c \<noteq> CHR ''.'') (rev s))) else s)"

text \<open>\<^verbatim>\<open>s.split('.')[-1]\<close>: the text after the last dot, all of \<^verbatim>\<open>s\<close> when it has no dot.\<close>

definition split_dot_last :: "string \<Rightarrow> string" where
  "split_dot_last s = rev (takeWhile (\<lambda>c. c \<noteq> CHR ''.'') (rev s))"

text \<open>
  \<^verbatim>\<open>int(s)\<close> on a string: blanks are stripped at both ends, one sign may lead, and the
  digits may be grouped by single underscores. \<^const>\<open>None\<close> is \<^verbatim>\<open>ValueError\<close>.
\<close>

definition is_digit :: "char \<Rightarrow> bool" where
  "is_digit c = (48 \<le> (of_char c :: nat) \<and> (of_char c :: nat) \<le> 57)"

definition is_space :: "char \<Rightarrow> bool" where
  "is_space c = ((9 \<le> (of_char c :: nat) \<and> (of_char c :: nat) \<le> 13)
                 \<or> (28 \<le> (of_char c :: nat) \<and> (of_char c :: nat) \<le> 32))"

definition strip :: "string \<Rightarrow> string" where
  "strip s = rev (dropWhile is_space (rev (dropWhile is_space s)))"

fun digit_tail :: "string \<Rightarrow> bool" where
  "digit_tail [] = True"
| "digit_tail (c # cs) =
     (if is_digit c then digit_tail cs
      else c = CHR ''_'' \<and> (case cs of [] \<Rightarrow> False | d # ds \<Rightarrow> is_digit d \<and> digit_tail ds))"

definition int_literal :: "string \<Rightarrow> bool" where
  "int_literal s = (case s of [] \<Rightarrow> False | c # cs \<Rightarrow> is_digit c \<and> digit_tail cs)"

definition digits_value :: "string \<Rightarrow> nat" where
  "digits_value s = foldl (\<lambda>a c. 10 * a + (of_char c - 48)) 0 (filter is_digit s)"

definition py_int :: "string \<Rightarrow> int option" where
  "py_int s =
     (case strip s of
        [] \<Rightarrow> None
      | c # cs \<Rightarrow>
          if c = CHR ''-'' then (if int_literal cs then Some (- int (digits_value cs)) else None)
          else if c = CHR ''+'' then (if int_literal cs then Some (int (digits_value cs)) else None)
          else if int_literal (c # cs) then Some (int (digits_value (c # cs)))
          else None)"

subsection \<open>Archive names\<close>

text \<open>
  \<^verbatim>\<open>_get_archive_base_name\<close>: a name is an archive file when it ends in \<^verbatim>\<open>.tar\<close> or
  contains \<^verbatim>\<open>.tar.\<close>; with \<^verbatim>\<open>.tar.\<close> inside, the text after the last dot is dropped and
  the rest must still end in \<^verbatim>\<open>.tar\<close>.
\<close>

definition get_archive_base_name :: "string \<Rightarrow> string option" where
  "get_archive_base_name filename =
     (if \<not> endswith filename ''.tar'' \<and> \<not> contains filename ''.tar.'' then None
      else if contains filename ''.tar.'' then
        (let base = rsplit_dot_head filename
         in if \<not> endswith base ''.tar'' then None else Some base)
      else Some filename)"

text \<open>\<^verbatim>\<open>_get_volume_number\<close>: the number after the last dot, 0 when there is none.\<close>

definition get_volume_number :: "string \<Rightarrow> int" where
  "get_volume_number filename =
     (if contains filename ''.tar.'' then
        (case py_int (split_dot_last filename) of Some n \<Rightarrow> n | None \<Rightarrow> 0)
      else 0)"

text \<open>
  \<^verbatim>\<open>_get_archive_timestamp\<close>: \<^verbatim>\<open>re.search(r'_(\d{8}_\d{6})_', base_name)\<close> takes the
  leftmost place where the pattern fits, and \<^verbatim>\<open>datetime.strptime(..., "%Y%m%d_%H%M%S")\<close>
  reads it; a \<^verbatim>\<open>ValueError\<close> (no such calendar day, hour above 23, ...) gives
  \<^verbatim>\<open>None\<close>, and later places are not tried. A \<^verbatim>\<open>datetime\<close> is the tuple of its
  fields, compared field by field as Python compares naive datetimes.
\<close>

type_synonym datetime = "nat \<times> nat \<times> nat \<times> nat \<times> nat \<times> nat"

definition stamp_here :: "string \<Rightarrow> bool" where
  "stamp_here s =
     (17 \<le> length s \<and> s ! 0 = CHR ''_'' \<and> list_all is_digit (take 8 (drop 1 s))
      \<and> s ! 9 = CHR ''_'' \<and> list_all is_digit (take 6 (drop 10 s)) \<and> s ! 16 = CHR ''_'')"

fun re_search_stamp :: "string \<Rightarrow> string option" where
  "re_search_stamp [] = None"
| "re_search_stamp (c # s) =
     (if stamp_here (c # s) then Some (take 15 s) else re_search_stamp s)"

definition is_leap :: "nat \<Rightarrow> bool" where
  "is_leap y = (y mod 4 = 0 \<and> (y mod 100 \<noteq> 0 \<or> y mod 400 = 0))"

definition days_in_month :: "nat \<Rightarrow> nat \<Rightarrow> nat" where
  "days_in_month y m =
     (if m = 2 then (if is_leap y then 29 else 28)
      else if m \<in> {4, 6, 9, 11} then 30 else 31)"

definition strptime :: "string \<Rightarrow> datetime option" where
  "strptime g =
     (let y = digits_value (take 4 g); mo = digits_value (take 2 (drop 4 g));
          d = digits_value (take 2 (drop 6 g)); h = digits_value (take 2 (drop 9 g));
          mi = digits_value (take 2 (drop 11 g)); s = digits_value (take 2 (drop 13 g))
      in if 1 \<le> y \<and> 1 \<le> mo \<and> mo \<le> 12 \<and> 1 \<le> d \<and> d \<le> days_in_month y mo
            \<and> h \<le> 23 \<and> mi \<le> 59 \<and> s \<le> 59
         then Some (y, mo, d, h, mi, s) else None)"

definition get_archive_timestamp :: "string \<Rightarrow> datetime option" where
  "get_archive_timestamp base_name =
     (case re_search_stamp base_name of
        Some g \<Rightarrow> strptime g
      | None \<Rightarrow> None)"

subsection \<open>Exceptions, the environment and its trace\<close>

text \<open>
  The exception classes the code tells apart. \<^verbatim>\<open>ftplib.error_temp\<close> and
  \<^verbatim>\<open>ftplib.error_perm\<close> are the transient and the permanent FTP replies;
  \<^verbatim>\<open>KeyboardInterrupt\<close> is the one class here that is not an \<^verbatim>\<open>Exception\<close>, so
  \<^verbatim>\<open>except Exception\<close> lets it through and only a bare \<^verbatim>\<open>except:\<close> stops it.
\<close>

datatype exn =
  error_temp | error_perm | ConnectionError | KeyError | ValueError | OtherException
  | KeyboardInterrupt

definition is_Exception :: "exn \<Rightarrow> bool" where
  "is_Exception e = (e \<noteq> KeyboardInterrupt)"

text \<open>
  Every call that leaves the program (FTP commands, the local file system, the clock) is
  recorded with its outcome, \<^const>\<open>Inl\<close> for a raised exception. \<^term>\<open>Upload_call\<close>
  marks an entry into \<^verbatim>\<open>_upload_file_to_ftp_with_retry\<close>. A session is numbered by
  the order in which it was opened.
\<close>

type_synonym session = nat

datatype event =
    Connect "exn + session"
  | Cwd session string "exn + unit"
  | Mkd session string "exn + unit"
  | Nlst session "exn + string list"
  | Stat string "exn + nat"
  | Open_rb string "exn + unit"
  | Storbinary session string "exn + unit"
  | Size session string "exn + nat option"
  | Delete session string "exn + unit"
  | Quit session "exn + unit"
  | Sleep nat "exn + unit"
  | Glob string "exn + string list"
  | Exists string "exn + bool"
  | Unlink string "exn + unit"
  | Upload_call string

type_synonym world = "event list"

text \<open>
  The environment answers each call from the history so far and the call's arguments; it
  is otherwise arbitrary. \<open>set_order\<close> is the order in which Python iterates over a
  set of strings.
\<close>

record env =
  ftp_connect :: "world \<Rightarrow> exn + unit"
  ftp_cwd :: "world \<Rightarrow> session \<Rightarrow> string \<Rightarrow> exn + unit"
  ftp_mkd :: "world \<Rightarrow> session \<Rightarrow> string \<Rightarrow> exn + unit"
  ftp_nlst :: "world \<Rightarrow> session \<Rightarrow> exn + string list"
  ftp_storbinary :: "world \<Rightarrow> session \<Rightarrow> string \<Rightarrow> exn + unit"
  ftp_size :: "world \<Rightarrow> session \<Rightarrow> string \<Rightarrow> exn + nat option"
  ftp_delete :: "world \<Rightarrow> session \<Rightarrow> string \<Rightarrow> exn + unit"
  ftp_quit :: "world \<Rightarrow> session \<Rightarrow> exn + unit"
  path_stat :: "world \<Rightarrow> string \<Rightarrow> exn + nat"
  path_open :: "world \<Rightarrow> string \<Rightarrow> exn + unit"
  path_glob :: "world \<Rightarrow> string \<Rightarrow> exn + string list"
  path_exists :: "world \<Rightarrow> string \<Rightarrow> exn + bool"
  path_unlink :: "world \<Rightarrow> string \<Rightarrow> exn + unit"
  time_sleep :: "world \<Rightarrow> nat \<Rightarrow> exn + unit"
  set_order :: "string list \<Rightarrow> string list"

type_synonym 'a prog = "world \<Rightarrow> (exn + 'a) \<times> world"

definition perform :: "(exn + 'a) \<Rightarrow> ((exn + 'a) \<Rightarrow> event) \<Rightarrow> 'a prog" where
  "perform r ev w = (r, w @ [ev r])"

definition seq :: "'a prog \<Rightarrow> ('a \<Rightarrow> 'b prog) \<Rightarrow> 'b prog" where
  "seq m f w = (case m w of (Inl e, w') \<Rightarrow> (Inl e, w') | (Inr a, w') \<Rightarrow> f a w')"

definition return :: "'a \<Rightarrow> 'a prog" where
  "return a w = (Inr a, w)"

definition raise :: "exn \<Rightarrow> 'a prog" where
  "raise e w = (Inl e, w)"

text \<open>\<^verbatim>\<open>try: m  except Exception: h\<close> and \<^verbatim>\<open>try: m  except: h\<close>.\<close>

definition except_Exception :: "'a prog \<Rightarrow> (exn \<Rightarrow> 'a prog) \<Rightarrow> 'a prog" where
  "except_Exception m h w =
     (case m w of
        (Inl e, w') \<Rightarrow> (if is_Exception e then h e w' else (Inl e, w'))
      | (Inr a, w') \<Rightarrow> (Inr a, w'))"

definition except_bare :: "'a prog \<Rightarrow> 'a prog \<Rightarrow> 'a prog" where
  "except_bare m h w = (case m w of (Inl e, w') \<Rightarrow> h w' | (Inr a, w') \<Rightarrow> (Inr a, w'))"

fun is_opened :: "event \<Rightarrow> bool" where
  "is_opened (Connect (Inr s)) = True"
| "is_opened ev = False"

definition connect :: "env \<Rightarrow> session prog" where
  "connect E w =
     (case ftp_connect E w of
        Inl e \<Rightarrow> (Inl e, w @ [Connect (Inl e)])
      | Inr u \<Rightarrow> (Inr (length (filter is_opened w)), w @ [Connect (Inr (length (filter is_opened w)))]))"

definition cwd :: "env \<Rightarrow> session \<Rightarrow> string \<Rightarrow> unit prog" where
  "cwd E ftp dir w = perform (ftp_cwd E w ftp dir) (Cwd ftp dir) w"

definition mkd :: "env \<Rightarrow> session \<Rightarrow> string \<Rightarrow> unit prog" where
  "mkd E ftp dir w = perform (ftp_mkd E w ftp dir) (Mkd ftp dir) w"

definition nlst :: "env \<Rightarrow> session \<Rightarrow> string list prog" where
  "nlst E ftp w = perform (ftp_nlst E w ftp) (Nlst ftp) w"

definition storbinary :: "env \<Rightarrow> session \<Rightarrow> string \<Rightarrow> unit prog" where
  "storbinary E ftp name w = perform (ftp_storbinary E w ftp name) (Storbinary ftp name) w"

definition size_ftp :: "env \<Rightarrow> session \<Rightarrow> string \<Rightarrow> nat option prog" where
  "size_ftp E ftp name w = perform (ftp_size E w ftp name) (Size ftp name) w"

definition delete :: "env \<Rightarrow> session \<Rightarrow> string \<Rightarrow> unit prog" where
  "delete E ftp name w = perform (ftp_delete E w ftp name) (Delete ftp name) w"

definition quit :: "env \<Rightarrow> session \<Rightarrow> unit prog" where
  "quit E ftp w = perform (ftp_quit E w ftp) (Quit ftp) w"

definition stat :: "env \<Rightarrow> string \<Rightarrow> nat prog" where
  "stat E name w = perform (path_stat E w name) (Stat name) w"

definition open_rb :: "env \<Rightarrow> string \<Rightarrow> unit prog" where
  "open_rb E name w = perform (path_open E w name) (Open_rb name) w"

definition glob :: "env \<Rightarrow> string \<Rightarrow> string list prog" where
  "glob E pattern w = perform (path_glob E w pattern) (Glob pattern) w"

definition exists_file :: "env \<Rightarrow> string \<Rightarrow> bool prog" where
  "exists_file E name w = perform (path_exists E w name) (Exists name) w"

definition unlink :: "env \<Rightarrow> string \<Rightarrow> unit prog" where
  "unlink E name w = perform (path_unlink E w name) (Unlink name) w"

definition sleep :: "env \<Rightarrow> nat \<Rightarrow> unit prog" where
  "sleep E n w = perform (time_sleep E w n) (Sleep n) w"

subsection \<open>Configuration and connection\<close>

text \<open>
  The parsed configuration: a section name gives the section, a key its string value.
  \<^verbatim>\<open>self.config['FTP']\<close> on a missing section, and \<^verbatim>\<open>ftp_config['server']\<close> on a
  missing key, raise \<^verbatim>\<open>KeyError\<close>.
\<close>

type_synonym config = "string \<Rightarrow> (string \<Rightarrow> string option) option"

definition get_section :: "config \<Rightarrow> string \<Rightarrow> exn + (string \<Rightarrow> string option)" where
  "get_section C name = (case C name of None \<Rightarrow> Inl KeyError | Some sec \<Rightarrow> Inr sec)"

definition get_item :: "(string \<Rightarrow> string option) \<Rightarrow> string \<Rightarrow> exn + string" where
  "get_item sec key = (case sec key of None \<Rightarrow> Inl KeyError | Some v \<Rightarrow> Inr v)"

definition lift :: "exn + 'a \<Rightarrow> 'a prog" where
  "lift r w = (r, w)"

text \<open>
  \<^verbatim>\<open>_connect_ftp\<close>: three attempts, five seconds apart; the third failure raises
  \<^verbatim>\<open>ConnectionError\<close>. The body of the \<^verbatim>\<open>try\<close> reads the three keys and opens the
  session. A \<^verbatim>\<open>for\<close> loop that ends without \<^verbatim>\<open>return\<close> gives \<^verbatim>\<open>None\<close>.
\<close>

definition connect_attempt :: "config \<Rightarrow> env \<Rightarrow> session prog" where
  "connect_attempt C E =
     seq (lift (get_section C ''FTP'')) (\<lambda>ftp_config.
     seq (lift (get_item ftp_config ''server'')) (\<lambda>_.
     seq (lift (get_item ftp_config ''username'')) (\<lambda>_.
     seq (lift (get_item ftp_config ''password'')) (\<lambda>_.
     connect E))))"

fun connect_attempts :: "config \<Rightarrow> env \<Rightarrow> nat \<Rightarrow> nat list \<Rightarrow> session option prog" where
  "connect_attempts C E max_retries [] w = (Inr None, w)"
| "connect_attempts C E max_retries (attempt # rest) w =
     (case connect_attempt C E w of
        (Inr ftp, w') \<Rightarrow> (Inr (Some ftp), w')
      | (Inl e, w') \<Rightarrow>
          if is_Exception e then
            (if attempt < max_retries - 1 then
               (case sleep E 5 w' of
                  (Inl e', w'') \<Rightarrow> (Inl e', w'')
                | (Inr u, w'') \<Rightarrow> connect_attempts C E max_retries rest w'')
             else (Inl ConnectionError, w'))
          else (Inl e, w'))"

text \<open>
  The three attempts never fall out of the loop (lemma \<open>connect_attempts_Some\<close> below),
  so the caller always holds a session.
\<close>

definition connect_ftp :: "config \<Rightarrow> env \<Rightarrow> session prog" where
  "connect_ftp C E w =
     (case connect_attempts C E 3 [0..<3] w of
        (Inr (Some ftp), w') \<Rightarrow> (Inr ftp, w')
      | (Inr None, w') \<Rightarrow> (Inl OtherException, w')
      | (Inl e, w') \<Rightarrow> (Inl e, w'))"

subsection \<open>The remote directory\<close>

text \<open>\<^verbatim>\<open>PurePosixPath(p).parts\<close>: the root, if any, then the components that are neither
  empty nor a single dot.\<close>

fun split_slash :: "string \<Rightarrow> string list" where
  "split_slash [] = [[]]"
| "split_slash (c # s) =
     (if c = CHR ''/'' then [] # split_slash s
      else (case split_slash s of [] \<Rightarrow> [[c]] | x # xs \<Rightarrow> (c # x) # xs))"

definition posix_parts :: "string \<Rightarrow> string list" where
  "posix_parts p =
     (let comps = filter (\<lambda>c. c \<noteq> [] \<and> c \<noteq> ''.'') (split_slash p)
      in if startswith p ''//'' \<and> \<not> startswith p ''///'' then ''//'' # comps
         else if startswith p ''/'' then ''/'' # comps
         else comps)"

text \<open>
  \<^verbatim>\<open>_ensure_remote_directory\<close>. Only \<^verbatim>\<open>error_perm\<close> from \<^verbatim>\<open>cwd\<close> starts the
  walk; in the walk an \<^verbatim>\<open>error_perm\<close> from \<^verbatim>\<open>cwd\<close> leads to \<^verbatim>\<open>mkd\<close>, whose failure is
  raised again; the last \<^verbatim>\<open>cwd\<close> sits in a bare \<^verbatim>\<open>except: pass\<close>.
\<close>

fun make_parts :: "env \<Rightarrow> session \<Rightarrow> string \<Rightarrow> string list \<Rightarrow> unit prog" where
  "make_parts E ftp current_path [] w = (Inr (), w)"
| "make_parts E ftp current_path (part # parts) w =
     (let current = (if current_path \<noteq> [] then current_path @ ''/'' @ part else part)
      in case cwd E ftp current w of
           (Inr u, w') \<Rightarrow> make_parts E ftp current parts w'
         | (Inl e, w') \<Rightarrow>
             if e = error_perm then
               (case mkd E ftp current w' of
                  (Inr u, w'') \<Rightarrow> make_parts E ftp current parts w''
                | (Inl e', w'') \<Rightarrow> (Inl e', w''))
             else (Inl e, w'))"

definition ensure_remote_directory :: "env \<Rightarrow> session \<Rightarrow> string \<Rightarrow> unit prog" where
  "ensure_remote_directory E ftp remote_path w =
     (case cwd E ftp remote_path w of
        (Inr u, w') \<Rightarrow> (Inr (), w')
      | (Inl e, w') \<Rightarrow>
          if e = error_perm then
            seq (make_parts E ftp [] (posix_parts remote_path))
                (\<lambda>_. except_bare (cwd E ftp remote_path) (return ())) w'
          else (Inl e, w'))"

subsection \<open>Locating the local archive sets\<close>

text \<open>\<^verbatim>\<open>_should_ignore\<close>: a pattern with a leading star is a suffix test, any other a
  substring test.\<close>

definition should_ignore :: "string list \<Rightarrow> string \<Rightarrow> bool" where
  "should_ignore ignore_patterns filename =
     list_ex (\<lambda>pattern. if startswith pattern ''*'' then endswith filename (tl pattern)
                         else contains filename pattern) ignore_patterns"

text \<open>
  A Python \<^verbatim>\<open>dict\<close> of lists keeps its keys in insertion order: an association list.
  \<open>dict_append d k v\<close> is \<^verbatim>\<open>if k not in d: d[k] = []\<close> followed by
  \<^verbatim>\<open>d[k].append(v)\<close>.
\<close>

type_synonym archive_dict = "(string \<times> string list) list"

fun dict_append :: "archive_dict \<Rightarrow> string \<Rightarrow> string \<Rightarrow> archive_dict" where
  "dict_append [] k v = [(k, [v])]"
| "dict_append ((k', vs) # d) k v =
     (if k' = k then (k', vs @ [v]) # d else (k', vs) # dict_append d k v)"

fun group_files :: "string list \<Rightarrow> string list \<Rightarrow> archive_dict \<Rightarrow> archive_dict" where
  "group_files ignore_patterns [] archive_files = archive_files"
| "group_files ignore_patterns (name # names) archive_files =
     (if should_ignore ignore_patterns name then group_files ignore_patterns names archive_files
      else (case get_archive_base_name name of
              None \<Rightarrow> group_files ignore_patterns names archive_files
            | Some base_name \<Rightarrow>
                if base_name \<noteq> [] then
                  group_files ignore_patterns names (dict_append archive_files base_name name)
                else group_files ignore_patterns names archive_files))"

text \<open>
  \<^verbatim>\<open>_get_multi_volume_archives\<close>: the files of \<^verbatim>\<open>*.tar\<close>, then those of \<^verbatim>\<open>*.tar.*\<close>,
  grouped by base name; each group is then sorted by volume number (\<^verbatim>\<open>list.sort\<close> is
  stable, as \<^const>\<open>sort_key\<close> is). A file is known by its name in the source directory.
\<close>

definition get_multi_volume_archives :: "env \<Rightarrow> string list \<Rightarrow> archive_dict prog" where
  "get_multi_volume_archives E ignore_patterns =
     seq (glob E ''*.tar'') (\<lambda>tars.
     seq (glob E ''*.tar.*'') (\<lambda>parts.
     return (map (\<lambda>(base_name, files). (base_name, sort_key get_volume_number files))
               (group_files ignore_patterns parts (group_files ignore_patterns tars [])))))"

subsection \<open>The existence check and the Transfer Executor\<close>

text \<open>\<^verbatim>\<open>_check_archive_exists_on_ftp\<close>: the remote names that start with the base name;
  any \<^verbatim>\<open>Exception\<close> gives \<^verbatim>\<open>(False, [])\<close>.\<close>

definition check_archive_exists_on_ftp ::
  "env \<Rightarrow> session \<Rightarrow> string \<Rightarrow> string \<Rightarrow> (bool \<times> string list) prog" where
  "check_archive_exists_on_ftp E ftp base_name remote_dir =
     except_Exception
       (seq (cwd E ftp remote_dir) (\<lambda>_.
        seq (nlst E ftp) (\<lambda>files.
        return (0 < length (filter (\<lambda>file. startswith file base_name) files),
                filter (\<lambda>file. startswith file base_name) files))))
       (\<lambda>e. return (False, []))"

text \<open>\<^verbatim>\<open>_verify_file_integrity\<close>: the local size against the remote \<^verbatim>\<open>SIZE\<close>; any
  \<^verbatim>\<open>Exception\<close> gives \<^verbatim>\<open>False\<close>.\<close>

definition verify_file_integrity :: "env \<Rightarrow> session \<Rightarrow> string \<Rightarrow> string \<Rightarrow> bool prog" where
  "verify_file_integrity E ftp local_file remote_filename =
     except_Exception
       (seq (stat E local_file) (\<lambda>local_size.
        seq (size_ftp E ftp remote_filename) (\<lambda>remote_size.
        case remote_size of
          None \<Rightarrow> return False
        | Some n \<Rightarrow> if local_size \<noteq> n then return False else return True)))
       (\<lambda>e. return False)"

text \<open>The body of the \<^verbatim>\<open>try\<close> of one upload attempt; its value is the verification's.\<close>

definition upload_try :: "env \<Rightarrow> session \<Rightarrow> string \<Rightarrow> string \<Rightarrow> string \<Rightarrow> bool prog" where
  "upload_try E ftp local_file remote_filename remote_dir =
     seq (cwd E ftp remote_dir) (\<lambda>_.
     seq (stat E local_file) (\<lambda>_.
     seq (open_rb E local_file) (\<lambda>_.
     seq (storbinary E ftp remote_filename) (\<lambda>_.
     verify_file_integrity E ftp local_file remote_filename))))"

text \<open>
  \<^verbatim>\<open>_upload_file_to_ftp_with_retry\<close>. \<open>ftp\<close> is the function's local variable: the
  \<^verbatim>\<open>error_temp\<close> handler rebinds it to the new session for the attempts that remain.
  An exception raised inside a handler (by \<^verbatim>\<open>time.sleep\<close> or \<^verbatim>\<open>_connect_ftp\<close>) leaves
  the function; \<^verbatim>\<open>ftp.quit()\<close> sits in a bare \<^verbatim>\<open>except: pass\<close>.
\<close>

fun upload_attempts ::
  "config \<Rightarrow> env \<Rightarrow> session \<Rightarrow> string \<Rightarrow> string \<Rightarrow> string \<Rightarrow> nat \<Rightarrow> nat list \<Rightarrow> bool prog" where
  "upload_attempts C E ftp local_file remote_filename remote_dir max_retries [] w = (Inr False, w)"
| "upload_attempts C E ftp local_file remote_filename remote_dir max_retries (attempt # rest) w =
     (case upload_try E ftp local_file remote_filename remote_dir w of
        (Inr True, w') \<Rightarrow> (Inr True, w')
      | (Inr False, w') \<Rightarrow>
          upload_attempts C E ftp local_file remote_filename remote_dir max_retries rest w'
      | (Inl e, w') \<Rightarrow>
          if e = error_temp then
            (if attempt < max_retries - 1 then
               (case sleep E (2 ^ attempt) w' of
                  (Inl e1, w1) \<Rightarrow> (Inl e1, w1)
                | (Inr u, w1) \<Rightarrow>
                    (case connect_ftp C E (snd (quit E ftp w1)) of
                       (Inl e2, w2) \<Rightarrow> (Inl e2, w2)
                     | (Inr ftp', w2) \<Rightarrow>
                         upload_attempts C E ftp' local_file remote_filename remote_dir
                           max_retries rest w2))
             else (Inr False, w'))
          else if is_Exception e then
            (if attempt < max_retries - 1 then
               (case sleep E (2 ^ attempt) w' of
                  (Inl e1, w1) \<Rightarrow> (Inl e1, w1)
                | (Inr u, w1) \<Rightarrow>
                    upload_attempts C E ftp local_file remote_filename remote_dir
                      max_retries rest w1)
             else (Inr False, w'))
          else (Inl e, w'))"

definition upload_file_to_ftp_with_retry ::
  "config \<Rightarrow> env \<Rightarrow> session \<Rightarrow> string \<Rightarrow> string \<Rightarrow> string \<Rightarrow> nat \<Rightarrow> bool prog" where
  "upload_file_to_ftp_with_retry C E ftp local_file remote_filename remote_dir max_retries w =
     upload_attempts C E ftp local_file remote_filename remote_dir max_retries [0..<max_retries]
       (w @ [Upload_call remote_filename])"

subsection \<open>The Reconciler\<close>

text \<open>
  The two volume loops of \<^verbatim>\<open>_process_archive_set\<close>; both stop with \<^verbatim>\<open>False\<close> at the
  first upload that fails, and the caller passes the same \<open>ftp\<close> to every upload.
  \<^verbatim>\<open>max_retries\<close> is left at its default, 3.
\<close>

fun upload_all_volumes ::
  "config \<Rightarrow> env \<Rightarrow> session \<Rightarrow> string \<Rightarrow> string list \<Rightarrow> bool prog" where
  "upload_all_volumes C E ftp remote_dir [] w = (Inr True, w)"
| "upload_all_volumes C E ftp remote_dir (volume # volumes) w =
     (case upload_file_to_ftp_with_retry C E ftp volume volume remote_dir 3 w of
        (Inr True, w') \<Rightarrow> upload_all_volumes C E ftp remote_dir volumes w'
      | (Inr False, w') \<Rightarrow> (Inr False, w')
      | (Inl e, w') \<Rightarrow> (Inl e, w'))"

fun upload_missing_volumes ::
  "config \<Rightarrow> env \<Rightarrow> session \<Rightarrow> string \<Rightarrow> string set \<Rightarrow> string list \<Rightarrow> bool prog" where
  "upload_missing_volumes C E ftp remote_dir missing [] w = (Inr True, w)"
| "upload_missing_volumes C E ftp remote_dir missing (volume # volumes) w =
     (if volume \<in> missing then
        (case upload_file_to_ftp_with_retry C E ftp volume volume remote_dir 3 w of
           (Inr True, w') \<Rightarrow> upload_missing_volumes C E ftp remote_dir missing volumes w'
         | (Inr False, w') \<Rightarrow> (Inr False, w')
         | (Inl e, w') \<Rightarrow> (Inl e, w'))
      else upload_missing_volumes C E ftp remote_dir missing volumes w)"

definition process_archive_set ::
  "config \<Rightarrow> env \<Rightarrow> session \<Rightarrow> string \<Rightarrow> string list \<Rightarrow> string \<Rightarrow> bool prog" where
  "process_archive_set C E ftp base_name archive_set remote_dir =
     except_Exception
       (seq (check_archive_exists_on_ftp E ftp base_name remote_dir) (\<lambda>(exists, existing_files).
        if exists then
          (if length existing_files = length archive_set then return True
           else if set archive_set - set existing_files \<noteq> {} then
             upload_missing_volumes C E ftp remote_dir
               (set archive_set - set existing_files) archive_set
           else return True)
        else upload_all_volumes C E ftp remote_dir archive_set))
       (\<lambda>e. return False)"

subsection \<open>Retention\<close>

text \<open>
  The run keeps two Python sets of base names; they are lists without repetition here.
  \<^verbatim>\<open>xs[:j]\<close> for an integer \<open>j\<close> counts from the end when \<open>j\<close> is negative, and
  \<^verbatim>\<open>xs[:-n]\<close> is \<^verbatim>\<open>xs[:j]\<close> at \<open>j = - n\<close>.
\<close>

definition set_add :: "string list \<Rightarrow> string \<Rightarrow> string list" where
  "set_add xs x = (if x \<in> set xs then xs else xs @ [x])"

definition slice_to :: "'a list \<Rightarrow> int \<Rightarrow> 'a list" where
  "slice_to xs j = (if j < 0 then take (nat (int (length xs) + j)) xs else take (nat j) xs)"

text \<open>\<^verbatim>\<open>_cleanup_old_ftp_backups\<close>: the grouping loop, the list of timestamped sets, and
  the two deletion loops; a failed \<^verbatim>\<open>delete\<close> is logged and the loop goes on.\<close>

fun group_remote :: "string list \<Rightarrow> string list \<Rightarrow> archive_dict \<Rightarrow> archive_dict" where
  "group_remote successful [] archive_sets = archive_sets"
| "group_remote successful (filename # files) archive_sets =
     (case get_archive_base_name filename of
        None \<Rightarrow> group_remote successful files archive_sets
      | Some base_name \<Rightarrow>
          if base_name \<noteq> [] \<and> base_name \<in> set successful then
            group_remote successful files (dict_append archive_sets base_name filename)
          else group_remote successful files archive_sets)"

fun remote_timestamps :: "archive_dict \<Rightarrow> (datetime \<times> string \<times> string list) list" where
  "remote_timestamps [] = []"
| "remote_timestamps ((base_name, file_list) # archive_sets) =
     (case get_archive_timestamp base_name of
        Some timestamp \<Rightarrow>
          (timestamp, base_name, sort_key get_volume_number file_list)
            # remote_timestamps archive_sets
      | None \<Rightarrow> remote_timestamps archive_sets)"

fun delete_files :: "env \<Rightarrow> session \<Rightarrow> string list \<Rightarrow> unit prog" where
  "delete_files E ftp [] w = (Inr (), w)"
| "delete_files E ftp (filename # file_list) w =
     (case delete E ftp filename w of
        (Inr u, w') \<Rightarrow> delete_files E ftp file_list w'
      | (Inl e, w') \<Rightarrow> if is_Exception e then delete_files E ftp file_list w' else (Inl e, w'))"

fun remove_remote_sets ::
  "env \<Rightarrow> session \<Rightarrow> (datetime \<times> string \<times> string list) list \<Rightarrow> unit prog" where
  "remove_remote_sets E ftp [] w = (Inr (), w)"
| "remove_remote_sets E ftp ((timestamp, base_name, file_list) # to_remove) w =
     (case delete_files E ftp file_list w of
        (Inr u, w') \<Rightarrow> remove_remote_sets E ftp to_remove w'
      | (Inl e, w') \<Rightarrow> (Inl e, w'))"

definition cleanup_old_ftp_backups ::
  "env \<Rightarrow> string list \<Rightarrow> session \<Rightarrow> string \<Rightarrow> int \<Rightarrow> unit prog" where
  "cleanup_old_ftp_backups E successful ftp remote_dir max_copies =
     except_Exception
       (seq (cwd E ftp remote_dir) (\<lambda>_.
        seq (nlst E ftp) (\<lambda>files.
        let archive_timestamps =
              sort_key fst (remote_timestamps (group_remote successful files []))
        in if int (length archive_timestamps) > max_copies
           then remove_remote_sets E ftp (slice_to archive_timestamps (- max_copies))
           else return ())))
       (\<lambda>e. return ())"

text \<open>
  \<^verbatim>\<open>_cleanup_local_archives\<close>. The files of a successful set are those that
  \<^verbatim>\<open>glob(base_name + "*")\<close> finds; \<open>dict_set\<close> is \<^verbatim>\<open>d[k] = v\<close>. Each file is removed
  inside its own \<^verbatim>\<open>try\<close>.
\<close>

fun dict_set :: "archive_dict \<Rightarrow> string \<Rightarrow> string list \<Rightarrow> archive_dict" where
  "dict_set [] k v = [(k, v)]"
| "dict_set ((k', v') # d) k v = (if k' = k then (k, v) # d else (k', v') # dict_set d k v)"

fun find_successful_sets :: "env \<Rightarrow> string list \<Rightarrow> archive_dict \<Rightarrow> archive_dict prog" where
  "find_successful_sets E [] successful_sets w = (Inr successful_sets, w)"
| "find_successful_sets E (base_name # rest) successful_sets w =
     (case glob E (base_name @ ''*'') w of
        (Inl e, w') \<Rightarrow> (Inl e, w')
      | (Inr files, w') \<Rightarrow>
          find_successful_sets E rest
            (if files \<noteq> [] then dict_set successful_sets base_name files else successful_sets) w')"

fun local_timestamps :: "archive_dict \<Rightarrow> (datetime \<times> string \<times> string list) list" where
  "local_timestamps [] = []"
| "local_timestamps ((base_name, file_list) # successful_sets) =
     (case get_archive_timestamp base_name of
        Some timestamp \<Rightarrow> (timestamp, base_name, file_list) # local_timestamps successful_sets
      | None \<Rightarrow> local_timestamps successful_sets)"

definition remove_local_file :: "env \<Rightarrow> string \<Rightarrow> unit prog" where
  "remove_local_file E file_path =
     except_Exception
       (seq (exists_file E file_path) (\<lambda>present.
        if present then
          seq (stat E file_path) (\<lambda>_. unlink E file_path)
        else return ()))
       (\<lambda>e. return ())"

fun remove_local_files :: "env \<Rightarrow> string list \<Rightarrow> unit prog" where
  "remove_local_files E [] w = (Inr (), w)"
| "remove_local_files E (file_path # file_list) w =
     (case remove_local_file E file_path w of
        (Inr u, w') \<Rightarrow> remove_local_files E file_list w'
      | (Inl e, w') \<Rightarrow> (Inl e, w'))"

fun remove_local_sets :: "env \<Rightarrow> (datetime \<times> string \<times> string list) list \<Rightarrow> unit prog" where
  "remove_local_sets E [] w = (Inr (), w)"
| "remove_local_sets E ((timestamp, base_name, file_list) # to_remove) w =
     (case remove_local_files E file_list w of
        (Inr u, w') \<Rightarrow> remove_local_sets E to_remove w'
      | (Inl e, w') \<Rightarrow> (Inl e, w'))"

definition cleanup_local_archives :: "env \<Rightarrow> string list \<Rightarrow> unit prog" where
  "cleanup_local_archives E successful =
     except_Exception
       (seq (find_successful_sets E (set_order E successful) []) (\<lambda>successful_sets.
        if length successful_sets \<le> 1 then return ()
        else if local_timestamps successful_sets = [] then return ()
        else remove_local_sets E
               (slice_to (sort_key fst (local_timestamps successful_sets)) (- 1))))
       (\<lambda>e. return ())"

subsection \<open>The run and the process exit status\<close>

text \<open>The fields of the \<^verbatim>\<open>FTPBackup\<close> object that the run assigns.\<close>

record backup =
  self_ftp :: "session option"
  successful_uploads :: "string list"
  failed_uploads :: "string list"

text \<open>\<^verbatim>\<open>int(settings.get('max_copies', 5))\<close>.\<close>

definition read_max_copies :: "(string \<Rightarrow> string option) \<Rightarrow> exn + int" where
  "read_max_copies settings =
     (case settings ''max_copies'' of
        None \<Rightarrow> Inr 5
      | Some v \<Rightarrow> (case py_int v of None \<Rightarrow> Inl ValueError | Some n \<Rightarrow> Inr n))"

text \<open>
  The loop over the archive sets: a set that fails, or whose processing raises an
  \<^verbatim>\<open>Exception\<close>, is recorded as failed and the loop goes on. \<open>ftp\<close> is the value of
  \<^verbatim>\<open>self.ftp\<close>, which nothing assigns after the connection at the start of the run.
\<close>

fun process_sets ::
  "config \<Rightarrow> env \<Rightarrow> session \<Rightarrow> string \<Rightarrow> archive_dict \<Rightarrow> backup \<Rightarrow> world
     \<Rightarrow> (exn + unit) \<times> backup \<times> world" where
  "process_sets C E ftp remote_dir [] self w = (Inr (), self, w)"
| "process_sets C E ftp remote_dir ((base_name, file_list) # archive_sets) self w =
     (case process_archive_set C E ftp base_name file_list remote_dir w of
        (Inr True, w') \<Rightarrow>
          process_sets C E ftp remote_dir archive_sets
            (self\<lparr>successful_uploads := set_add (successful_uploads self) base_name\<rparr>) w'
      | (Inr False, w') \<Rightarrow>
          process_sets C E ftp remote_dir archive_sets
            (self\<lparr>failed_uploads := set_add (failed_uploads self) base_name\<rparr>) w'
      | (Inl e, w') \<Rightarrow>
          if is_Exception e then
            process_sets C E ftp remote_dir archive_sets
              (self\<lparr>failed_uploads := set_add (failed_uploads self) base_name\<rparr>) w'
          else (Inl e, self, w'))"

text \<open>The two prunes, run only when some set succeeded.\<close>

definition cleanup :: "env \<Rightarrow> session \<Rightarrow> string \<Rightarrow> int \<Rightarrow> backup \<Rightarrow> unit prog" where
  "cleanup E ftp remote_dir max_copies self =
     (if successful_uploads self \<noteq> [] then
        seq (cleanup_old_ftp_backups E (successful_uploads self) ftp remote_dir max_copies)
            (\<lambda>_. cleanup_local_archives E (successful_uploads self))
      else return ())"

text \<open>
  The part of \<^verbatim>\<open>run\<close> from the connection on, then the part before it, which reads the
  three sections, the two directories and \<^verbatim>\<open>max_copies\<close> from the configuration. The
  value is what \<^verbatim>\<open>run\<close> returns inside its \<^verbatim>\<open>try\<close>: \<^verbatim>\<open>None\<close> when
  no archive is found, else 1 or 0.
\<close>

definition run_connected ::
  "config \<Rightarrow> env \<Rightarrow> string list \<Rightarrow> string \<Rightarrow> int \<Rightarrow> backup \<Rightarrow> world
     \<Rightarrow> (exn + int option) \<times> backup \<times> world" where
  "run_connected C E ignore_patterns remote_dir max_copies self w =
     (case connect_ftp C E w of
        (Inl e, w1) \<Rightarrow> (Inl e, self, w1)
      | (Inr ftp, w1) \<Rightarrow>
          (case ensure_remote_directory E ftp remote_dir w1 of
             (Inl e, w2) \<Rightarrow> (Inl e, self\<lparr>self_ftp := Some ftp\<rparr>, w2)
           | (Inr u, w2) \<Rightarrow>
               (case get_multi_volume_archives E ignore_patterns w2 of
                  (Inl e, w3) \<Rightarrow> (Inl e, self\<lparr>self_ftp := Some ftp\<rparr>, w3)
                | (Inr archive_sets, w3) \<Rightarrow>
                    if archive_sets = [] then (Inr None, self\<lparr>self_ftp := Some ftp\<rparr>, w3)
                    else
                      (case process_sets C E ftp remote_dir archive_sets
                              (self\<lparr>self_ftp := Some ftp\<rparr>) w3 of
                         (Inl e, self', w4) \<Rightarrow> (Inl e, self', w4)
                       | (Inr u, self', w4) \<Rightarrow>
                           (case cleanup E ftp remote_dir max_copies self' w4 of
                              (Inl e, w5) \<Rightarrow> (Inl e, self', w5)
                            | (Inr u, w5) \<Rightarrow>
                                (Inr (Some (if failed_uploads self' \<noteq> [] then 1 else 0)),
                                 self', w5))))))"

definition read_config :: "config \<Rightarrow> exn + string \<times> int" where
  "read_config C =
     (case get_section C ''FTP'' of
        Inl e \<Rightarrow> Inl e
      | Inr ftp_config \<Rightarrow>
     (case get_section C ''LOCAL'' of
        Inl e \<Rightarrow> Inl e
      | Inr local_config \<Rightarrow>
     (case get_section C ''SETTINGS'' of
        Inl e \<Rightarrow> Inl e
      | Inr settings \<Rightarrow>
     (case get_item local_config ''source_dir'' of
        Inl e \<Rightarrow> Inl e
      | Inr source_dir \<Rightarrow>
     (case get_item ftp_config ''remote_dir'' of
        Inl e \<Rightarrow> Inl e
      | Inr remote_dir \<Rightarrow>
     (case read_max_copies settings of
        Inl e \<Rightarrow> Inl e
      | Inr max_copies \<Rightarrow> Inr (remote_dir, max_copies)))))))"

definition run_body ::
  "config \<Rightarrow> env \<Rightarrow> string list \<Rightarrow> backup \<Rightarrow> world \<Rightarrow> (exn + int option) \<times> backup \<times> world" where
  "run_body C E ignore_patterns self w =
     (case read_config C of
        Inl e \<Rightarrow> (Inl e, self, w)
      | Inr (remote_dir, max_copies) \<Rightarrow>
          run_connected C E ignore_patterns remote_dir max_copies self w)"

text \<open>
  \<^verbatim>\<open>run\<close>: an \<^verbatim>\<open>Exception\<close> out of the body gives 2; the \<^verbatim>\<open>finally\<close> clause quits the
  session, if one was opened, inside a bare \<^verbatim>\<open>except: pass\<close>.
\<close>

definition run ::
  "config \<Rightarrow> env \<Rightarrow> string list \<Rightarrow> backup \<Rightarrow> world \<Rightarrow> (exn + int option) \<times> backup \<times> world" where
  "run C E ignore_patterns self w =
     (case run_body C E ignore_patterns self w of
        (r, self', w') \<Rightarrow>
          ((case r of
              Inl e \<Rightarrow> if is_Exception e then Inr (Some 2) else Inl e
            | Inr return_code \<Rightarrow> Inr return_code),
           self',
           (case self_ftp self' of Some ftp \<Rightarrow> snd (quit E ftp w') | None \<Rightarrow> w')))"

text \<open>
  \<^verbatim>\<open>main\<close>: the process exit status. \<open>init\<close> is the outcome of the constructor
  \<^verbatim>\<open>FTPBackup()\<close>, which loads the configuration and the ignore patterns;
  \<^verbatim>\<open>sys.exit(None)\<close> is status 0.
\<close>

definition new_backup :: backup where
  "new_backup = \<lparr>self_ftp = None, successful_uploads = [], failed_uploads = []\<rparr>"

definition main :: "env \<Rightarrow> exn + config \<times> string list \<Rightarrow> world \<Rightarrow> int \<times> world" where
  "main E init w =
     (case init of
        Inl e \<Rightarrow> (if e = KeyboardInterrupt then 130 else 2, w)
      | Inr (C, ignore_patterns) \<Rightarrow>
          (case run C E ignore_patterns new_backup w of
             (Inl e, self', w') \<Rightarrow> (if e = KeyboardInterrupt then 130 else 2, w')
           | (Inr None, self', w') \<Rightarrow> (0, w')
           | (Inr (Some return_code), self', w') \<Rightarrow> (return_code, w')))"

subsection \<open>Example environments\<close>

text \<open>
  \<open>calm\<close> is a server and a file system where every call succeeds: the remote directory
  is empty and every file has 100 bytes on both sides. The other examples change single
  answers of it. \<open>star_match\<close> is the matching of a \<^verbatim>\<open>glob\<close> pattern whose only special
  character is the star, and \<open>directory\<close> a source directory holding the given names.
\<close>

definition calm :: env where
  "calm =
     \<lparr>ftp_connect = (\<lambda>w. Inr ()), ftp_cwd = (\<lambda>w s d. Inr ()), ftp_mkd = (\<lambda>w s d. Inr ()),
      ftp_nlst = (\<lambda>w s. Inr []), ftp_storbinary = (\<lambda>w s n. Inr ()),
      ftp_size = (\<lambda>w s n. Inr (Some 100)), ftp_delete = (\<lambda>w s n. Inr ()),
      ftp_quit = (\<lambda>w s. Inr ()), path_stat = (\<lambda>w n. Inr 100), path_open = (\<lambda>w n. Inr ()),
      path_glob = (\<lambda>w p. Inr []), path_exists = (\<lambda>w n. Inr True),
      path_unlink = (\<lambda>w n. Inr ()), time_sleep = (\<lambda>w n. Inr ()), set_order = (\<lambda>xs. xs)\<rparr>"

fun star_match :: "string \<Rightarrow> string \<Rightarrow> bool" where
  "star_match [] s = (s = [])"
| "star_match (p # ps) [] = (p = CHR ''*'' \<and> star_match ps [])"
| "star_match (p # ps) (c # cs) =
     (if p = CHR ''*'' then star_match ps (c # cs) \<or> star_match (p # ps) cs
      else p = c \<and> star_match ps cs)"

definition directory :: "string list \<Rightarrow> env \<Rightarrow> env" where
  "directory names E = E\<lparr>path_glob := (\<lambda>w p. Inr (filter (star_match p) names))\<rparr>"

definition listing :: "string list \<Rightarrow> env \<Rightarrow> env" where
  "listing names E = E\<lparr>ftp_nlst := (\<lambda>w s. Inr names)\<rparr>"


definition example_config :: "string \<Rightarrow> config" where
  "example_config max_copies =
     map_of
       [(''FTP'', map_of [(''server'', ''ftp.example.org''), (''username'', ''backup''),
                          (''password'', ''secret''), (''remote_dir'', ''/backups'')]),
        (''LOCAL'', map_of [(''source_dir'', ''/var/backups'')]),
        (''SETTINGS'', map_of [(''max_copies'', max_copies)])]"

text \<open>
  \<open>closing\<close> makes a session unusable once it was quit, as \<^verbatim>\<open>ftplib\<close> does: every
  command on it raises. \<open>transient_stores k\<close> fails the first \<open>k\<close> \<^verbatim>\<open>STOR\<close> commands of
  the run with a transient error, \<open>interrupted_store\<close> has the user interrupt every \<^verbatim>\<open>STOR\<close>, and \<open>unreachable\<close>
  refuses every new connection.
\<close>

fun was_quit :: "session \<Rightarrow> event list \<Rightarrow> bool" where
  "was_quit s [] = False"
| "was_quit s (Quit s' r # tr) = (s' = s \<or> was_quit s tr)"
| "was_quit s (ev # tr) = was_quit s tr"

fun stores :: "event list \<Rightarrow> nat" where
  "stores [] = 0"
| "stores (Storbinary s name r # tr) = Suc (stores tr)"
| "stores (ev # tr) = stores tr"

definition closing :: "env \<Rightarrow> env" where
  "closing E =
     E\<lparr>ftp_cwd := (\<lambda>w s d. if was_quit s w then Inl OtherException else ftp_cwd E w s d),
       ftp_nlst := (\<lambda>w s. if was_quit s w then Inl OtherException else ftp_nlst E w s),
       ftp_storbinary :=
         (\<lambda>w s n. if was_quit s w then Inl OtherException else ftp_storbinary E w s n),
       ftp_size := (\<lambda>w s n. if was_quit s w then Inl OtherException else ftp_size E w s n),
       ftp_delete := (\<lambda>w s n. if was_quit s w then Inl OtherException else ftp_delete E w s n)\<rparr>"

definition transient_stores :: "nat \<Rightarrow> env \<Rightarrow> env" where
  "transient_stores k E =
     E\<lparr>ftp_storbinary :=
         (\<lambda>w s n. if stores w < k then Inl error_temp else ftp_storbinary E w s n)\<rparr>"

text \<open>
  \<open>server init\<close> lists what a server holds that started with the names \<open>init\<close>: those,
  and every name stored since, less the names deleted. \<open>store_refused name\<close> answers
  every \<^verbatim>\<open>STOR\<close> of \<open>name\<close> with a permanent error.
\<close>

fun remote_files :: "string list \<Rightarrow> event list \<Rightarrow> string list" where
  "remote_files names [] = names"
| "remote_files names (Storbinary s n (Inr u) # tr) =
     remote_files (if n \<in> set names then names else names @ [n]) tr"
| "remote_files names (Delete s n (Inr u) # tr) = remote_files (removeAll n names) tr"
| "remote_files names (ev # tr) = remote_files names tr"

definition server :: "string list \<Rightarrow> env \<Rightarrow> env" where
  "server init E = E\<lparr>ftp_nlst := (\<lambda>w s. Inr (remote_files init w))\<rparr>"

definition store_refused :: "string \<Rightarrow> env \<Rightarrow> env" where
  "store_refused name E =
     E\<lparr>ftp_storbinary := (\<lambda>w s n. if n = name then Inl error_perm else ftp_storbinary E w s n)\<rparr>"

definition interrupted_store :: "env \<Rightarrow> env" where
  "interrupted_store E = E\<lparr>ftp_storbinary := (\<lambda>w s n. Inl KeyboardInterrupt)\<rparr>"

definition unreachable :: "env \<Rightarrow> env" where
  "unreachable E = E\<lparr>ftp_connect := (\<lambda>w. Inl OtherException)\<rparr>"

text \<open>
  \<open>timeout_stores k\<close> fails the first \<open>k\<close> \<^verbatim>\<open>STOR\<close> commands of the run with an
  exception that is not an \<^verbatim>\<open>ftplib\<close> reply, as a socket timeout or a connection reset
  is. \<open>interrupted_quit\<close> has the user interrupt the first \<^verbatim>\<open>quit\<close> of the run. In
  \<open>interrupted_walk\<close> the remote directory is missing: the first \<^verbatim>\<open>cwd\<close> and the third
  are refused, and the user interrupts the fourth, which is the last \<^verbatim>\<open>cwd\<close> of
  \<^verbatim>\<open>_ensure_remote_directory\<close> for a path of two parts.
\<close>

definition timeout_stores :: "nat \<Rightarrow> env \<Rightarrow> env" where
  "timeout_stores k E =
     E\<lparr>ftp_storbinary :=
         (\<lambda>w s n. if stores w < k then Inl OtherException else ftp_storbinary E w s n)\<rparr>"

fun quits :: "event list \<Rightarrow> nat" where
  "quits [] = 0"
| "quits (Quit s r # tr) = Suc (quits tr)"
| "quits (ev # tr) = quits tr"

fun cwds :: "event list \<Rightarrow> nat" where
  "cwds [] = 0"
| "cwds (Cwd s d r # tr) = Suc (cwds tr)"
| "cwds (ev # tr) = cwds tr"

definition interrupted_quit :: "env \<Rightarrow> env" where
  "interrupted_quit E =
     E\<lparr>ftp_quit := (\<lambda>w s. if quits w = 0 then Inl KeyboardInterrupt else ftp_quit E w s)\<rparr>"

definition interrupted_walk :: "env \<Rightarrow> env" where
  "interrupted_walk E =
     E\<lparr>ftp_cwd :=
         (\<lambda>w s d. if cwds w = 0 \<or> cwds w = 2 then Inl error_perm
                  else if cwds w = 3 then Inl KeyboardInterrupt
                  else ftp_cwd E w s d)\<rparr>"

text \<open>The projections of a trace that the theorems speak about.\<close>

fun upload_calls :: "event list \<Rightarrow> string list" where
  "upload_calls [] = []"
| "upload_calls (Upload_call name # tr) = name # upload_calls tr"
| "upload_calls (ev # tr) = upload_calls tr"

fun stored :: "event list \<Rightarrow> (session \<times> string \<times> (exn + unit)) list" where
  "stored [] = []"
| "stored (Storbinary ftp name r # tr) = (ftp, name, r) # stored tr"
| "stored (ev # tr) = stored tr"

fun sleeps :: "event list \<Rightarrow> nat list" where
  "sleeps [] = []"
| "sleeps (Sleep n r # tr) = n # sleeps tr"
| "sleeps (ev # tr) = sleeps tr"

fun deleted :: "event list \<Rightarrow> string list" where
  "deleted [] = []"
| "deleted (Delete ftp name r # tr) = name # deleted tr"
| "deleted (ev # tr) = deleted tr"

fun unlinked :: "event list \<Rightarrow> string list" where
  "unlinked [] = []"
| "unlinked (Unlink name r # tr) = name # unlinked tr"
| "unlinked (ev # tr) = unlinked tr"

text \<open>
  A volume was stored and size-verified in a stretch of the trace: a successful
  \<^verbatim>\<open>STOR\<close> of it is followed by the local size and an equal remote \<^verbatim>\<open>SIZE\<close>.
\<close>

definition verified_in :: "event list \<Rightarrow> string \<Rightarrow> bool" where
  "verified_in tr v =
     (\<exists>pre post s k.
        tr = pre @ [Storbinary s v (Inr ()), Stat v (Inr k), Size s v (Inr (Some k))] @ post)"

text \<open>The invariant of the grouping loops: no group is empty, and every file of a group
  has the group's key as its base name.\<close>

definition grouped :: "archive_dict \<Rightarrow> bool" where
  "grouped d = list_all (\<lambda>(b, fs). fs \<noteq> [] \<and> list_all (\<lambda>f. get_archive_base_name f = Some b) fs) d"

text \<open>
  The condition under which the remote prune puts a listed file into the group of the
  base name \<open>b\<close>, and the list of timestamped groups, oldest first, that it builds from a
  listing.
\<close>

definition wanted :: "string list \<Rightarrow> string \<Rightarrow> string \<Rightarrow> bool" where
  "wanted successful b f = (get_archive_base_name f = Some b \<and> b \<noteq> [] \<and> b \<in> set successful)"

definition stamped_sets ::
  "string list \<Rightarrow> string list \<Rightarrow> (datetime \<times> string \<times> string list) list" where
  "stamped_sets successful files =
     sort_key fst (remote_timestamps (group_remote successful files []))"

section \<open>Properties\<close>

subsection \<open>Unfolding the primitives, and the projections of a trace\<close>

lemmas prog_defs =
  seq_def return_def raise_def except_Exception_def except_bare_def perform_def lift_def

lemmas op_defs =
  cwd_def mkd_def nlst_def storbinary_def size_ftp_def delete_def quit_def stat_def
  open_rb_def glob_def exists_file_def unlink_def sleep_def

lemma upload_calls_append: "upload_calls (xs @ ys) = upload_calls xs @ upload_calls ys"
  by (induction xs rule: upload_calls.induct) simp_all

lemma stored_append: "stored (xs @ ys) = stored xs @ stored ys"
  by (induction xs rule: stored.induct) simp_all

lemma sleeps_append: "sleeps (xs @ ys) = sleeps xs @ sleeps ys"
  by (induction xs rule: sleeps.induct) simp_all

lemma deleted_append: "deleted (xs @ ys) = deleted xs @ deleted ys"
  by (induction xs rule: deleted.induct) simp_all

lemma unlinked_append: "unlinked (xs @ ys) = unlinked xs @ unlinked ys"
  by (induction xs rule: unlinked.induct) simp_all

subsection \<open>The existence check\<close>

lemma check_listing:
  assumes "ftp_cwd E w ftp remote_dir = Inr ()"
    and "ftp_nlst E (w @ [Cwd ftp remote_dir (Inr ())]) ftp = Inr files"
  shows "check_archive_exists_on_ftp E ftp base_name remote_dir w =
           (Inr (0 < length (filter (\<lambda>file. startswith file base_name) files),
                 filter (\<lambda>file. startswith file base_name) files),
            w @ [Cwd ftp remote_dir (Inr ()), Nlst ftp (Inr files)])"
  using assms by (simp add: check_archive_exists_on_ftp_def prog_defs op_defs)

lemma set_set_add: "set (set_add xs x) = insert x (set xs)"
  by (auto simp: set_add_def)

lemma process_sets_keeps_successful:
  "x \<in> set (successful_uploads self)
   \<Longrightarrow> x \<in> set (successful_uploads (fst (snd (process_sets C E ftp dir sets self w))))"
proof (induction sets arbitrary: self w)
  case Nil
  then show ?case by simp
next
  case (Cons bf sets)
  obtain b fs where bf: "bf = (b, fs)" by (cases bf)
  obtain r w1 where p: "process_archive_set C E ftp b fs dir w = (r, w1)"
    by (cases "process_archive_set C E ftp b fs dir w")
  have s: "x \<in> set (successful_uploads (self\<lparr>successful_uploads := set_add (successful_uploads self) b\<rparr>))"
    using Cons.prems by (simp add: set_set_add)
  have f: "x \<in> set (successful_uploads (self\<lparr>failed_uploads := set_add (failed_uploads self) b\<rparr>))"
    using Cons.prems by simp
  show ?case
  proof (cases r)
    case (Inl e)
    with p bf Cons.IH[OF f, of w1] Cons.prems show ?thesis by simp
  next
    case (Inr v)
    with p bf Cons.IH[OF f, of w1] Cons.IH[OF s, of w1] show ?thesis by (cases v) simp_all
  qed
qed

lemma process_sets_failed:
  "set (failed_uploads (fst (snd (process_sets C E ftp dir sets self w))))
     \<subseteq> set (failed_uploads self) \<union> fst ` set sets"
proof (induction sets arbitrary: self w)
  case Nil
  then show ?case by simp
next
  case (Cons bf sets)
  obtain b fs where bf: "bf = (b, fs)" by (cases bf)
  obtain r w1 where p: "process_archive_set C E ftp b fs dir w = (r, w1)"
    by (cases "process_archive_set C E ftp b fs dir w")
  note s = Cons.IH[of "self\<lparr>successful_uploads := set_add (successful_uploads self) b\<rparr>" w1]
  note f = Cons.IH[of "self\<lparr>failed_uploads := set_add (failed_uploads self) b\<rparr>" w1]
  show ?case
  proof (cases r)
    case (Inl e)
    with p bf f show ?thesis by (auto simp: set_set_add)
  next
    case (Inr v)
    with p bf f s show ?thesis by (cases v) (auto simp: set_set_add)
  qed
qed

text \<open>
  Claim C4 (idempotent skip). When the remote listing holds as many names that start
  with the base name as the set has local volumes, the Reconciler returns \<^verbatim>\<open>True\<close>
  after the listing alone: the trace grows by the \<^verbatim>\<open>cwd\<close> and the \<^verbatim>\<open>NLST\<close> only, so no
  upload is called and nothing is stored. The loop of the run then adds the base name to
  \<^verbatim>\<open>successful_uploads\<close>, where it still is when the loop ends; and it is not in
  \<^verbatim>\<open>failed_uploads\<close> then, unless it was there before or a later set has the same base
  name (the Locator returns each base name once).
\<close>

theorem idempotent_skip:
  assumes "ftp_cwd E w ftp remote_dir = Inr ()"
    and "ftp_nlst E (w @ [Cwd ftp remote_dir (Inr ())]) ftp = Inr files"
    and "length (filter (\<lambda>file. startswith file base_name) files) = length archive_set"
  shows "process_archive_set C E ftp base_name archive_set remote_dir w =
           (Inr True, w @ [Cwd ftp remote_dir (Inr ()), Nlst ftp (Inr files)])
       \<and> upload_calls (snd (process_archive_set C E ftp base_name archive_set remote_dir w))
           = upload_calls w
       \<and> stored (snd (process_archive_set C E ftp base_name archive_set remote_dir w))
           = stored w
       \<and> process_sets C E ftp remote_dir ((base_name, archive_set) # archive_sets) self w =
           process_sets C E ftp remote_dir archive_sets
             (self\<lparr>successful_uploads := set_add (successful_uploads self) base_name\<rparr>)
             (w @ [Cwd ftp remote_dir (Inr ()), Nlst ftp (Inr files)])
       \<and> base_name \<in> set (successful_uploads (fst (snd
           (process_sets C E ftp remote_dir ((base_name, archive_set) # archive_sets) self w))))
       \<and> (base_name \<notin> set (failed_uploads self) \<longrightarrow> base_name \<notin> fst ` set archive_sets
           \<longrightarrow> base_name \<notin> set (failed_uploads (fst (snd
                 (process_sets C E ftp remote_dir ((base_name, archive_set) # archive_sets)
                    self w)))))"
proof -
  let ?w = "w @ [Cwd ftp remote_dir (Inr ()), Nlst ftp (Inr files)]"
  let ?self = "self\<lparr>successful_uploads := set_add (successful_uploads self) base_name\<rparr>"
  have p: "process_archive_set C E ftp base_name archive_set remote_dir w = (Inr True, ?w)"
  proof (cases "archive_set = []")
    case True
    with assms(3) show ?thesis
      by (simp add: process_archive_set_def check_listing[OF assms(1,2)] prog_defs)
  next
    case False
    with assms(3) show ?thesis
      by (simp add: process_archive_set_def check_listing[OF assms(1,2)] prog_defs)
  qed
  have q: "process_sets C E ftp remote_dir ((base_name, archive_set) # archive_sets) self w =
           process_sets C E ftp remote_dir archive_sets ?self ?w"
    using p by simp
  have "base_name \<in> set (successful_uploads ?self)" by (simp add: set_set_add)
  from process_sets_keeps_successful[OF this, of C E ftp remote_dir archive_sets ?w]
  have m: "base_name \<in> set (successful_uploads (fst (snd
           (process_sets C E ftp remote_dir ((base_name, archive_set) # archive_sets) self w))))"
    unfolding q .
  have n: "base_name \<notin> set (failed_uploads (fst (snd
                 (process_sets C E ftp remote_dir ((base_name, archive_set) # archive_sets)
                    self w))))"
    if "base_name \<notin> set (failed_uploads self)" "base_name \<notin> fst ` set archive_sets"
    using process_sets_failed[of C E ftp remote_dir archive_sets ?self ?w] that
    unfolding q by auto
  from p q m n show ?thesis by (simp add: upload_calls_append stored_append)
qed

theorem idempotent_skip_witness:
  "process_archive_set (example_config ''5'')
     (listing [''db_20260127_020401_full.tar'', ''db_20260127_020401_full.tar.1''] calm) 0
     ''db_20260127_020401_full.tar''
     [''db_20260127_020401_full.tar'', ''db_20260127_020401_full.tar.1''] ''/backups''
     [Connect (Inr 0)]
   = (Inr True,
      [Connect (Inr 0), Cwd 0 ''/backups'' (Inr ()),
       Nlst 0 (Inr [''db_20260127_020401_full.tar'', ''db_20260127_020401_full.tar.1''])])
   \<and> process_sets (example_config ''5'')
       (listing [''db_20260127_020401_full.tar'', ''db_20260127_020401_full.tar.1''] calm) 0
       ''/backups''
       [(''db_20260127_020401_full.tar'',
         [''db_20260127_020401_full.tar'', ''db_20260127_020401_full.tar.1''])]
       new_backup [Connect (Inr 0)]
     = (Inr (),
        \<lparr>self_ftp = None, successful_uploads = [''db_20260127_020401_full.tar''],
         failed_uploads = []\<rparr>,
        [Connect (Inr 0), Cwd 0 ''/backups'' (Inr ()),
         Nlst 0 (Inr [''db_20260127_020401_full.tar'', ''db_20260127_020401_full.tar.1''])])"
  using idempotent_skip
    [where E = "listing [''db_20260127_020401_full.tar'', ''db_20260127_020401_full.tar.1''] calm"
       and w = "[Connect (Inr 0)]" and ftp = 0 and remote_dir = "''/backups''"
       and files = "[''db_20260127_020401_full.tar'', ''db_20260127_020401_full.tar.1'']"
       and base_name = "''db_20260127_020401_full.tar''"
       and archive_set = "[''db_20260127_020401_full.tar'', ''db_20260127_020401_full.tar.1'']"
       and C = "example_config ''5''" and archive_sets = "[]" and self = new_backup]
  by (simp add: listing_def calm_def set_add_def new_backup_def)

subsection \<open>What the connection and an upload attempt add to the trace\<close>

lemma connect_attempt_trace:
  "\<exists>tr. snd (connect_attempt C E w) = w @ tr \<and> upload_calls tr = [] \<and> stored tr = []"
  by (auto simp: connect_attempt_def connect_def prog_defs get_section_def get_item_def
      split: sum.splits option.splits)

lemma connect_attempts_trace:
  "\<exists>tr. snd (connect_attempts C E n as w) = w @ tr \<and> upload_calls tr = [] \<and> stored tr = []"
proof (induction as arbitrary: w)
  case Nil
  then show ?case by simp
next
  case (Cons a as)
  obtain r w1 where c: "connect_attempt C E w = (r, w1)" by (cases "connect_attempt C E w")
  from connect_attempt_trace[of C E w] c obtain t1 where
    t1: "w1 = w @ t1" "upload_calls t1 = []" "stored t1 = []" by auto
  from Cons.IH[of "w1 @ [Sleep 5 (Inr ())]"] obtain t2 where
    t2: "snd (connect_attempts C E n as (w1 @ [Sleep 5 (Inr ())])) = w1 @ [Sleep 5 (Inr ())] @ t2"
        "upload_calls t2 = []" "stored t2 = []" by auto
  show ?case using c t1 t2
    by (auto simp: sleep_def perform_def upload_calls_append stored_append
        split: sum.splits)
qed

lemma connect_attempts_Some: "fst (connect_attempts C E 3 [0..<3] w) \<noteq> Inr None"
proof -
  have u: "[0..<3] = [0, 1, 2]" by (simp add: upt_rec)
  show ?thesis unfolding u
    by (simp add: sleep_def perform_def split: prod.splits sum.splits)
qed

lemma connect_ftp_trace:
  "\<exists>tr. snd (connect_ftp C E w) = w @ tr \<and> upload_calls tr = [] \<and> stored tr = []"
  using connect_attempts_trace[of C E 3 "[0..<3]" w]
  by (auto simp: connect_ftp_def split: prod.splits sum.splits option.splits)

lemma upload_try_True:
  assumes "upload_try E ftp lf rn dir w = (Inr True, w')"
  shows "\<exists>k0 k. w' = w @ [Cwd ftp dir (Inr ()), Stat lf (Inr k0), Open_rb lf (Inr ()),
            Storbinary ftp rn (Inr ()), Stat lf (Inr k), Size ftp rn (Inr (Some k))]"
  using assms
  by (auto simp: upload_try_def verify_file_integrity_def prog_defs op_defs
      split: sum.splits option.splits prod.splits if_splits)

lemma upload_try_trace:
  "\<exists>tr. snd (upload_try E ftp lf rn dir w) = w @ tr \<and> upload_calls tr = []
        \<and> length (stored tr) \<le> 1 \<and> sleeps tr = []"
  by (auto simp: upload_try_def verify_file_integrity_def prog_defs op_defs
      split: sum.splits option.splits prod.splits if_splits)


lemma sleep_snd: "snd (sleep E n w) = w @ [Sleep n (time_sleep E w n)]"
  by (simp add: sleep_def perform_def)

lemma quit_snd: "snd (quit E ftp w) = w @ [Quit ftp (ftp_quit E w ftp)]"
  by (simp add: quit_def perform_def)

lemma upload_attempts_calls:
  "\<exists>tr. snd (upload_attempts C E ftp lf rn dir n as w) = w @ tr \<and> upload_calls tr = []"
proof (induction as arbitrary: ftp w)
  case Nil
  show ?case by simp
next
  case (Cons a as)
  obtain r w1 where t: "upload_try E ftp lf rn dir w = (r, w1)"
    by (cases "upload_try E ftp lf rn dir w")
  from upload_try_trace[of E ftp lf rn dir w] t obtain t1 where
    t1: "w1 = w @ t1" "upload_calls t1 = []" by auto
  let ?ws = "w1 @ [Sleep (2 ^ a) (Inr ())]"
  let ?wq = "snd (quit E ftp ?ws)"
  obtain r2 w2 where c: "connect_ftp C E ?wq = (r2, w2)" by (cases "connect_ftp C E ?wq")
  from connect_ftp_trace[of C E ?wq] c obtain t2 where
    t2: "w2 = ?wq @ t2" "upload_calls t2 = []" by auto
  have ih1: "\<exists>tr. snd (upload_attempts C E ftp lf rn dir n as w1) = w1 @ tr \<and> upload_calls tr = []"
    by (rule Cons.IH)
  have ih2: "\<exists>tr. snd (upload_attempts C E ftp lf rn dir n as ?ws) = ?ws @ tr \<and> upload_calls tr = []"
    by (rule Cons.IH)
  have ih3: "\<And>f. \<exists>tr. snd (upload_attempts C E f lf rn dir n as w2) = w2 @ tr \<and> upload_calls tr = []"
    by (rule Cons.IH)
  show ?case
  proof (cases r)
    case (Inr b)
    then show ?thesis using t t1 ih1 by (cases b) (auto simp: upload_calls_append)
  next
    case (Inl e)
    show ?thesis
    proof (cases "time_sleep E w1 (2 ^ a)")
      case sl: (Inl e1)
      then show ?thesis using t t1 Inl
        by (auto simp: sleep_def perform_def upload_calls_append)
    next
      case sr: (Inr u)
      show ?thesis
      proof (cases r2)
        case c1: (Inl e2)
        then show ?thesis using t t1 Inl sr c t2 ih2
          by (auto simp: sleep_def perform_def quit_snd upload_calls_append)
      next
        case c2: (Inr f)
        then show ?thesis using t t1 Inl sr c t2 ih2 ih3[of f]
          by (auto simp: sleep_def perform_def quit_snd upload_calls_append)
      qed
    qed
  qed
qed

text \<open>The ways in which one round of the retry loop can go, as a case rule.\<close>

lemma upload_attempts_Cons_cases [consumes 1, case_names success verify_failed transient_retry
    reconnect_failed sleep_interrupted transient_last other_retry other_last interrupted]:
  assumes "upload_attempts C E ftp lf rn dir n (a # as) w = (r, w')"
  obtains
    "upload_try E ftp lf rn dir w = (Inr True, w')" "r = Inr True"
  | w1 where "upload_try E ftp lf rn dir w = (Inr False, w1)"
      "upload_attempts C E ftp lf rn dir n as w1 = (r, w')"
  | w1 w2 ftp' where "upload_try E ftp lf rn dir w = (Inl error_temp, w1)" "a < n - 1"
      "time_sleep E w1 (2 ^ a) = Inr ()"
      "connect_ftp C E (w1 @ [Sleep (2 ^ a) (Inr ()),
          Quit ftp (ftp_quit E (w1 @ [Sleep (2 ^ a) (Inr ())]) ftp)]) = (Inr ftp', w2)"
      "upload_attempts C E ftp' lf rn dir n as w2 = (r, w')"
  | w1 e where "upload_try E ftp lf rn dir w = (Inl error_temp, w1)" "a < n - 1"
      "time_sleep E w1 (2 ^ a) = Inr ()"
      "connect_ftp C E (w1 @ [Sleep (2 ^ a) (Inr ()),
          Quit ftp (ftp_quit E (w1 @ [Sleep (2 ^ a) (Inr ())]) ftp)]) = (Inl e, w')"
      "r = Inl e"
  | w1 e e1 where "upload_try E ftp lf rn dir w = (Inl e, w1)" "is_Exception e" "a < n - 1"
      "time_sleep E w1 (2 ^ a) = Inl e1" "r = Inl e1" "w' = w1 @ [Sleep (2 ^ a) (Inl e1)]"
  | "upload_try E ftp lf rn dir w = (Inl error_temp, w')" "\<not> a < n - 1" "r = Inr False"
  | w1 e where "upload_try E ftp lf rn dir w = (Inl e, w1)" "e \<noteq> error_temp" "is_Exception e"
      "a < n - 1" "time_sleep E w1 (2 ^ a) = Inr ()"
      "upload_attempts C E ftp lf rn dir n as (w1 @ [Sleep (2 ^ a) (Inr ())]) = (r, w')"
  | e where "upload_try E ftp lf rn dir w = (Inl e, w')" "e \<noteq> error_temp" "is_Exception e"
      "\<not> a < n - 1" "r = Inr False"
  | "upload_try E ftp lf rn dir w = (Inl KeyboardInterrupt, w')" "r = Inl KeyboardInterrupt"
proof -
  obtain r0 w1 where t: "upload_try E ftp lf rn dir w = (r0, w1)"
    by (cases "upload_try E ftp lf rn dir w")
  let ?ws = "w1 @ [Sleep (2 ^ a) (Inr ())]"
  let ?wq = "w1 @ [Sleep (2 ^ a) (Inr ()), Quit ftp (ftp_quit E ?ws ftp)]"
  obtain r2 w2 where c: "connect_ftp C E ?wq = (r2, w2)"
    by (cases "connect_ftp C E ?wq")
  have sl: "sleep E (2 ^ a) w1 = (time_sleep E w1 (2 ^ a), w1 @ [Sleep (2 ^ a) (time_sleep E w1 (2 ^ a))])"
    by (simp add: sleep_def perform_def)
  have qu: "snd (quit E ftp ?ws) = ?wq"
    by (simp add: quit_def perform_def)
  show thesis
  proof (cases r0)
    case (Inr b)
    show thesis
    proof (cases b)
      case True
      with assms t Inr have "r = Inr True" "w' = w1" by simp_all
      with t Inr True show thesis by (intro that(1)) simp_all
    next
      case False
      with assms t Inr have "upload_attempts C E ftp lf rn dir n as w1 = (r, w')" by simp
      with t Inr False show thesis by (intro that(2)[of w1]) simp_all
    qed
  next
    case (Inl e)
    show thesis
    proof (cases "is_Exception e")
      case False
      then have e: "e = KeyboardInterrupt" by (simp add: is_Exception_def)
      with assms t Inl have "r = Inl KeyboardInterrupt" "w' = w1"
        by (simp_all add: is_Exception_def)
      with t Inl e show thesis by (intro that(9)) simp_all
    next
      case ex: True
      show thesis
      proof (cases "a < n - 1")
        case False
        with assms t Inl ex have "r = Inr False" "w' = w1" by (simp_all split: if_splits)
        with t Inl ex False show thesis
          by (cases "e = error_temp") (auto intro: that(6) that(8))
      next
        case lt: True
        show thesis
        proof (cases "time_sleep E w1 (2 ^ a)")
          case sl1: (Inl e1)
          with assms t Inl ex lt sl have "r = Inl e1" "w' = w1 @ [Sleep (2 ^ a) (Inl e1)]"
            by (simp_all split: if_splits)
          with t Inl ex lt sl1 show thesis by (intro that(5)[of e w1 e1]) simp_all
        next
          case sr: (Inr u)
          show thesis
          proof (cases "e = error_temp")
            case False
            with assms t Inl ex lt sl sr
            have "upload_attempts C E ftp lf rn dir n as ?ws = (r, w')" by simp
            with t Inl ex lt sr False show thesis by (intro that(7)[of e w1]) simp_all
          next
            case et: True
            show thesis
            proof (cases r2)
              case c1: (Inl e2)
              with assms t Inl et lt sl sr c qu have "r = Inl e2" "w' = w2" by simp_all
              with t Inl et lt sr c c1 show thesis by (intro that(4)[of w1 e2]) simp_all
            next
              case c2: (Inr f)
              with assms t Inl et lt sl sr c qu
              have "upload_attempts C E f lf rn dir n as w2 = (r, w')" by simp
              with t Inl et lt sr c c2 show thesis by (intro that(3)[of w1 f w2]) simp_all
            qed
          qed
        qed
      qed
    qed
  qed
qed

lemma upload_try_ext:
  assumes "upload_try E ftp lf rn dir w = (r, w1)"
  obtains t1 where "w1 = w @ t1" "upload_calls t1 = []" "length (stored t1) \<le> 1" "sleeps t1 = []"
  using upload_try_trace[of E ftp lf rn dir w] assms by auto

lemma connect_ftp_ext:
  assumes "connect_ftp C E w = (r, w2)"
  obtains t2 where "w2 = w @ t2" "upload_calls t2 = []" "stored t2 = []"
  using connect_ftp_trace[of C E w] assms by auto

lemma upload_attempts_stored:
  "upload_attempts C E ftp lf rn dir n as w = (r, w')
   \<Longrightarrow> \<exists>tr. w' = w @ tr \<and> upload_calls tr = [] \<and> length (stored tr) \<le> length as"
proof (induction as arbitrary: ftp w)
  case Nil
  then show ?case by simp
next
  case (Cons a as)
  from Cons.prems show ?case
  proof (cases rule: upload_attempts_Cons_cases)
    case success
    then show ?thesis by (elim upload_try_ext) auto
  next
    case (verify_failed w1)
    from verify_failed(1) obtain t1 where t1: "w1 = w @ t1" "upload_calls t1 = []" "length (stored t1) \<le> 1"
      by (elim upload_try_ext)
    from Cons.IH[OF verify_failed(2)] t1 show ?thesis
      by (auto simp: upload_calls_append stored_append)
  next
    case (transient_retry w1 w2 ftp')
    from transient_retry(1) obtain t1 where t1: "w1 = w @ t1" "upload_calls t1 = []" "length (stored t1) \<le> 1"
      by (elim upload_try_ext)
    from transient_retry(4) obtain t2 where t2: "w2 = (w1 @ [Sleep (2 ^ a) (Inr ()),
          Quit ftp (ftp_quit E (w1 @ [Sleep (2 ^ a) (Inr ())]) ftp)]) @ t2" "upload_calls t2 = []" "stored t2 = []"
      by (elim connect_ftp_ext)
    from Cons.IH[OF transient_retry(5)] t1 t2 show ?thesis
      by (auto simp: upload_calls_append stored_append)
  next
    case (reconnect_failed w1 e)
    from reconnect_failed(1) obtain t1 where t1: "w1 = w @ t1" "upload_calls t1 = []" "length (stored t1) \<le> 1"
      by (elim upload_try_ext)
    from reconnect_failed(4) obtain t2 where t2: "w' = (w1 @ [Sleep (2 ^ a) (Inr ()),
          Quit ftp (ftp_quit E (w1 @ [Sleep (2 ^ a) (Inr ())]) ftp)]) @ t2" "upload_calls t2 = []" "stored t2 = []"
      by (elim connect_ftp_ext)
    from t1 t2 show ?thesis by (auto simp: upload_calls_append stored_append)
  next
    case (sleep_interrupted w1 e e1)
    from sleep_interrupted(1) obtain t1 where t1: "w1 = w @ t1" "upload_calls t1 = []" "length (stored t1) \<le> 1"
      by (elim upload_try_ext)
    with sleep_interrupted show ?thesis by (auto simp: upload_calls_append stored_append)
  next
    case transient_last
    then show ?thesis by (elim upload_try_ext) auto
  next
    case (other_retry w1 e)
    from other_retry(1) obtain t1 where t1: "w1 = w @ t1" "upload_calls t1 = []" "length (stored t1) \<le> 1"
      by (elim upload_try_ext)
    from Cons.IH[OF other_retry(6)] t1 show ?thesis
      by (auto simp: upload_calls_append stored_append)
  next
    case (other_last e)
    then show ?thesis by (elim upload_try_ext) auto
  next
    case interrupted
    then show ?thesis by (elim upload_try_ext) auto
  qed
qed

lemma upload_attempts_True:
  "upload_attempts C E ftp lf rn dir n as w = (Inr True, w')
   \<Longrightarrow> \<exists>pre s k. w' = w @ pre @ [Storbinary s rn (Inr ()), Stat lf (Inr k), Size s rn (Inr (Some k))]"
proof (induction as arbitrary: ftp w)
  case Nil
  then show ?case by simp
next
  case (Cons a as)
  from Cons.prems show ?case
  proof (cases rule: upload_attempts_Cons_cases)
    case success
    from upload_try_True[OF success(1)] obtain k0 k where
      "w' = w @ [Cwd ftp dir (Inr ()), Stat lf (Inr k0), Open_rb lf (Inr ())]
               @ [Storbinary ftp rn (Inr ()), Stat lf (Inr k), Size ftp rn (Inr (Some k))]" by auto
    then show ?thesis by blast
  next
    case (verify_failed w1)
    from verify_failed(1) obtain t1 where t1: "w1 = w @ t1" by (elim upload_try_ext)
    from Cons.IH[OF verify_failed(2)] obtain pre s k where
      "w' = w1 @ pre @ [Storbinary s rn (Inr ()), Stat lf (Inr k), Size s rn (Inr (Some k))]" by blast
    with t1 have "w' = w @ (t1 @ pre) @ [Storbinary s rn (Inr ()), Stat lf (Inr k), Size s rn (Inr (Some k))]"
      by simp
    then show ?thesis by blast
  next
    case (transient_retry w1 w2 ftp')
    from transient_retry(1) obtain t1 where t1: "w1 = w @ t1" by (elim upload_try_ext)
    from transient_retry(4) obtain t2 where t2: "w2 = (w1 @ [Sleep (2 ^ a) (Inr ()),
          Quit ftp (ftp_quit E (w1 @ [Sleep (2 ^ a) (Inr ())]) ftp)]) @ t2"
      by (elim connect_ftp_ext)
    from Cons.IH[OF transient_retry(5)] obtain pre s k where
      "w' = w2 @ pre @ [Storbinary s rn (Inr ()), Stat lf (Inr k), Size s rn (Inr (Some k))]" by blast
    with t1 t2 have "w' = w @ (t1 @ [Sleep (2 ^ a) (Inr ()),
          Quit ftp (ftp_quit E (w1 @ [Sleep (2 ^ a) (Inr ())]) ftp)] @ t2 @ pre)
         @ [Storbinary s rn (Inr ()), Stat lf (Inr k), Size s rn (Inr (Some k))]"
      by simp
    then show ?thesis by blast
  next
    case (other_retry w1 e)
    from other_retry(1) obtain t1 where t1: "w1 = w @ t1" by (elim upload_try_ext)
    from Cons.IH[OF other_retry(6)] obtain pre s k where
      "w' = (w1 @ [Sleep (2 ^ a) (Inr ())]) @ pre @ [Storbinary s rn (Inr ()), Stat lf (Inr k), Size s rn (Inr (Some k))]" by blast
    with t1 have "w' = w @ (t1 @ [Sleep (2 ^ a) (Inr ())] @ pre)
         @ [Storbinary s rn (Inr ()), Stat lf (Inr k), Size s rn (Inr (Some k))]"
      by simp
    then show ?thesis by blast
  qed simp_all
qed

subsection \<open>One file, and the loops over the volumes\<close>

lemma verified_in_append: "verified_in tr v \<or> verified_in tr' v \<Longrightarrow> verified_in (tr @ tr') v"
  unfolding verified_in_def
proof (elim disjE exE)
  fix pre post s k
  assume "tr = pre @ [Storbinary s v (Inr ()), Stat v (Inr k), Size s v (Inr (Some k))] @ post"
  then have "tr @ tr' = pre @ [Storbinary s v (Inr ()), Stat v (Inr k), Size s v (Inr (Some k))] @ (post @ tr')"
    by simp
  then show "\<exists>pre post s k. tr @ tr' = pre @ [Storbinary s v (Inr ()), Stat v (Inr k), Size s v (Inr (Some k))] @ post"
    by blast
next
  fix pre post s k
  assume "tr' = pre @ [Storbinary s v (Inr ()), Stat v (Inr k), Size s v (Inr (Some k))] @ post"
  then have "tr @ tr' = (tr @ pre) @ [Storbinary s v (Inr ()), Stat v (Inr k), Size s v (Inr (Some k))] @ post"
    by simp
  then show "\<exists>pre post s k. tr @ tr' = pre @ [Storbinary s v (Inr ()), Stat v (Inr k), Size s v (Inr (Some k))] @ post"
    by blast
qed

lemma upload_file_trace:
  assumes "upload_file_to_ftp_with_retry C E ftp lf rn dir n w = (r, w')"
  shows "\<exists>tr. w' = w @ tr \<and> upload_calls tr = [rn] \<and> length (stored tr) \<le> n
           \<and> (r = Inr True \<longrightarrow> lf = rn \<longrightarrow> verified_in tr rn)"
proof -
  from assms have u: "upload_attempts C E ftp lf rn dir n [0..<n] (w @ [Upload_call rn]) = (r, w')"
    by (simp add: upload_file_to_ftp_with_retry_def)
  from upload_attempts_stored[OF u] obtain tr where
    tr: "w' = (w @ [Upload_call rn]) @ tr" "upload_calls tr = []" "length (stored tr) \<le> n" by auto
  have v: "verified_in ([Upload_call rn] @ tr) rn" if "r = Inr True" "lf = rn"
  proof -
    from u that upload_attempts_True[of C E ftp lf rn dir n "[0..<n]" "w @ [Upload_call rn]" w']
    obtain pre s k where
      "w' = (w @ [Upload_call rn]) @ pre @ [Storbinary s rn (Inr ()), Stat rn (Inr k), Size s rn (Inr (Some k))]"
      by auto
    with tr(1) have "tr = pre @ [Storbinary s rn (Inr ()), Stat rn (Inr k), Size s rn (Inr (Some k))] @ []"
      by simp
    then have "verified_in tr rn" unfolding verified_in_def by blast
    then show ?thesis by (intro verified_in_append) simp
  qed
  from tr v show ?thesis
    by (intro exI[of _ "[Upload_call rn] @ tr"]) (simp add: upload_calls_append stored_append)
qed

lemma upload_all_volumes_trace:
  "upload_all_volumes C E ftp dir vs w = (r, w')
   \<Longrightarrow> \<exists>tr. w' = w @ tr \<and> prefix (upload_calls tr) vs
          \<and> (r = Inr True \<longrightarrow> upload_calls tr = vs \<and> (\<forall>v\<in>set vs. verified_in tr v))"
proof (induction vs arbitrary: w)
  case Nil
  then show ?case by simp
next
  case (Cons v vs)
  obtain r1 w1 where u: "upload_file_to_ftp_with_retry C E ftp v v dir 3 w = (r1, w1)"
    by (cases "upload_file_to_ftp_with_retry C E ftp v v dir 3 w")
  from upload_file_trace[OF u] obtain t1 where
    t1: "w1 = w @ t1" "upload_calls t1 = [v]" "r1 = Inr True \<longrightarrow> verified_in t1 v" by auto
  show ?case
  proof (cases "r1 = Inr True")
    case True
    with Cons.prems u have "upload_all_volumes C E ftp dir vs w1 = (r, w')" by simp
    from Cons.IH[OF this] obtain t2 where
      t2: "w' = w1 @ t2" "prefix (upload_calls t2) vs"
          "r = Inr True \<longrightarrow> upload_calls t2 = vs \<and> (\<forall>v\<in>set vs. verified_in t2 v)" by auto
    from t1 t2 True show ?thesis
      by (intro exI[of _ "t1 @ t2"]) (auto simp: upload_calls_append intro: verified_in_append)
  next
    case False
    with Cons.prems u have "r = r1" "w' = w1"
      by (auto split: sum.splits bool.splits)
    with t1 False show ?thesis by (intro exI[of _ t1]) simp
  qed
qed

lemma upload_all_volumes_stops:
  "upload_file_to_ftp_with_retry C E ftp v v dir 3 w = (r, w') \<Longrightarrow> r \<noteq> Inr True
   \<Longrightarrow> upload_all_volumes C E ftp dir (v # vs) w = (r, w')"
  by (auto split: sum.splits bool.splits)

lemma upload_missing_volumes_filter:
  "upload_missing_volumes C E ftp dir missing vs w
     = upload_all_volumes C E ftp dir (filter (\<lambda>v. v \<in> missing) vs) w"
  by (induction vs arbitrary: w) (auto split: prod.splits sum.splits bool.splits)

subsection \<open>A listing that fails\<close>





subsection \<open>The sets that the Locator returns\<close>

lemma startswith_prefix: "startswith s p = prefix p s"
  by (induction s p rule: startswith.induct) auto

lemma rsplit_dot_head_prefix: "prefix (rsplit_dot_head s) s"
proof -
  have "suffix (tl (dropWhile (\<lambda>c. c \<noteq> CHR ''.'') (rev s))) (rev s)"
    by (meson suffix_dropWhile suffix_order.trans suffix_tl)
  then have "prefix (rev (tl (dropWhile (\<lambda>c. c \<noteq> CHR ''.'') (rev s)))) s"
    by (simp add: suffix_to_prefix)
  then show ?thesis by (simp add: rsplit_dot_head_def)
qed

lemma base_name_prefix: "get_archive_base_name f = Some b \<Longrightarrow> startswith f b"
  using rsplit_dot_head_prefix[of f]
  by (auto simp: get_archive_base_name_def startswith_prefix Let_def split: if_splits)

lemma grouped_dict_append:
  "grouped d \<Longrightarrow> get_archive_base_name f = Some b \<Longrightarrow> grouped (dict_append d b f)"
  by (induction d b f rule: dict_append.induct) (auto simp: grouped_def)

lemma grouped_group_files: "grouped d \<Longrightarrow> grouped (group_files pats fs d)"
  by (induction pats fs d rule: group_files.induct)
     (auto simp: grouped_dict_append split: option.splits)

lemma locator_sets:
  assumes "get_multi_volume_archives E pats w0 = (Inr archive_sets, w1)"
    and "(b, fs) \<in> set archive_sets"
  shows "fs \<noteq> [] \<and> sorted (map get_volume_number fs)
         \<and> (\<forall>f\<in>set fs. get_archive_base_name f = Some b \<and> startswith f b)"
proof -
  from assms(1) obtain tars parts where
    a: "archive_sets = map (\<lambda>(base_name, files). (base_name, sort_key get_volume_number files))
          (group_files pats parts (group_files pats tars []))"
    by (auto simp: get_multi_volume_archives_def prog_defs op_defs split: sum.splits)
  have g: "grouped (group_files pats parts (group_files pats tars []))"
    by (intro grouped_group_files) (simp add: grouped_def)
  from assms(2) a obtain fs0 where
    m: "(b, fs0) \<in> set (group_files pats parts (group_files pats tars []))"
       "fs = sort_key get_volume_number fs0" by auto
  from g m(1) have "fs0 \<noteq> [] \<and> (\<forall>f\<in>set fs0. get_archive_base_name f = Some b)"
    by (auto simp: grouped_def list_all_iff)
  with m(2) show ?thesis
    by (auto simp: base_name_prefix sorted_sort_key intro: sorted_sort_key dest: arg_cong[where f=length])
qed

lemma upload_all_volumes_append:
  "upload_all_volumes C E ftp dir (xs @ ys) w
     = (case upload_all_volumes C E ftp dir xs w of
          (Inr True, w') \<Rightarrow> upload_all_volumes C E ftp dir ys w'
        | (Inr False, w') \<Rightarrow> (Inr False, w')
        | (Inl e, w') \<Rightarrow> (Inl e, w'))"
  by (induction xs arbitrary: w) (auto split: prod.splits sum.splits bool.splits)

subsection \<open>A set that is partly on the server\<close>

lemma process_some_missing:
  assumes cwd: "ftp_cwd E w ftp remote_dir = Inr ()"
    and nlst: "ftp_nlst E (w @ [Cwd ftp remote_dir (Inr ())]) ftp = Inr files"
    and some: "0 < length (filter (\<lambda>file. startswith file base_name) files)"
    and not_all: "length (filter (\<lambda>file. startswith file base_name) files) \<noteq> length archive_set"
    and names: "\<forall>v\<in>set archive_set. startswith v base_name"
  shows "process_archive_set C E ftp base_name archive_set remote_dir w
           = except_Exception
               (upload_all_volumes C E ftp remote_dir (filter (\<lambda>v. v \<notin> set files) archive_set))
               (\<lambda>e. return False) (w @ [Cwd ftp remote_dir (Inr ()), Nlst ftp (Inr files)])"
proof -
  let ?ex = "filter (\<lambda>file. startswith file base_name) files"
  have f: "filter (\<lambda>v. v \<in> set archive_set - set ?ex) archive_set
             = filter (\<lambda>v. v \<notin> set files) archive_set"
    using names by (intro filter_cong) auto
  show ?thesis
  proof (cases "set archive_set - set ?ex = {}")
    case True
    then have "filter (\<lambda>v. v \<in> set archive_set - set ?ex) archive_set = []"
      by (simp only: empty_iff) simp
    with f have "filter (\<lambda>v. v \<notin> set files) archive_set = []" by simp
    with True some not_all show ?thesis
      by (simp add: process_archive_set_def check_listing[OF cwd nlst] prog_defs)
  next
    case False
    with some not_all f show ?thesis
      by (simp add: process_archive_set_def check_listing[OF cwd nlst] prog_defs
          upload_missing_volumes_filter)
  qed
qed


lemma except_False_result:
  assumes "except_Exception m (\<lambda>e. return False) w = (r, w')"
  obtains r0 where "m w = (r0, w')" "r = Inr True \<longleftrightarrow> r0 = Inr True"
  using assms by (auto simp: prog_defs split: prod.splits sum.splits if_splits)

text \<open>
  The repair branch. Take a set that the Locator found, and a listing in which some remote
  names start with its base name, but not as many as the set has volumes: that is the test
  of the code for a set that is partly on the server. Then the
  Reconciler is the upload loop over exactly the local volumes that the listing does not
  hold, in the order of the set, which is ascending in the volume number. The uploads
  that are called form a beginning of that list, all of it when the set succeeds; and
  when the upload of a volume fails after its predecessors succeeded, the Reconciler
  returns \<^verbatim>\<open>False\<close> in the state that this upload left: no later volume is tried.
\<close>

theorem repair_uploads_missing_volumes:
  assumes loc: "get_multi_volume_archives E ignore_patterns w0 = (Inr archive_sets, w1)"
    and mem: "(base_name, archive_set) \<in> set archive_sets"
    and cwd: "ftp_cwd E w ftp remote_dir = Inr ()"
    and nlst: "ftp_nlst E (w @ [Cwd ftp remote_dir (Inr ())]) ftp = Inr files"
    and some: "0 < length (filter (\<lambda>file. startswith file base_name) files)"
    and not_all: "length (filter (\<lambda>file. startswith file base_name) files) \<noteq> length archive_set"
  shows "process_archive_set C E ftp base_name archive_set remote_dir w
           = except_Exception
               (upload_all_volumes C E ftp remote_dir (filter (\<lambda>v. v \<notin> set files) archive_set))
               (\<lambda>e. return False) (w @ [Cwd ftp remote_dir (Inr ()), Nlst ftp (Inr files)])
       \<and> sorted (map get_volume_number (filter (\<lambda>v. v \<notin> set files) archive_set))
       \<and> (\<forall>r w'. process_archive_set C E ftp base_name archive_set remote_dir w = (r, w')
             \<longrightarrow> prefix (upload_calls (drop (length w) w'))
                        (filter (\<lambda>v. v \<notin> set files) archive_set)
                 \<and> (r = Inr True
                     \<longrightarrow> upload_calls (drop (length w) w')
                           = filter (\<lambda>v. v \<notin> set files) archive_set
                         \<and> (\<forall>v\<in>set (filter (\<lambda>v. v \<notin> set files) archive_set).
                               verified_in (drop (length w) w') v)))
       \<and> (\<forall>done v rest w2 w3.
             filter (\<lambda>v. v \<notin> set files) archive_set = done @ v # rest
             \<longrightarrow> upload_all_volumes C E ftp remote_dir done
                   (w @ [Cwd ftp remote_dir (Inr ()), Nlst ftp (Inr files)]) = (Inr True, w2)
             \<longrightarrow> upload_file_to_ftp_with_retry C E ftp v v remote_dir 3 w2 = (Inr False, w3)
             \<longrightarrow> process_archive_set C E ftp base_name archive_set remote_dir w = (Inr False, w3)
                 \<and> upload_calls (drop (length w) w3) = done @ [v])"
proof -
  let ?missing = "filter (\<lambda>v. v \<notin> set files) archive_set"
  let ?wl = "w @ [Cwd ftp remote_dir (Inr ()), Nlst ftp (Inr files)]"
  from locator_sets[OF loc mem] have
    names: "\<forall>v\<in>set archive_set. startswith v base_name"
    and srt: "sorted (map get_volume_number archive_set)" by auto
  have A: "process_archive_set C E ftp base_name archive_set remote_dir w
           = except_Exception (upload_all_volumes C E ftp remote_dir ?missing)
               (\<lambda>e. return False) ?wl"
    by (rule process_some_missing[OF cwd nlst some not_all names])
  have B: "sorted (map get_volume_number ?missing)"
    using srt by (simp add: sorted_map sorted_wrt_filter)
  have C: "prefix (upload_calls (drop (length w) w')) ?missing
           \<and> (r = Inr True \<longrightarrow> upload_calls (drop (length w) w') = ?missing
                 \<and> (\<forall>v\<in>set ?missing. verified_in (drop (length w) w') v))"
    if "process_archive_set C E ftp base_name archive_set remote_dir w = (r, w')" for r w'
  proof -
    from that A obtain r0 where
      u: "upload_all_volumes C E ftp remote_dir ?missing ?wl = (r0, w')"
      and r: "r = Inr True \<longleftrightarrow> r0 = Inr True"
      by (auto elim: except_False_result)
    from upload_all_volumes_trace[OF u] obtain tr where
      tr: "w' = ?wl @ tr" "prefix (upload_calls tr) ?missing"
          "r0 = Inr True \<longrightarrow> upload_calls tr = ?missing \<and> (\<forall>v\<in>set ?missing. verified_in tr v)"
      by blast
    from tr(1) have d: "drop (length w) w' = [Cwd ftp remote_dir (Inr ()), Nlst ftp (Inr files)] @ tr"
      by simp
    have va: "verified_in ([Cwd ftp remote_dir (Inr ()), Nlst ftp (Inr files)] @ tr) x"
      if "verified_in tr x" for x
      using that by (intro verified_in_append) simp
    show ?thesis unfolding d using tr(2,3) r va
      by (auto simp: upload_calls_append)
  qed
  have D: "process_archive_set C E ftp base_name archive_set remote_dir w = (Inr False, w3)
           \<and> upload_calls (drop (length w) w3) = done @ [v]"
    if m: "?missing = done @ v # rest"
      and d: "upload_all_volumes C E ftp remote_dir done ?wl = (Inr True, w2)"
      and f: "upload_file_to_ftp_with_retry C E ftp v v remote_dir 3 w2 = (Inr False, w3)"
    for "done" v rest w2 w3
  proof -
    from d f have "upload_all_volumes C E ftp remote_dir (done @ v # rest) ?wl = (Inr False, w3)"
      by (simp add: upload_all_volumes_append)
    with A m have p: "process_archive_set C E ftp base_name archive_set remote_dir w = (Inr False, w3)"
      by (simp add: prog_defs)
    from upload_all_volumes_trace[OF d] obtain t where
      t: "w2 = ?wl @ t" "upload_calls t = done" by auto
    from upload_file_trace[OF f] obtain t1 where
      t1: "w3 = w2 @ t1" "upload_calls t1 = [v]" by auto
    from t t1 have "drop (length w) w3 = [Cwd ftp remote_dir (Inr ()), Nlst ftp (Inr files)] @ t @ t1"
      by simp
    with t t1 p show ?thesis by (simp add: upload_calls_append)
  qed
  from A B C D show ?thesis by blast
qed


lemma repair_locate:
  "get_multi_volume_archives (directory [''db_20260127_020401_full.tar'', ''db_20260127_020401_full.tar.1'', ''db_20260127_020401_full.tar.2''] (listing [''db_20260127_020401_full.tar'', ''db_20260127_020401_full.tar.1''] calm)) [] []
   = (Inr [(''db_20260127_020401_full.tar'', [''db_20260127_020401_full.tar'', ''db_20260127_020401_full.tar.1'', ''db_20260127_020401_full.tar.2''])],
      [Glob ''*.tar'' (Inr [''db_20260127_020401_full.tar'']), Glob ''*.tar.*'' (Inr [''db_20260127_020401_full.tar.1'', ''db_20260127_020401_full.tar.2''])])"
  by code_simp

lemma repair_run:
  "process_archive_set (example_config ''5'') (directory [''db_20260127_020401_full.tar'', ''db_20260127_020401_full.tar.1'', ''db_20260127_020401_full.tar.2''] (listing [''db_20260127_020401_full.tar'', ''db_20260127_020401_full.tar.1''] calm)) 0 ''db_20260127_020401_full.tar'' [''db_20260127_020401_full.tar'', ''db_20260127_020401_full.tar.1'', ''db_20260127_020401_full.tar.2''] ''/backups''
     [Connect (Inr 0)]
   = (Inr True,
      [Connect (Inr 0), Cwd 0 ''/backups'' (Inr ()), Nlst 0 (Inr [''db_20260127_020401_full.tar'', ''db_20260127_020401_full.tar.1'']),
       Upload_call ''db_20260127_020401_full.tar.2'', Cwd 0 ''/backups'' (Inr ()), Stat ''db_20260127_020401_full.tar.2'' (Inr 100),
       Open_rb ''db_20260127_020401_full.tar.2'' (Inr ()), Storbinary 0 ''db_20260127_020401_full.tar.2'' (Inr ()), Stat ''db_20260127_020401_full.tar.2'' (Inr 100),
       Size 0 ''db_20260127_020401_full.tar.2'' (Inr (Some 100))])"
  by code_simp

theorem repair_uploads_missing_volumes_witness:
  "get_multi_volume_archives (directory [''db_20260127_020401_full.tar'', ''db_20260127_020401_full.tar.1'', ''db_20260127_020401_full.tar.2''] (listing [''db_20260127_020401_full.tar'', ''db_20260127_020401_full.tar.1''] calm)) [] []
   = (Inr [(''db_20260127_020401_full.tar'', [''db_20260127_020401_full.tar'', ''db_20260127_020401_full.tar.1'', ''db_20260127_020401_full.tar.2''])],
      [Glob ''*.tar'' (Inr [''db_20260127_020401_full.tar'']), Glob ''*.tar.*'' (Inr [''db_20260127_020401_full.tar.1'', ''db_20260127_020401_full.tar.2''])])
   \<and> length (filter (\<lambda>file. startswith file ''db_20260127_020401_full.tar'') [''db_20260127_020401_full.tar'', ''db_20260127_020401_full.tar.1'']) = 2
   \<and> upload_calls (drop 1 (snd (process_archive_set (example_config ''5'') (directory [''db_20260127_020401_full.tar'', ''db_20260127_020401_full.tar.1'', ''db_20260127_020401_full.tar.2''] (listing [''db_20260127_020401_full.tar'', ''db_20260127_020401_full.tar.1''] calm)) 0 ''db_20260127_020401_full.tar''
        [''db_20260127_020401_full.tar'', ''db_20260127_020401_full.tar.1'', ''db_20260127_020401_full.tar.2''] ''/backups'' [Connect (Inr 0)]))) = [''db_20260127_020401_full.tar.2'']
   \<and> sorted (map get_volume_number [''db_20260127_020401_full.tar.2''])"
proof -
  have mem: "(''db_20260127_020401_full.tar'', [''db_20260127_020401_full.tar'', ''db_20260127_020401_full.tar.1'', ''db_20260127_020401_full.tar.2'']) \<in> set [(''db_20260127_020401_full.tar'', [''db_20260127_020401_full.tar'', ''db_20260127_020401_full.tar.1'', ''db_20260127_020401_full.tar.2''])]" by simp
  have cwd: "ftp_cwd (directory [''db_20260127_020401_full.tar'', ''db_20260127_020401_full.tar.1'', ''db_20260127_020401_full.tar.2''] (listing [''db_20260127_020401_full.tar'', ''db_20260127_020401_full.tar.1''] calm)) [Connect (Inr 0)] 0 ''/backups'' = Inr ()"
    by (simp add: directory_def listing_def calm_def)
  have nlst: "ftp_nlst (directory [''db_20260127_020401_full.tar'', ''db_20260127_020401_full.tar.1'', ''db_20260127_020401_full.tar.2''] (listing [''db_20260127_020401_full.tar'', ''db_20260127_020401_full.tar.1''] calm)) ([Connect (Inr 0)] @ [Cwd 0 ''/backups'' (Inr ())]) 0 = Inr [''db_20260127_020401_full.tar'', ''db_20260127_020401_full.tar.1'']"
    by (simp add: directory_def listing_def calm_def)
  have n: "length (filter (\<lambda>file. startswith file ''db_20260127_020401_full.tar'') [''db_20260127_020401_full.tar'', ''db_20260127_020401_full.tar.1'']) = 2" by simp
  have some: "0 < length (filter (\<lambda>file. startswith file ''db_20260127_020401_full.tar'') [''db_20260127_020401_full.tar'', ''db_20260127_020401_full.tar.1''])"
    and not_all: "length (filter (\<lambda>file. startswith file ''db_20260127_020401_full.tar'') [''db_20260127_020401_full.tar'', ''db_20260127_020401_full.tar.1''])
                    \<noteq> length [''db_20260127_020401_full.tar'', ''db_20260127_020401_full.tar.1'', ''db_20260127_020401_full.tar.2'']"
    unfolding n by simp_all
  have f: "filter (\<lambda>v. v \<notin> set [''db_20260127_020401_full.tar'', ''db_20260127_020401_full.tar.1'']) [''db_20260127_020401_full.tar'', ''db_20260127_020401_full.tar.1'', ''db_20260127_020401_full.tar.2''] = [''db_20260127_020401_full.tar.2'']" by simp
  note t = repair_uploads_missing_volumes[OF repair_locate mem cwd nlst some not_all,
      of "example_config ''5''"]
  from t have s: "sorted (map get_volume_number (filter (\<lambda>v. v \<notin> set [''db_20260127_020401_full.tar'', ''db_20260127_020401_full.tar.1'']) [''db_20260127_020401_full.tar'', ''db_20260127_020401_full.tar.1'', ''db_20260127_020401_full.tar.2'']))"
    by blast
  from t have "\<forall>r w'. process_archive_set (example_config ''5'') (directory [''db_20260127_020401_full.tar'', ''db_20260127_020401_full.tar.1'', ''db_20260127_020401_full.tar.2''] (listing [''db_20260127_020401_full.tar'', ''db_20260127_020401_full.tar.1''] calm)) 0 ''db_20260127_020401_full.tar''
        [''db_20260127_020401_full.tar'', ''db_20260127_020401_full.tar.1'', ''db_20260127_020401_full.tar.2''] ''/backups'' [Connect (Inr 0)] = (r, w')
      \<longrightarrow> (r = Inr True \<longrightarrow> upload_calls (drop (length [Connect (Inr 0) :: event]) w')
            = filter (\<lambda>v. v \<notin> set [''db_20260127_020401_full.tar'', ''db_20260127_020401_full.tar.1'']) [''db_20260127_020401_full.tar'', ''db_20260127_020401_full.tar.1'', ''db_20260127_020401_full.tar.2''])"
    by blast
  with repair_run have "upload_calls (drop (length [Connect (Inr 0) :: event])
      (snd (process_archive_set (example_config ''5'') (directory [''db_20260127_020401_full.tar'', ''db_20260127_020401_full.tar.1'', ''db_20260127_020401_full.tar.2''] (listing [''db_20260127_020401_full.tar'', ''db_20260127_020401_full.tar.1''] calm)) 0 ''db_20260127_020401_full.tar''
        [''db_20260127_020401_full.tar'', ''db_20260127_020401_full.tar.1'', ''db_20260127_020401_full.tar.2''] ''/backups'' [Connect (Inr 0)])))
      = filter (\<lambda>v. v \<notin> set [''db_20260127_020401_full.tar'', ''db_20260127_020401_full.tar.1'']) [''db_20260127_020401_full.tar'', ''db_20260127_020401_full.tar.1'', ''db_20260127_020401_full.tar.2'']"
    by (metis snd_conv)
  with s show ?thesis unfolding f using repair_locate n by simp
qed

subsection \<open>The retry policy\<close>

lemma upload_try_ends_in_store:
  assumes "upload_try E ftp lf rn dir w = (r, w1)" "last w1 = Storbinary s n x"
  shows "\<exists>k. w1 = w @ [Cwd ftp dir (Inr ()), Stat lf (Inr k), Open_rb lf (Inr ()),
                        Storbinary ftp rn x]"
  using assms
  by (auto simp: upload_try_def verify_file_integrity_def prog_defs op_defs
      split: sum.splits option.splits prod.splits if_splits)

lemma retry_after_transient:
  assumes "upload_try E ftp lf rn dir w = (Inl error_temp, w1)" "a < n - 1"
    and "time_sleep E w1 (2 ^ a) = Inr ()"
  shows "upload_attempts C E ftp lf rn dir n (a # as) w
           = (case connect_ftp C E (w1 @ [Sleep (2 ^ a) (Inr ()),
                     Quit ftp (ftp_quit E (w1 @ [Sleep (2 ^ a) (Inr ())]) ftp)]) of
                (Inl e, w2) \<Rightarrow> (Inl e, w2)
              | (Inr ftp', w2) \<Rightarrow> upload_attempts C E ftp' lf rn dir n as w2)"
  using assms by (simp add: sleep_def quit_def perform_def)

lemma retry_after_exception:
  assumes "upload_try E ftp lf rn dir w = (Inl e, w1)" "e \<noteq> error_temp" "is_Exception e"
    and "a < n - 1" "time_sleep E w1 (2 ^ a) = Inr ()"
  shows "upload_attempts C E ftp lf rn dir n (a # as) w
           = upload_attempts C E ftp lf rn dir n as (w1 @ [Sleep (2 ^ a) (Inr ())])"
  using assms by (simp add: sleep_def perform_def)

lemma retry_after_verification:
  assumes "upload_try E ftp lf rn dir w = (Inr False, w1)"
  shows "upload_attempts C E ftp lf rn dir n (a # as) w
           = upload_attempts C E ftp lf rn dir n as w1"
  using assms by simp

lemma at_most_three_stores:
  assumes "upload_file_to_ftp_with_retry C E ftp lf rn dir 3 w = (r, w')"
  shows "length (stored (drop (length w) w')) \<le> 3"
  using upload_file_trace[OF assms] by auto

lemma retry_scenario:
  assumes t1: "upload_try E ftp lf rn dir (w @ [Upload_call rn]) = (Inl error_temp, w1)"
    and l1: "last w1 = Storbinary ftp rn (Inl error_temp)"
    and s1: "time_sleep E w1 1 = Inr ()"
    and c1: "connect_ftp C E (w1 @ [Sleep 1 (Inr ()), Quit ftp (ftp_quit E (w1 @ [Sleep 1 (Inr ())]) ftp)])
             = (Inr ftp1, w1 @ [Sleep 1 (Inr ()), Quit ftp (ftp_quit E (w1 @ [Sleep 1 (Inr ())]) ftp),
                                 Connect (Inr ftp1)])"
    and t2: "upload_try E ftp1 lf rn dir
               (w1 @ [Sleep 1 (Inr ()), Quit ftp (ftp_quit E (w1 @ [Sleep 1 (Inr ())]) ftp),
                      Connect (Inr ftp1)]) = (Inl error_temp, w2)"
    and l2: "last w2 = Storbinary ftp1 rn (Inl error_temp)"
    and s2: "time_sleep E w2 2 = Inr ()"
    and c2: "connect_ftp C E (w2 @ [Sleep 2 (Inr ()), Quit ftp1 (ftp_quit E (w2 @ [Sleep 2 (Inr ())]) ftp1)])
             = (Inr ftp2, w2 @ [Sleep 2 (Inr ()), Quit ftp1 (ftp_quit E (w2 @ [Sleep 2 (Inr ())]) ftp1),
                                 Connect (Inr ftp2)])"
    and t3: "upload_try E ftp2 lf rn dir
               (w2 @ [Sleep 2 (Inr ()), Quit ftp1 (ftp_quit E (w2 @ [Sleep 2 (Inr ())]) ftp1),
                      Connect (Inr ftp2)]) = (Inr True, w3)"
  shows "upload_file_to_ftp_with_retry C E ftp lf rn dir 3 w = (Inr True, w3)
       \<and> sleeps (drop (length w) w3) = [1, 2]
       \<and> stored (drop (length w) w3)
           = [(ftp, rn, Inl error_temp), (ftp1, rn, Inl error_temp), (ftp2, rn, Inr ())]"
proof -
  let ?q1 = "[Sleep 1 (Inr ()), Quit ftp (ftp_quit E (w1 @ [Sleep 1 (Inr ())]) ftp), Connect (Inr ftp1)]"
  let ?q2 = "[Sleep 2 (Inr ()), Quit ftp1 (ftp_quit E (w2 @ [Sleep 2 (Inr ())]) ftp1), Connect (Inr ftp2)]"
  have u: "[0..<3] = [0, 1, 2]" by (simp add: upt_rec)
  have r: "upload_file_to_ftp_with_retry C E ftp lf rn dir 3 w = (Inr True, w3)"
    using t1 s1 c1 t2 s2 c2 t3
    by (simp add: upload_file_to_ftp_with_retry_def u sleep_def quit_def perform_def)
  from upload_try_ends_in_store[OF t1 l1] obtain k1 where
    w1: "w1 = (w @ [Upload_call rn]) @ [Cwd ftp dir (Inr ()), Stat lf (Inr k1), Open_rb lf (Inr ()),
                        Storbinary ftp rn (Inl error_temp)]" by blast
  from upload_try_ends_in_store[OF t2 l2] obtain k2 where
    w2: "w2 = (w1 @ ?q1) @ [Cwd ftp1 dir (Inr ()), Stat lf (Inr k2), Open_rb lf (Inr ()),
                        Storbinary ftp1 rn (Inl error_temp)]" by blast
  from upload_try_True[OF t3] obtain k3 k4 where
    w3: "w3 = (w2 @ ?q2) @ [Cwd ftp2 dir (Inr ()), Stat lf (Inr k3), Open_rb lf (Inr ()),
            Storbinary ftp2 rn (Inr ()), Stat lf (Inr k4), Size ftp2 rn (Inr (Some k4))]" by blast
  show ?thesis using r unfolding w3 w2 w1 by simp
qed

lemma connect_attempt_sleeps:
  "\<exists>tr. snd (connect_attempt C E w) = w @ tr \<and> sleeps tr = []"
  by (auto simp: connect_attempt_def connect_def prog_defs get_section_def get_item_def
      split: sum.splits option.splits)

lemma connect_attempts_sleeps:
  "\<exists>tr. snd (connect_attempts C E n as w) = w @ tr \<and> set (sleeps tr) \<subseteq> {5}"
proof (induction as arbitrary: w)
  case Nil
  then show ?case by simp
next
  case (Cons a as)
  obtain r w1 where c: "connect_attempt C E w = (r, w1)" by (cases "connect_attempt C E w")
  from connect_attempt_sleeps[of C E w] c obtain t1 where
    t1: "w1 = w @ t1" "sleeps t1 = []" by auto
  from Cons.IH[of "w1 @ [Sleep 5 (Inr ())]"] obtain t2 where
    t2: "snd (connect_attempts C E n as (w1 @ [Sleep 5 (Inr ())])) = w1 @ [Sleep 5 (Inr ())] @ t2"
        "set (sleeps t2) \<subseteq> {5}" by auto
  show ?case using c t1 t2
    by (auto simp: sleep_def perform_def sleeps_append split: sum.splits)
qed

lemma connect_ftp_sleeps:
  assumes "connect_ftp C E w = (r, w2)"
  obtains t2 where "w2 = w @ t2" "stored t2 = []" "set (sleeps t2) \<subseteq> {5}"
proof -
  from connect_ftp_ext[OF assms] obtain t where t: "w2 = w @ t" "stored t = []" by blast
  from connect_attempts_sleeps[of C E 3 "[0..<3]" w] obtain t' where
    t': "snd (connect_attempts C E 3 [0..<3] w) = w @ t'" "set (sleeps t') \<subseteq> {5}" by blast
  from assms have "snd (connect_attempts C E 3 [0..<3] w) = w2"
    by (auto simp: connect_ftp_def split: prod.splits sum.splits option.splits)
  with t t' have "t' = t" by simp
  with t t' that show ?thesis by blast
qed

lemma retry_scenario_reconnects:
  assumes t1: "upload_try E ftp lf rn dir (w @ [Upload_call rn]) = (Inl error_temp, w1)"
    and l1: "last w1 = Storbinary ftp rn (Inl error_temp)"
    and s1: "time_sleep E w1 1 = Inr ()"
    and c1: "connect_ftp C E (w1 @ [Sleep 1 (Inr ()), Quit ftp (ftp_quit E (w1 @ [Sleep 1 (Inr ())]) ftp)])
             = (Inr ftp1, v1)"
    and t2: "upload_try E ftp1 lf rn dir v1 = (Inl error_temp, w2)"
    and l2: "last w2 = Storbinary ftp1 rn (Inl error_temp)"
    and s2: "time_sleep E w2 2 = Inr ()"
    and c2: "connect_ftp C E (w2 @ [Sleep 2 (Inr ()), Quit ftp1 (ftp_quit E (w2 @ [Sleep 2 (Inr ())]) ftp1)])
             = (Inr ftp2, v2)"
    and t3: "upload_try E ftp2 lf rn dir v2 = (Inr True, w3)"
  shows "upload_file_to_ftp_with_retry C E ftp lf rn dir 3 w = (Inr True, w3)
       \<and> stored (drop (length w) w3)
           = [(ftp, rn, Inl error_temp), (ftp1, rn, Inl error_temp), (ftp2, rn, Inr ())]
       \<and> sleeps (drop (length w) w3)
           = 1 # sleeps (drop (length w1 + 2) v1) @ 2 # sleeps (drop (length w2 + 2) v2)
       \<and> set (sleeps (drop (length w1 + 2) v1)) \<subseteq> {5}
       \<and> set (sleeps (drop (length w2 + 2) v2)) \<subseteq> {5}"
proof -
  let ?q1 = "[Sleep 1 (Inr ()), Quit ftp (ftp_quit E (w1 @ [Sleep 1 (Inr ())]) ftp)]"
  let ?q2 = "[Sleep 2 (Inr ()), Quit ftp1 (ftp_quit E (w2 @ [Sleep 2 (Inr ())]) ftp1)]"
  have u: "[0..<3] = [0, 1, 2]" by (simp add: upt_rec)
  have r: "upload_file_to_ftp_with_retry C E ftp lf rn dir 3 w = (Inr True, w3)"
    using t1 s1 c1 t2 s2 c2 t3
    by (simp add: upload_file_to_ftp_with_retry_def u sleep_def quit_def perform_def)
  from upload_try_ends_in_store[OF t1 l1] obtain k1 where
    w1: "w1 = (w @ [Upload_call rn]) @ [Cwd ftp dir (Inr ()), Stat lf (Inr k1), Open_rb lf (Inr ()),
                        Storbinary ftp rn (Inl error_temp)]" by blast
  from connect_ftp_sleeps[OF c1] obtain x1 where
    v1: "v1 = (w1 @ ?q1) @ x1" and x1: "stored x1 = []" "set (sleeps x1) \<subseteq> {5}" by blast
  from upload_try_ends_in_store[OF t2 l2] obtain k2 where
    w2: "w2 = v1 @ [Cwd ftp1 dir (Inr ()), Stat lf (Inr k2), Open_rb lf (Inr ()),
                        Storbinary ftp1 rn (Inl error_temp)]" by blast
  from connect_ftp_sleeps[OF c2] obtain x2 where
    v2: "v2 = (w2 @ ?q2) @ x2" and x2: "stored x2 = []" "set (sleeps x2) \<subseteq> {5}" by blast
  from upload_try_True[OF t3] obtain k3 k4 where
    w3: "w3 = v2 @ [Cwd ftp2 dir (Inr ()), Stat lf (Inr k3), Open_rb lf (Inr ()),
            Storbinary ftp2 rn (Inr ()), Stat lf (Inr k4), Size ftp2 rn (Inr (Some k4))]" by blast
  have d1: "drop (length w1 + 2) v1 = x1" unfolding v1 by simp
  have d2: "drop (length w2 + 2) v2 = x2" unfolding v2 by simp
  have e: "drop (length w) w3
      = [Upload_call rn, Cwd ftp dir (Inr ()), Stat lf (Inr k1), Open_rb lf (Inr ()),
         Storbinary ftp rn (Inl error_temp)] @ ?q1 @ x1
        @ [Cwd ftp1 dir (Inr ()), Stat lf (Inr k2), Open_rb lf (Inr ()),
           Storbinary ftp1 rn (Inl error_temp)] @ ?q2 @ x2
        @ [Cwd ftp2 dir (Inr ()), Stat lf (Inr k3), Open_rb lf (Inr ()),
            Storbinary ftp2 rn (Inr ()), Stat lf (Inr k4), Size ftp2 rn (Inr (Some k4))]"
    unfolding w3 v2 w2 v1 w1 by simp
  have st: "stored (drop (length w) w3)
           = [(ftp, rn, Inl error_temp), (ftp1, rn, Inl error_temp), (ftp2, rn, Inr ())]"
    unfolding e using x1(1) x2(1) by (simp add: stored_append)
  have sl: "sleeps (drop (length w) w3) = 1 # sleeps x1 @ 2 # sleeps x2"
    unfolding e by (simp add: sleeps_append)
  from r st sl x1(2) x2(2) show ?thesis unfolding d1 d2 by simp
qed

text \<open>
  Claim C6 (retry policy), with the transient error that is followed by a reconnect being
  \<^verbatim>\<open>ftplib.error_temp\<close>; in six parts. (1) One call of the Transfer Executor, with its
  three attempts, issues at most three \<^verbatim>\<open>STOR\<close> commands. (2) When an attempt that is
  not the last raises \<^verbatim>\<open>error_temp\<close>, the code sleeps \<open>2 ^ attempt\<close> seconds, quits the
  session and calls \<^verbatim>\<open>_connect_ftp\<close>; the remaining attempts run on the session that this
  returns, and there is no retry without it. (3) When an attempt that is not the last
  raises any other \<^verbatim>\<open>Exception\<close>, the code sleeps \<open>2 ^ attempt\<close> seconds and the
  remaining attempts run on the same session: no quit, no reconnect. (4) When the
  verification fails, the next attempt starts in the state the failed one left, on the
  same session: no sleep, no reconnect. (5) So when the \<^verbatim>\<open>STOR\<close> of the first two
  attempts raises \<^verbatim>\<open>error_temp\<close>, each reconnect succeeds at once and the third attempt
  succeeds, the call returns \<^verbatim>\<open>True\<close> after sleeps of 1 and 2 seconds and exactly three
  \<^verbatim>\<open>STOR\<close> commands, one per session. (6) When the reconnects succeed in any way, the
  call still returns \<^verbatim>\<open>True\<close> after exactly three \<^verbatim>\<open>STOR\<close> commands, one per session,
  and its sleeps are 1 second, those of the first reconnect, 2 seconds, and those of the
  second reconnect; a reconnect sleeps 5 seconds between its own attempts and not
  otherwise.
\<close>

theorem retry_policy:
  "(\<forall>C E ftp lf rn dir w r w'.
      upload_file_to_ftp_with_retry C E ftp lf rn dir 3 w = (r, w')
      \<longrightarrow> length (stored (drop (length w) w')) \<le> 3)
   \<and> (\<forall>C E ftp lf rn dir n a as w w1.
      upload_try E ftp lf rn dir w = (Inl error_temp, w1) \<longrightarrow> a < n - 1
      \<longrightarrow> time_sleep E w1 (2 ^ a) = Inr ()
      \<longrightarrow> upload_attempts C E ftp lf rn dir n (a # as) w
           = (case connect_ftp C E (w1 @ [Sleep (2 ^ a) (Inr ()),
                     Quit ftp (ftp_quit E (w1 @ [Sleep (2 ^ a) (Inr ())]) ftp)]) of
                (Inl e, w2) \<Rightarrow> (Inl e, w2)
              | (Inr ftp', w2) \<Rightarrow> upload_attempts C E ftp' lf rn dir n as w2))
   \<and> (\<forall>C E ftp lf rn dir n a as w w1 e.
      upload_try E ftp lf rn dir w = (Inl e, w1) \<longrightarrow> e \<noteq> error_temp \<longrightarrow> is_Exception e
      \<longrightarrow> a < n - 1 \<longrightarrow> time_sleep E w1 (2 ^ a) = Inr ()
      \<longrightarrow> upload_attempts C E ftp lf rn dir n (a # as) w
           = upload_attempts C E ftp lf rn dir n as (w1 @ [Sleep (2 ^ a) (Inr ())]))
   \<and> (\<forall>C E ftp lf rn dir n a as w w1.
      upload_try E ftp lf rn dir w = (Inr False, w1)
      \<longrightarrow> upload_attempts C E ftp lf rn dir n (a # as) w
           = upload_attempts C E ftp lf rn dir n as w1)
   \<and> (\<forall>C E ftp ftp1 ftp2 lf rn dir w w1 w2 w3.
      upload_try E ftp lf rn dir (w @ [Upload_call rn]) = (Inl error_temp, w1)
      \<longrightarrow> last w1 = Storbinary ftp rn (Inl error_temp)
      \<longrightarrow> time_sleep E w1 1 = Inr ()
      \<longrightarrow> connect_ftp C E (w1 @ [Sleep 1 (Inr ()), Quit ftp (ftp_quit E (w1 @ [Sleep 1 (Inr ())]) ftp)])
             = (Inr ftp1, w1 @ [Sleep 1 (Inr ()), Quit ftp (ftp_quit E (w1 @ [Sleep 1 (Inr ())]) ftp),
                                 Connect (Inr ftp1)])
      \<longrightarrow> upload_try E ftp1 lf rn dir
               (w1 @ [Sleep 1 (Inr ()), Quit ftp (ftp_quit E (w1 @ [Sleep 1 (Inr ())]) ftp),
                      Connect (Inr ftp1)]) = (Inl error_temp, w2)
      \<longrightarrow> last w2 = Storbinary ftp1 rn (Inl error_temp)
      \<longrightarrow> time_sleep E w2 2 = Inr ()
      \<longrightarrow> connect_ftp C E (w2 @ [Sleep 2 (Inr ()), Quit ftp1 (ftp_quit E (w2 @ [Sleep 2 (Inr ())]) ftp1)])
             = (Inr ftp2, w2 @ [Sleep 2 (Inr ()), Quit ftp1 (ftp_quit E (w2 @ [Sleep 2 (Inr ())]) ftp1),
                                 Connect (Inr ftp2)])
      \<longrightarrow> upload_try E ftp2 lf rn dir
               (w2 @ [Sleep 2 (Inr ()), Quit ftp1 (ftp_quit E (w2 @ [Sleep 2 (Inr ())]) ftp1),
                      Connect (Inr ftp2)]) = (Inr True, w3)
      \<longrightarrow> upload_file_to_ftp_with_retry C E ftp lf rn dir 3 w = (Inr True, w3)
         \<and> sleeps (drop (length w) w3) = [1, 2]
         \<and> stored (drop (length w) w3)
             = [(ftp, rn, Inl error_temp), (ftp1, rn, Inl error_temp), (ftp2, rn, Inr ())])
   \<and> (\<forall>C E ftp ftp1 ftp2 lf rn dir w w1 v1 w2 v2 w3.
      upload_try E ftp lf rn dir (w @ [Upload_call rn]) = (Inl error_temp, w1)
      \<longrightarrow> last w1 = Storbinary ftp rn (Inl error_temp)
      \<longrightarrow> time_sleep E w1 1 = Inr ()
      \<longrightarrow> connect_ftp C E (w1 @ [Sleep 1 (Inr ()), Quit ftp (ftp_quit E (w1 @ [Sleep 1 (Inr ())]) ftp)])
             = (Inr ftp1, v1)
      \<longrightarrow> upload_try E ftp1 lf rn dir v1 = (Inl error_temp, w2)
      \<longrightarrow> last w2 = Storbinary ftp1 rn (Inl error_temp)
      \<longrightarrow> time_sleep E w2 2 = Inr ()
      \<longrightarrow> connect_ftp C E (w2 @ [Sleep 2 (Inr ()), Quit ftp1 (ftp_quit E (w2 @ [Sleep 2 (Inr ())]) ftp1)])
             = (Inr ftp2, v2)
      \<longrightarrow> upload_try E ftp2 lf rn dir v2 = (Inr True, w3)
      \<longrightarrow> upload_file_to_ftp_with_retry C E ftp lf rn dir 3 w = (Inr True, w3)
         \<and> stored (drop (length w) w3)
             = [(ftp, rn, Inl error_temp), (ftp1, rn, Inl error_temp), (ftp2, rn, Inr ())]
         \<and> sleeps (drop (length w) w3)
             = 1 # sleeps (drop (length w1 + 2) v1) @ 2 # sleeps (drop (length w2 + 2) v2)
         \<and> set (sleeps (drop (length w1 + 2) v1)) \<subseteq> {5}
         \<and> set (sleeps (drop (length w2 + 2) v2)) \<subseteq> {5})"
proof (intro conjI)
  show "\<forall>C E ftp lf rn dir w r w'.
      upload_file_to_ftp_with_retry C E ftp lf rn dir 3 w = (r, w')
      \<longrightarrow> length (stored (drop (length w) w')) \<le> 3"
    by (intro allI impI at_most_three_stores)
next
  show "\<forall>C E ftp lf rn dir n a as w w1.
      upload_try E ftp lf rn dir w = (Inl error_temp, w1) \<longrightarrow> a < n - 1
      \<longrightarrow> time_sleep E w1 (2 ^ a) = Inr ()
      \<longrightarrow> upload_attempts C E ftp lf rn dir n (a # as) w
           = (case connect_ftp C E (w1 @ [Sleep (2 ^ a) (Inr ()),
                     Quit ftp (ftp_quit E (w1 @ [Sleep (2 ^ a) (Inr ())]) ftp)]) of
                (Inl e, w2) \<Rightarrow> (Inl e, w2)
              | (Inr ftp', w2) \<Rightarrow> upload_attempts C E ftp' lf rn dir n as w2)"
    by (intro allI impI retry_after_transient)
next
  show "\<forall>C E ftp lf rn dir n a as w w1 e.
      upload_try E ftp lf rn dir w = (Inl e, w1) \<longrightarrow> e \<noteq> error_temp \<longrightarrow> is_Exception e
      \<longrightarrow> a < n - 1 \<longrightarrow> time_sleep E w1 (2 ^ a) = Inr ()
      \<longrightarrow> upload_attempts C E ftp lf rn dir n (a # as) w
           = upload_attempts C E ftp lf rn dir n as (w1 @ [Sleep (2 ^ a) (Inr ())])"
    by (intro allI impI retry_after_exception)
next
  show "\<forall>C E ftp lf rn dir n a as w w1.
      upload_try E ftp lf rn dir w = (Inr False, w1)
      \<longrightarrow> upload_attempts C E ftp lf rn dir n (a # as) w
           = upload_attempts C E ftp lf rn dir n as w1"
    by (intro allI impI retry_after_verification)
next
  show "\<forall>C E ftp ftp1 ftp2 lf rn dir w w1 w2 w3.
      upload_try E ftp lf rn dir (w @ [Upload_call rn]) = (Inl error_temp, w1)
      \<longrightarrow> last w1 = Storbinary ftp rn (Inl error_temp)
      \<longrightarrow> time_sleep E w1 1 = Inr ()
      \<longrightarrow> connect_ftp C E (w1 @ [Sleep 1 (Inr ()), Quit ftp (ftp_quit E (w1 @ [Sleep 1 (Inr ())]) ftp)])
             = (Inr ftp1, w1 @ [Sleep 1 (Inr ()), Quit ftp (ftp_quit E (w1 @ [Sleep 1 (Inr ())]) ftp),
                                 Connect (Inr ftp1)])
      \<longrightarrow> upload_try E ftp1 lf rn dir
               (w1 @ [Sleep 1 (Inr ()), Quit ftp (ftp_quit E (w1 @ [Sleep 1 (Inr ())]) ftp),
                      Connect (Inr ftp1)]) = (Inl error_temp, w2)
      \<longrightarrow> last w2 = Storbinary ftp1 rn (Inl error_temp)
      \<longrightarrow> time_sleep E w2 2 = Inr ()
      \<longrightarrow> connect_ftp C E (w2 @ [Sleep 2 (Inr ()), Quit ftp1 (ftp_quit E (w2 @ [Sleep 2 (Inr ())]) ftp1)])
             = (Inr ftp2, w2 @ [Sleep 2 (Inr ()), Quit ftp1 (ftp_quit E (w2 @ [Sleep 2 (Inr ())]) ftp1),
                                 Connect (Inr ftp2)])
      \<longrightarrow> upload_try E ftp2 lf rn dir
               (w2 @ [Sleep 2 (Inr ()), Quit ftp1 (ftp_quit E (w2 @ [Sleep 2 (Inr ())]) ftp1),
                      Connect (Inr ftp2)]) = (Inr True, w3)
      \<longrightarrow> upload_file_to_ftp_with_retry C E ftp lf rn dir 3 w = (Inr True, w3)
         \<and> sleeps (drop (length w) w3) = [1, 2]
         \<and> stored (drop (length w) w3)
             = [(ftp, rn, Inl error_temp), (ftp1, rn, Inl error_temp), (ftp2, rn, Inr ())]"
    by (intro allI impI retry_scenario)
next
  show "\<forall>C E ftp ftp1 ftp2 lf rn dir w w1 v1 w2 v2 w3.
      upload_try E ftp lf rn dir (w @ [Upload_call rn]) = (Inl error_temp, w1)
      \<longrightarrow> last w1 = Storbinary ftp rn (Inl error_temp)
      \<longrightarrow> time_sleep E w1 1 = Inr ()
      \<longrightarrow> connect_ftp C E (w1 @ [Sleep 1 (Inr ()), Quit ftp (ftp_quit E (w1 @ [Sleep 1 (Inr ())]) ftp)])
             = (Inr ftp1, v1)
      \<longrightarrow> upload_try E ftp1 lf rn dir v1 = (Inl error_temp, w2)
      \<longrightarrow> last w2 = Storbinary ftp1 rn (Inl error_temp)
      \<longrightarrow> time_sleep E w2 2 = Inr ()
      \<longrightarrow> connect_ftp C E (w2 @ [Sleep 2 (Inr ()), Quit ftp1 (ftp_quit E (w2 @ [Sleep 2 (Inr ())]) ftp1)])
             = (Inr ftp2, v2)
      \<longrightarrow> upload_try E ftp2 lf rn dir v2 = (Inr True, w3)
      \<longrightarrow> upload_file_to_ftp_with_retry C E ftp lf rn dir 3 w = (Inr True, w3)
         \<and> stored (drop (length w) w3)
             = [(ftp, rn, Inl error_temp), (ftp1, rn, Inl error_temp), (ftp2, rn, Inr ())]
         \<and> sleeps (drop (length w) w3)
             = 1 # sleeps (drop (length w1 + 2) v1) @ 2 # sleeps (drop (length w2 + 2) v2)
         \<and> set (sleeps (drop (length w1 + 2) v1)) \<subseteq> {5}
         \<and> set (sleeps (drop (length w2 + 2) v2)) \<subseteq> {5}"
    by (intro allI impI retry_scenario_reconnects)
qed

lemma scenario_try1:
  "upload_try (transient_stores 2 calm) 0 ''db_20260127_020401_full.tar'' ''db_20260127_020401_full.tar'' ''/backups'' ([Connect (Inr 0)] @ [Upload_call ''db_20260127_020401_full.tar''])
   = (Inl error_temp, [Connect (Inr 0), Upload_call ''db_20260127_020401_full.tar'', Cwd 0 ''/backups'' (Inr ()), Stat ''db_20260127_020401_full.tar'' (Inr 100), Open_rb ''db_20260127_020401_full.tar'' (Inr ()), Storbinary 0 ''db_20260127_020401_full.tar'' (Inl error_temp)])"
  by code_simp

lemma scenario_connect1:
  "connect_ftp (example_config ''5'') (transient_stores 2 calm) ([Connect (Inr 0), Upload_call ''db_20260127_020401_full.tar'', Cwd 0 ''/backups'' (Inr ()), Stat ''db_20260127_020401_full.tar'' (Inr 100), Open_rb ''db_20260127_020401_full.tar'' (Inr ()), Storbinary 0 ''db_20260127_020401_full.tar'' (Inl error_temp)] @ [Sleep 1 (Inr ()), Quit 0 (ftp_quit (transient_stores 2 calm) ([Connect (Inr 0), Upload_call ''db_20260127_020401_full.tar'', Cwd 0 ''/backups'' (Inr ()), Stat ''db_20260127_020401_full.tar'' (Inr 100), Open_rb ''db_20260127_020401_full.tar'' (Inr ()), Storbinary 0 ''db_20260127_020401_full.tar'' (Inl error_temp)] @ [Sleep 1 (Inr ())]) 0)])
   = (Inr 1, [Connect (Inr 0), Upload_call ''db_20260127_020401_full.tar'', Cwd 0 ''/backups'' (Inr ()), Stat ''db_20260127_020401_full.tar'' (Inr 100), Open_rb ''db_20260127_020401_full.tar'' (Inr ()), Storbinary 0 ''db_20260127_020401_full.tar'' (Inl error_temp)] @ [Sleep 1 (Inr ()), Quit 0 (ftp_quit (transient_stores 2 calm) ([Connect (Inr 0), Upload_call ''db_20260127_020401_full.tar'', Cwd 0 ''/backups'' (Inr ()), Stat ''db_20260127_020401_full.tar'' (Inr 100), Open_rb ''db_20260127_020401_full.tar'' (Inr ()), Storbinary 0 ''db_20260127_020401_full.tar'' (Inl error_temp)] @ [Sleep 1 (Inr ())]) 0), Connect (Inr 1)])"
  by code_simp

lemma scenario_try2:
  "upload_try (transient_stores 2 calm) 1 ''db_20260127_020401_full.tar'' ''db_20260127_020401_full.tar'' ''/backups'' ([Connect (Inr 0), Upload_call ''db_20260127_020401_full.tar'', Cwd 0 ''/backups'' (Inr ()), Stat ''db_20260127_020401_full.tar'' (Inr 100), Open_rb ''db_20260127_020401_full.tar'' (Inr ()), Storbinary 0 ''db_20260127_020401_full.tar'' (Inl error_temp)] @ [Sleep 1 (Inr ()), Quit 0 (ftp_quit (transient_stores 2 calm) ([Connect (Inr 0), Upload_call ''db_20260127_020401_full.tar'', Cwd 0 ''/backups'' (Inr ()), Stat ''db_20260127_020401_full.tar'' (Inr 100), Open_rb ''db_20260127_020401_full.tar'' (Inr ()), Storbinary 0 ''db_20260127_020401_full.tar'' (Inl error_temp)] @ [Sleep 1 (Inr ())]) 0), Connect (Inr 1)])
   = (Inl error_temp, [Connect (Inr 0), Upload_call ''db_20260127_020401_full.tar'', Cwd 0 ''/backups'' (Inr ()), Stat ''db_20260127_020401_full.tar'' (Inr 100), Open_rb ''db_20260127_020401_full.tar'' (Inr ()), Storbinary 0 ''db_20260127_020401_full.tar'' (Inl error_temp), Sleep 1 (Inr ()), Quit 0 (Inr ()), Connect (Inr 1), Cwd 1 ''/backups'' (Inr ()), Stat ''db_20260127_020401_full.tar'' (Inr 100), Open_rb ''db_20260127_020401_full.tar'' (Inr ()), Storbinary 1 ''db_20260127_020401_full.tar'' (Inl error_temp)])"
  by code_simp

lemma scenario_connect2:
  "connect_ftp (example_config ''5'') (transient_stores 2 calm) ([Connect (Inr 0), Upload_call ''db_20260127_020401_full.tar'', Cwd 0 ''/backups'' (Inr ()), Stat ''db_20260127_020401_full.tar'' (Inr 100), Open_rb ''db_20260127_020401_full.tar'' (Inr ()), Storbinary 0 ''db_20260127_020401_full.tar'' (Inl error_temp), Sleep 1 (Inr ()), Quit 0 (Inr ()), Connect (Inr 1), Cwd 1 ''/backups'' (Inr ()), Stat ''db_20260127_020401_full.tar'' (Inr 100), Open_rb ''db_20260127_020401_full.tar'' (Inr ()), Storbinary 1 ''db_20260127_020401_full.tar'' (Inl error_temp)] @ [Sleep 2 (Inr ()), Quit 1 (ftp_quit (transient_stores 2 calm) ([Connect (Inr 0), Upload_call ''db_20260127_020401_full.tar'', Cwd 0 ''/backups'' (Inr ()), Stat ''db_20260127_020401_full.tar'' (Inr 100), Open_rb ''db_20260127_020401_full.tar'' (Inr ()), Storbinary 0 ''db_20260127_020401_full.tar'' (Inl error_temp), Sleep 1 (Inr ()), Quit 0 (Inr ()), Connect (Inr 1), Cwd 1 ''/backups'' (Inr ()), Stat ''db_20260127_020401_full.tar'' (Inr 100), Open_rb ''db_20260127_020401_full.tar'' (Inr ()), Storbinary 1 ''db_20260127_020401_full.tar'' (Inl error_temp)] @ [Sleep 2 (Inr ())]) 1)])
   = (Inr 2, [Connect (Inr 0), Upload_call ''db_20260127_020401_full.tar'', Cwd 0 ''/backups'' (Inr ()), Stat ''db_20260127_020401_full.tar'' (Inr 100), Open_rb ''db_20260127_020401_full.tar'' (Inr ()), Storbinary 0 ''db_20260127_020401_full.tar'' (Inl error_temp), Sleep 1 (Inr ()), Quit 0 (Inr ()), Connect (Inr 1), Cwd 1 ''/backups'' (Inr ()), Stat ''db_20260127_020401_full.tar'' (Inr 100), Open_rb ''db_20260127_020401_full.tar'' (Inr ()), Storbinary 1 ''db_20260127_020401_full.tar'' (Inl error_temp)] @ [Sleep 2 (Inr ()), Quit 1 (ftp_quit (transient_stores 2 calm) ([Connect (Inr 0), Upload_call ''db_20260127_020401_full.tar'', Cwd 0 ''/backups'' (Inr ()), Stat ''db_20260127_020401_full.tar'' (Inr 100), Open_rb ''db_20260127_020401_full.tar'' (Inr ()), Storbinary 0 ''db_20260127_020401_full.tar'' (Inl error_temp), Sleep 1 (Inr ()), Quit 0 (Inr ()), Connect (Inr 1), Cwd 1 ''/backups'' (Inr ()), Stat ''db_20260127_020401_full.tar'' (Inr 100), Open_rb ''db_20260127_020401_full.tar'' (Inr ()), Storbinary 1 ''db_20260127_020401_full.tar'' (Inl error_temp)] @ [Sleep 2 (Inr ())]) 1), Connect (Inr 2)])"
  by code_simp

lemma scenario_try3:
  "upload_try (transient_stores 2 calm) 2 ''db_20260127_020401_full.tar'' ''db_20260127_020401_full.tar'' ''/backups'' ([Connect (Inr 0), Upload_call ''db_20260127_020401_full.tar'', Cwd 0 ''/backups'' (Inr ()), Stat ''db_20260127_020401_full.tar'' (Inr 100), Open_rb ''db_20260127_020401_full.tar'' (Inr ()), Storbinary 0 ''db_20260127_020401_full.tar'' (Inl error_temp), Sleep 1 (Inr ()), Quit 0 (Inr ()), Connect (Inr 1), Cwd 1 ''/backups'' (Inr ()), Stat ''db_20260127_020401_full.tar'' (Inr 100), Open_rb ''db_20260127_020401_full.tar'' (Inr ()), Storbinary 1 ''db_20260127_020401_full.tar'' (Inl error_temp)] @ [Sleep 2 (Inr ()), Quit 1 (ftp_quit (transient_stores 2 calm) ([Connect (Inr 0), Upload_call ''db_20260127_020401_full.tar'', Cwd 0 ''/backups'' (Inr ()), Stat ''db_20260127_020401_full.tar'' (Inr 100), Open_rb ''db_20260127_020401_full.tar'' (Inr ()), Storbinary 0 ''db_20260127_020401_full.tar'' (Inl error_temp), Sleep 1 (Inr ()), Quit 0 (Inr ()), Connect (Inr 1), Cwd 1 ''/backups'' (Inr ()), Stat ''db_20260127_020401_full.tar'' (Inr 100), Open_rb ''db_20260127_020401_full.tar'' (Inr ()), Storbinary 1 ''db_20260127_020401_full.tar'' (Inl error_temp)] @ [Sleep 2 (Inr ())]) 1), Connect (Inr 2)])
   = (Inr True, [Connect (Inr 0), Upload_call ''db_20260127_020401_full.tar'', Cwd 0 ''/backups'' (Inr ()), Stat ''db_20260127_020401_full.tar'' (Inr 100), Open_rb ''db_20260127_020401_full.tar'' (Inr ()), Storbinary 0 ''db_20260127_020401_full.tar'' (Inl error_temp), Sleep 1 (Inr ()), Quit 0 (Inr ()), Connect (Inr 1), Cwd 1 ''/backups'' (Inr ()), Stat ''db_20260127_020401_full.tar'' (Inr 100), Open_rb ''db_20260127_020401_full.tar'' (Inr ()), Storbinary 1 ''db_20260127_020401_full.tar'' (Inl error_temp), Sleep 2 (Inr ()), Quit 1 (Inr ()), Connect (Inr 2), Cwd 2 ''/backups'' (Inr ()), Stat ''db_20260127_020401_full.tar'' (Inr 100), Open_rb ''db_20260127_020401_full.tar'' (Inr ()), Storbinary 2 ''db_20260127_020401_full.tar'' (Inr ()), Stat ''db_20260127_020401_full.tar'' (Inr 100), Size 2 ''db_20260127_020401_full.tar'' (Inr (Some 100))])"
  by code_simp

theorem retry_policy_witness:
  "upload_file_to_ftp_with_retry (example_config ''5'') (transient_stores 2 calm) 0 ''db_20260127_020401_full.tar'' ''db_20260127_020401_full.tar'' ''/backups'' 3 [Connect (Inr 0)]
   = (Inr True, [Connect (Inr 0), Upload_call ''db_20260127_020401_full.tar'', Cwd 0 ''/backups'' (Inr ()), Stat ''db_20260127_020401_full.tar'' (Inr 100), Open_rb ''db_20260127_020401_full.tar'' (Inr ()), Storbinary 0 ''db_20260127_020401_full.tar'' (Inl error_temp), Sleep 1 (Inr ()), Quit 0 (Inr ()), Connect (Inr 1), Cwd 1 ''/backups'' (Inr ()), Stat ''db_20260127_020401_full.tar'' (Inr 100), Open_rb ''db_20260127_020401_full.tar'' (Inr ()), Storbinary 1 ''db_20260127_020401_full.tar'' (Inl error_temp), Sleep 2 (Inr ()), Quit 1 (Inr ()), Connect (Inr 2), Cwd 2 ''/backups'' (Inr ()), Stat ''db_20260127_020401_full.tar'' (Inr 100), Open_rb ''db_20260127_020401_full.tar'' (Inr ()), Storbinary 2 ''db_20260127_020401_full.tar'' (Inr ()), Stat ''db_20260127_020401_full.tar'' (Inr 100), Size 2 ''db_20260127_020401_full.tar'' (Inr (Some 100))])
   \<and> sleeps (drop 1 [Connect (Inr 0), Upload_call ''db_20260127_020401_full.tar'', Cwd 0 ''/backups'' (Inr ()), Stat ''db_20260127_020401_full.tar'' (Inr 100), Open_rb ''db_20260127_020401_full.tar'' (Inr ()), Storbinary 0 ''db_20260127_020401_full.tar'' (Inl error_temp), Sleep 1 (Inr ()), Quit 0 (Inr ()), Connect (Inr 1), Cwd 1 ''/backups'' (Inr ()), Stat ''db_20260127_020401_full.tar'' (Inr 100), Open_rb ''db_20260127_020401_full.tar'' (Inr ()), Storbinary 1 ''db_20260127_020401_full.tar'' (Inl error_temp), Sleep 2 (Inr ()), Quit 1 (Inr ()), Connect (Inr 2), Cwd 2 ''/backups'' (Inr ()), Stat ''db_20260127_020401_full.tar'' (Inr 100), Open_rb ''db_20260127_020401_full.tar'' (Inr ()), Storbinary 2 ''db_20260127_020401_full.tar'' (Inr ()), Stat ''db_20260127_020401_full.tar'' (Inr 100), Size 2 ''db_20260127_020401_full.tar'' (Inr (Some 100))]) = [1, 2]
   \<and> length (stored (drop 1 [Connect (Inr 0), Upload_call ''db_20260127_020401_full.tar'', Cwd 0 ''/backups'' (Inr ()), Stat ''db_20260127_020401_full.tar'' (Inr 100), Open_rb ''db_20260127_020401_full.tar'' (Inr ()), Storbinary 0 ''db_20260127_020401_full.tar'' (Inl error_temp), Sleep 1 (Inr ()), Quit 0 (Inr ()), Connect (Inr 1), Cwd 1 ''/backups'' (Inr ()), Stat ''db_20260127_020401_full.tar'' (Inr 100), Open_rb ''db_20260127_020401_full.tar'' (Inr ()), Storbinary 1 ''db_20260127_020401_full.tar'' (Inl error_temp), Sleep 2 (Inr ()), Quit 1 (Inr ()), Connect (Inr 2), Cwd 2 ''/backups'' (Inr ()), Stat ''db_20260127_020401_full.tar'' (Inr 100), Open_rb ''db_20260127_020401_full.tar'' (Inr ()), Storbinary 2 ''db_20260127_020401_full.tar'' (Inr ()), Stat ''db_20260127_020401_full.tar'' (Inr 100), Size 2 ''db_20260127_020401_full.tar'' (Inr (Some 100))])) = 3"
proof -
  have l1: "last [Connect (Inr 0), Upload_call ''db_20260127_020401_full.tar'', Cwd 0 ''/backups'' (Inr ()), Stat ''db_20260127_020401_full.tar'' (Inr 100), Open_rb ''db_20260127_020401_full.tar'' (Inr ()), Storbinary 0 ''db_20260127_020401_full.tar'' (Inl error_temp)] = Storbinary 0 ''db_20260127_020401_full.tar'' (Inl error_temp)" by simp
  have l2: "last [Connect (Inr 0), Upload_call ''db_20260127_020401_full.tar'', Cwd 0 ''/backups'' (Inr ()), Stat ''db_20260127_020401_full.tar'' (Inr 100), Open_rb ''db_20260127_020401_full.tar'' (Inr ()), Storbinary 0 ''db_20260127_020401_full.tar'' (Inl error_temp), Sleep 1 (Inr ()), Quit 0 (Inr ()), Connect (Inr 1), Cwd 1 ''/backups'' (Inr ()), Stat ''db_20260127_020401_full.tar'' (Inr 100), Open_rb ''db_20260127_020401_full.tar'' (Inr ()), Storbinary 1 ''db_20260127_020401_full.tar'' (Inl error_temp)] = Storbinary 1 ''db_20260127_020401_full.tar'' (Inl error_temp)" by simp
  have s1: "time_sleep (transient_stores 2 calm) [Connect (Inr 0), Upload_call ''db_20260127_020401_full.tar'', Cwd 0 ''/backups'' (Inr ()), Stat ''db_20260127_020401_full.tar'' (Inr 100), Open_rb ''db_20260127_020401_full.tar'' (Inr ()), Storbinary 0 ''db_20260127_020401_full.tar'' (Inl error_temp)] 1 = Inr ()" by (simp add: transient_stores_def calm_def)
  have s2: "time_sleep (transient_stores 2 calm) [Connect (Inr 0), Upload_call ''db_20260127_020401_full.tar'', Cwd 0 ''/backups'' (Inr ()), Stat ''db_20260127_020401_full.tar'' (Inr 100), Open_rb ''db_20260127_020401_full.tar'' (Inr ()), Storbinary 0 ''db_20260127_020401_full.tar'' (Inl error_temp), Sleep 1 (Inr ()), Quit 0 (Inr ()), Connect (Inr 1), Cwd 1 ''/backups'' (Inr ()), Stat ''db_20260127_020401_full.tar'' (Inr 100), Open_rb ''db_20260127_020401_full.tar'' (Inr ()), Storbinary 1 ''db_20260127_020401_full.tar'' (Inl error_temp)] 2 = Inr ()" by (simp add: transient_stores_def calm_def)
  note sc = retry_policy[THEN conjunct2, THEN conjunct2, THEN conjunct2, THEN conjunct2,
      THEN conjunct1, rule_format]
  from sc[OF scenario_try1 l1 s1 scenario_connect1 scenario_try2 l2 s2 scenario_connect2
      scenario_try3]
  show ?thesis by simp
qed

text \<open>
  Claim C6 as it is worded has the reconnect after every transient transport error. The
  code evaluated where that fails: the \<^verbatim>\<open>STOR\<close> of the first two attempts ends in an
  exception that is not \<^verbatim>\<open>error_temp\<close> (a timeout of the socket) and the third
  succeeds. The code sleeps 1 and 2 seconds, and all three attempts run on session 0:
  there is no \<^verbatim>\<open>quit\<close> and no new connection between them.
\<close>

theorem timeout_retried_on_the_same_session:
  "upload_file_to_ftp_with_retry (example_config ''5'') (timeout_stores 2 calm) 0
     ''db_20260127_020401_full.tar'' ''db_20260127_020401_full.tar'' ''/backups'' 3
     [Connect (Inr 0)]
   = (Inr True,
      [Connect (Inr 0), Upload_call ''db_20260127_020401_full.tar'',
       Cwd 0 ''/backups'' (Inr ()),
       Stat ''db_20260127_020401_full.tar'' (Inr 100),
       Open_rb ''db_20260127_020401_full.tar'' (Inr ()),
       Storbinary 0 ''db_20260127_020401_full.tar'' (Inl OtherException),
       Sleep 1 (Inr ()),
       Cwd 0 ''/backups'' (Inr ()),
       Stat ''db_20260127_020401_full.tar'' (Inr 100),
       Open_rb ''db_20260127_020401_full.tar'' (Inr ()),
       Storbinary 0 ''db_20260127_020401_full.tar'' (Inl OtherException),
       Sleep 2 (Inr ()),
       Cwd 0 ''/backups'' (Inr ()),
       Stat ''db_20260127_020401_full.tar'' (Inr 100),
       Open_rb ''db_20260127_020401_full.tar'' (Inr ()),
       Storbinary 0 ''db_20260127_020401_full.tar'' (Inr ()),
       Stat ''db_20260127_020401_full.tar'' (Inr 100),
       Size 0 ''db_20260127_020401_full.tar'' (Inr (Some 100))])"
  by code_simp

subsection \<open>The exit status\<close>

lemma except_Exception_raises:
  "except_Exception m (\<lambda>e. return x) w = (Inl e, w') \<Longrightarrow> e = KeyboardInterrupt"
  by (auto simp: prog_defs is_Exception_def split: prod.splits sum.splits if_splits)

lemma process_archive_set_raises:
  "process_archive_set C E ftp b fs dir w = (Inl e, w') \<Longrightarrow> e = KeyboardInterrupt"
  unfolding process_archive_set_def by (rule except_Exception_raises)

lemma process_sets_raises:
  "process_sets C E ftp dir sets self w = (Inl e, self', w') \<Longrightarrow> e = KeyboardInterrupt"
proof (induction sets arbitrary: self w)
  case Nil
  then show ?case by simp
next
  case (Cons p sets)
  obtain b fs where p: "p = (b, fs)" by (cases p)
  obtain r w1 where q: "process_archive_set C E ftp b fs dir w = (r, w1)"
    by (cases "process_archive_set C E ftp b fs dir w")
  show ?case
  proof (cases r)
    case (Inl e1)
    with q have "e1 = KeyboardInterrupt" by (auto dest: process_archive_set_raises)
    with Cons.prems p q Inl show ?thesis by (simp add: is_Exception_def)
  next
    case (Inr ok)
    with Cons.prems p q show ?thesis by (cases ok) (auto dest: Cons.IH)
  qed
qed

lemma process_sets_ftp:
  "process_sets C E ftp dir sets self w = (r, self', w') \<Longrightarrow> self_ftp self' = self_ftp self"
proof (induction sets arbitrary: self w)
  case Nil
  then show ?case by simp
next
  case (Cons p sets)
  obtain b fs where p: "p = (b, fs)" by (cases p)
  obtain r1 w1 where q: "process_archive_set C E ftp b fs dir w = (r1, w1)"
    by (cases "process_archive_set C E ftp b fs dir w")
  show ?case
  proof (cases r1)
    case (Inl e1)
    with Cons.prems p q show ?thesis by (auto dest: Cons.IH split: if_splits)
  next
    case (Inr ok)
    with Cons.prems p q show ?thesis by (cases ok) (auto dest: Cons.IH)
  qed
qed

lemma cleanup_raises:
  "cleanup E ftp dir mc self w = (Inl e, w') \<Longrightarrow> e = KeyboardInterrupt"
  by (auto simp: cleanup_def cleanup_old_ftp_backups_def cleanup_local_archives_def seq_def return_def
      dest!: except_Exception_raises split: if_splits prod.splits sum.splits)

lemma set_continues:
  assumes "process_archive_set C E ftp b fs dir w = (r, w')"
    and "r = Inr False \<or> (\<exists>e. r = Inl e \<and> is_Exception e)"
  shows "process_sets C E ftp dir ((b, fs) # sets) self w
           = process_sets C E ftp dir sets
               (self\<lparr>failed_uploads := set_add (failed_uploads self) b\<rparr>) w'"
  using assms by auto

lemma after_locate:
  assumes "connect_ftp C E w = (Inr ftp, w1)"
    and "ensure_remote_directory E ftp dir w1 = (Inr (), w2)"
    and "get_multi_volume_archives E pats w2 = (Inr sets, w3)"
    and "run_connected C E pats dir mc self w = (r, self', w')"
  shows "r = Inl KeyboardInterrupt
         \<or> (r = Inr None \<and> self' = self\<lparr>self_ftp := Some ftp\<rparr>)
         \<or> r = Inr (Some (if failed_uploads self' \<noteq> [] then 1 else 0))"
proof (cases "sets = []")
  case True
  with assms show ?thesis by (simp add: run_connected_def)
next
  case False
  obtain r1 s1 w4 where p: "process_sets C E ftp dir sets (self\<lparr>self_ftp := Some ftp\<rparr>) w3 = (r1, s1, w4)"
    by (cases "process_sets C E ftp dir sets (self\<lparr>self_ftp := Some ftp\<rparr>) w3")
  obtain r2 w5 where c: "cleanup E ftp dir mc s1 w4 = (r2, w5)"
    by (cases "cleanup E ftp dir mc s1 w4")
  show ?thesis
  proof (cases r1)
    case (Inl e)
    with p have "e = KeyboardInterrupt" by (auto dest: process_sets_raises)
    with assms False p Inl show ?thesis by (simp add: run_connected_def)
  next
    case (Inr u)
    show ?thesis
    proof (cases r2)
      case c1: (Inl e)
      with c have "e = KeyboardInterrupt" by (auto dest: cleanup_raises)
      with assms False p Inr c c1 show ?thesis by (simp add: run_connected_def)
    next
      case c2: (Inr u2)
      with assms False p Inr c show ?thesis by (auto simp: run_connected_def)
    qed
  qed
qed

lemma read_config_raises: "read_config C = Inl e \<Longrightarrow> is_Exception e"
  by (auto simp: read_config_def get_section_def get_item_def read_max_copies_def is_Exception_def
      split: sum.splits option.splits)

lemma run_connected_result:
  assumes "run_connected C E pats dir mc self w = (Inr rc, self', w')"
  shows "(rc = None \<and> failed_uploads self' = failed_uploads self)
         \<or> rc = Some (if failed_uploads self' \<noteq> [] then 1 else 0)"
  using assms
  by (auto simp: run_connected_def split: prod.splits sum.splits if_splits)

lemma main_exit:
  assumes "run_body C E pats new_backup w = (r, self', w')"
  shows "fst (main E (Inr (C, pats)) w)
           = (case r of Inl e \<Rightarrow> if e = KeyboardInterrupt then 130 else 2
              | Inr None \<Rightarrow> 0 | Inr (Some c) \<Rightarrow> c)"
  using assms
  by (auto simp: main_def run_def is_Exception_def split: sum.splits option.splits)

lemma completed_exit:
  assumes "run_body C E pats new_backup w = (Inr rc, self', w')"
  shows "fst (main E (Inr (C, pats)) w) = (if failed_uploads self' = [] then 0 else 1)"
proof -
  from assms obtain dir mc where
    "run_connected C E pats dir mc new_backup w = (Inr rc, self', w')"
    by (auto simp: run_body_def split: sum.splits prod.splits)
  from run_connected_result[OF this] main_exit[OF assms] show ?thesis
    by (auto simp: new_backup_def)
qed

lemma aborted_exit:
  assumes "run_body C E pats new_backup w = (Inl e, self', w')" "is_Exception e"
  shows "fst (main E (Inr (C, pats)) w) = 2"
  using main_exit[OF assms(1)] assms(2) by (simp add: is_Exception_def)

lemma interrupted_exit:
  assumes "run_body C E pats new_backup w = (Inl KeyboardInterrupt, self', w')"
  shows "fst (main E (Inr (C, pats)) w) = 130"
  using main_exit[OF assms] by simp

lemma bad_config_exit:
  assumes "read_config C = Inl e"
  shows "fst (main E (Inr (C, pats)) w) = 2"
proof -
  from assms have "run_body C E pats new_backup w = (Inl e, new_backup, w)"
    by (simp add: run_body_def)
  from aborted_exit[OF this read_config_raises[OF assms]] show ?thesis .
qed

lemma no_connection_exit:
  assumes "read_config C = Inr (dir, mc)" "connect_ftp C E w = (Inl e, w1)" "is_Exception e"
  shows "fst (main E (Inr (C, pats)) w) = 2"
proof -
  from assms(1,2) have "run_body C E pats new_backup w = (Inl e, new_backup, w1)"
    by (simp add: run_body_def run_connected_def)
  from aborted_exit[OF this assms(3)] show ?thesis .
qed

lemma no_directory_exit:
  assumes "read_config C = Inr (dir, mc)" "connect_ftp C E w = (Inr ftp, w1)"
    and "ensure_remote_directory E ftp dir w1 = (Inl e, w2)" "is_Exception e"
  shows "fst (main E (Inr (C, pats)) w) = 2"
proof -
  from assms(1,2,3) have
    "run_body C E pats new_backup w = (Inl e, new_backup\<lparr>self_ftp := Some ftp\<rparr>, w2)"
    by (simp add: run_body_def run_connected_def)
  from aborted_exit[OF this assms(4)] show ?thesis .
qed

lemma mkd_failure_raises:
  assumes "ftp_cwd E w ftp dir = Inl error_perm" "posix_parts dir = part # parts"
    and "ftp_cwd E (w @ [Cwd ftp dir (Inl error_perm)]) ftp part = Inl error_perm"
    and "ftp_mkd E (w @ [Cwd ftp dir (Inl error_perm), Cwd ftp part (Inl error_perm)]) ftp part = Inl e"
  shows "fst (ensure_remote_directory E ftp dir w) = Inl e"
  using assms by (simp add: ensure_remote_directory_def prog_defs op_defs)

lemma set_failure_exit:
  assumes "read_config C = Inr (dir, mc)" "connect_ftp C E w = (Inr ftp, w1)"
    and "ensure_remote_directory E ftp dir w1 = (Inr (), w2)"
    and "get_multi_volume_archives E pats w2 = (Inr sets, w3)"
  shows "fst (main E (Inr (C, pats)) w) \<in> {0, 1, 130}
       \<and> (fst (main E (Inr (C, pats)) w) = 130
            \<longleftrightarrow> fst (run_body C E pats new_backup w) = Inl KeyboardInterrupt)"
proof -
  obtain r self' w' where rc: "run_connected C E pats dir mc new_backup w = (r, self', w')"
    by (cases "run_connected C E pats dir mc new_backup w")
  with assms(1) have rb: "run_body C E pats new_backup w = (r, self', w')"
    by (simp add: run_body_def)
  from after_locate[OF assms(2,3,4) rc] main_exit[OF rb] rb show ?thesis
    by (auto split: if_splits)
qed

lemma exit_codes: "fst (main E init w) \<in> {0, 1, 2, 130}"
proof (cases init)
  case (Inl e)
  then show ?thesis by (simp add: main_def)
next
  case (Inr cp)
  obtain C pats where cp: "cp = (C, pats)" by (cases cp)
  obtain r self' w' where rb: "run_body C E pats new_backup w = (r, self', w')"
    by (cases "run_body C E pats new_backup w")
  show ?thesis
  proof (cases r)
    case e: (Inl e)
    with main_exit[OF rb] Inr cp show ?thesis by simp
  next
    case v: (Inr rc)
    with completed_exit[of C E pats w rc self' w'] rb Inr cp show ?thesis by simp
  qed
qed

text \<open>
  The exit status, by the way in which the body of \<^verbatim>\<open>run\<close> ends. The status is one
  of 0, 1, 2 and 130. When the body of
  \<^verbatim>\<open>run\<close> returns, the status is 0 if no set failed and 1 otherwise. When an
  \<^verbatim>\<open>Exception\<close> leaves the body the status is 2: so for a configuration that cannot be
  read, for a connection that fails, and for a remote directory that cannot be entered or
  made (a \<^verbatim>\<open>mkd\<close> that raises is raised again). When \<^verbatim>\<open>KeyboardInterrupt\<close> leaves the
  body or the constructor the status is 130. Once the archive sets are located the status
  is never 2, and it is 130 only by an interrupt: a set that fails, or whose processing
  raises an \<^verbatim>\<open>Exception\<close>, is recorded as failed and the loop goes on with the next set.
\<close>

theorem exit_status:
  "(\<forall>E init w. fst (main E init w) \<in> {0, 1, 2, 130})
   \<and> (\<forall>C E pats w rc self' w'.
        run_body C E pats new_backup w = (Inr rc, self', w')
        \<longrightarrow> fst (main E (Inr (C, pats)) w) = (if failed_uploads self' = [] then 0 else 1))
   \<and> (\<forall>C E pats w e self' w'.
        run_body C E pats new_backup w = (Inl e, self', w') \<longrightarrow> is_Exception e
        \<longrightarrow> fst (main E (Inr (C, pats)) w) = 2)
   \<and> (\<forall>C E pats w e. read_config C = Inl e \<longrightarrow> fst (main E (Inr (C, pats)) w) = 2)
   \<and> (\<forall>C E pats w dir mc e w1.
        read_config C = Inr (dir, mc) \<longrightarrow> connect_ftp C E w = (Inl e, w1) \<longrightarrow> is_Exception e
        \<longrightarrow> fst (main E (Inr (C, pats)) w) = 2)
   \<and> (\<forall>C E pats w dir mc ftp e w1 w2.
        read_config C = Inr (dir, mc) \<longrightarrow> connect_ftp C E w = (Inr ftp, w1)
        \<longrightarrow> ensure_remote_directory E ftp dir w1 = (Inl e, w2) \<longrightarrow> is_Exception e
        \<longrightarrow> fst (main E (Inr (C, pats)) w) = 2)
   \<and> (\<forall>E w ftp dir part parts e.
        ftp_cwd E w ftp dir = Inl error_perm \<longrightarrow> posix_parts dir = part # parts
        \<longrightarrow> ftp_cwd E (w @ [Cwd ftp dir (Inl error_perm)]) ftp part = Inl error_perm
        \<longrightarrow> ftp_mkd E (w @ [Cwd ftp dir (Inl error_perm), Cwd ftp part (Inl error_perm)]) ftp part
              = Inl e
        \<longrightarrow> fst (ensure_remote_directory E ftp dir w) = Inl e)
   \<and> (\<forall>C E pats w self' w'.
        run_body C E pats new_backup w = (Inl KeyboardInterrupt, self', w')
        \<longrightarrow> fst (main E (Inr (C, pats)) w) = 130)
   \<and> (\<forall>E w. fst (main E (Inl KeyboardInterrupt) w) = 130)
   \<and> (\<forall>C E pats w dir mc ftp w1 w2 sets w3.
        read_config C = Inr (dir, mc) \<longrightarrow> connect_ftp C E w = (Inr ftp, w1)
        \<longrightarrow> ensure_remote_directory E ftp dir w1 = (Inr (), w2)
        \<longrightarrow> get_multi_volume_archives E pats w2 = (Inr sets, w3)
        \<longrightarrow> fst (main E (Inr (C, pats)) w) \<in> {0, 1, 130}
           \<and> (fst (main E (Inr (C, pats)) w) = 130
                \<longleftrightarrow> fst (run_body C E pats new_backup w) = Inl KeyboardInterrupt))
   \<and> (\<forall>C E ftp b fs dir w r w' sets self.
        process_archive_set C E ftp b fs dir w = (r, w')
        \<longrightarrow> r = Inr False \<or> (\<exists>e. r = Inl e \<and> is_Exception e)
        \<longrightarrow> process_sets C E ftp dir ((b, fs) # sets) self w
             = process_sets C E ftp dir sets
                 (self\<lparr>failed_uploads := set_add (failed_uploads self) b\<rparr>) w')"
proof (intro conjI allI impI)
  show "fst (main E (Inl KeyboardInterrupt) w) = 130" for E w
    by (simp add: main_def)
qed (rule exit_codes completed_exit aborted_exit bad_config_exit no_connection_exit
      no_directory_exit mkd_failure_raises interrupted_exit set_continues
      set_failure_exit[THEN conjunct1] set_failure_exit[THEN conjunct2]; assumption)+

lemma failing_run_code:
  "fst (run_body (example_config ''5'') (directory [''db_20260127_020401_full.tar'', ''db_20260127_020401_full.tar.1'', ''db_20260128_020401_full.tar''] (closing (transient_stores 1 calm))) [] new_backup []) = Inr (Some 1)"
  by code_simp

lemma failing_run_sets:
  "failed_uploads (fst (snd (run_body (example_config ''5'') (directory [''db_20260127_020401_full.tar'', ''db_20260127_020401_full.tar.1'', ''db_20260128_020401_full.tar''] (closing (transient_stores 1 calm))) [] new_backup []))) = [''db_20260127_020401_full.tar'', ''db_20260128_020401_full.tar'']"
  by code_simp

lemma config_read: "read_config (example_config ''5'') = Inr (''/backups'', 5)"
  by code_simp

lemma no_server:
  "connect_ftp (example_config ''5'') (unreachable calm) []
   = (Inl ConnectionError,
      [Connect (Inl OtherException), Sleep 5 (Inr ()), Connect (Inl OtherException),
       Sleep 5 (Inr ()), Connect (Inl OtherException)])"
  by code_simp

lemma interrupted_run:
  "fst (run_body (example_config ''5'') (directory [''db_20260127_020401_full.tar''] (interrupted_store calm)) [] new_backup []) = Inl KeyboardInterrupt"
  by code_simp

theorem exit_status_witness:
  "fst (main (directory [''db_20260127_020401_full.tar'', ''db_20260127_020401_full.tar.1'', ''db_20260128_020401_full.tar''] (closing (transient_stores 1 calm))) (Inr ((example_config ''5''), [])) []) = 1
   \<and> fst (main (unreachable calm) (Inr ((example_config ''5''), [])) []) = 2
   \<and> fst (main (directory [''db_20260127_020401_full.tar''] (interrupted_store calm)) (Inr ((example_config ''5''), [])) []) = 130"
proof -
  obtain r1 s1 w1 where rb1: "run_body (example_config ''5'') (directory [''db_20260127_020401_full.tar'', ''db_20260127_020401_full.tar.1'', ''db_20260128_020401_full.tar''] (closing (transient_stores 1 calm))) [] new_backup [] = (r1, s1, w1)"
    by (cases "run_body (example_config ''5'') (directory [''db_20260127_020401_full.tar'', ''db_20260127_020401_full.tar.1'', ''db_20260128_020401_full.tar''] (closing (transient_stores 1 calm))) [] new_backup []")
  with failing_run_code failing_run_sets have
    "run_body (example_config ''5'') (directory [''db_20260127_020401_full.tar'', ''db_20260127_020401_full.tar.1'', ''db_20260128_020401_full.tar''] (closing (transient_stores 1 calm))) [] new_backup [] = (Inr (Some 1), s1, w1)" "failed_uploads s1 \<noteq> []"
    by simp_all
  with exit_status[THEN conjunct2, THEN conjunct1, rule_format, OF this(1)]
  have a: "fst (main (directory [''db_20260127_020401_full.tar'', ''db_20260127_020401_full.tar.1'', ''db_20260128_020401_full.tar''] (closing (transient_stores 1 calm))) (Inr ((example_config ''5''), [])) []) = 1" by simp
  have e: "is_Exception ConnectionError" by (simp add: is_Exception_def)
  from exit_status[THEN conjunct2, THEN conjunct2, THEN conjunct2, THEN conjunct2, THEN conjunct1,
      rule_format, OF config_read no_server e]
  have b: "fst (main (unreachable calm) (Inr ((example_config ''5''), [])) []) = 2" .
  obtain r3 s3 w3 where rb3: "run_body (example_config ''5'') (directory [''db_20260127_020401_full.tar''] (interrupted_store calm)) [] new_backup [] = (r3, s3, w3)"
    by (cases "run_body (example_config ''5'') (directory [''db_20260127_020401_full.tar''] (interrupted_store calm)) [] new_backup []")
  with interrupted_run have "run_body (example_config ''5'') (directory [''db_20260127_020401_full.tar''] (interrupted_store calm)) [] new_backup [] = (Inl KeyboardInterrupt, s3, w3)"
    by simp
  from exit_status[THEN conjunct2, THEN conjunct2, THEN conjunct2, THEN conjunct2, THEN conjunct2,
      THEN conjunct2, THEN conjunct2, THEN conjunct1, rule_format, OF this]
  have c: "fst (main (directory [''db_20260127_020401_full.tar''] (interrupted_store calm)) (Inr ((example_config ''5''), [])) []) = 130" .
  from a b c show ?thesis by simp
qed

subsection \<open>The remote prune\<close>

lemma dict_append_keys:
  "map fst (dict_append d k v) = (if k \<in> fst ` set d then map fst d else map fst d @ [k])"
  by (induction d k v rule: dict_append.induct) auto

lemma dict_append_distinct: "distinct (map fst d) \<Longrightarrow> distinct (map fst (dict_append d k v))"
  by (simp add: dict_append_keys)

lemma dict_append_map_of:
  "map_of (dict_append d k v)
     = (map_of d)(k \<mapsto> (case map_of d k of None \<Rightarrow> [v] | Some vs \<Rightarrow> vs @ [v]))"
  by (induction d k v rule: dict_append.induct) (auto simp: fun_eq_iff)

lemma group_remote_distinct:
  "distinct (map fst d) \<Longrightarrow> distinct (map fst (group_remote successful files d))"
  by (induction successful files d rule: group_remote.induct)
     (auto simp: dict_append_distinct split: option.splits)

lemma wanted_None: "get_archive_base_name f = None \<Longrightarrow> wanted successful b f = False"
  by (simp add: wanted_def)

lemma wanted_Some:
  "get_archive_base_name f = Some bn
   \<Longrightarrow> wanted successful b f = (b = bn \<and> bn \<noteq> [] \<and> bn \<in> set successful)"
  by (auto simp: wanted_def)

lemma group_remote_map_of:
  "map_of (group_remote successful files d) b
     = (if filter (wanted successful b) files = [] then map_of d b
        else Some ((case map_of d b of None \<Rightarrow> [] | Some vs \<Rightarrow> vs)
                     @ filter (wanted successful b) files))"
proof (induction successful files d rule: group_remote.induct)
  case (1 successful archive_sets)
  then show ?case by simp
next
  case (2 successful filename files archive_sets)
  show ?case
  proof (cases "get_archive_base_name filename")
    case None
    with 2 show ?thesis by (simp add: wanted_None)
  next
    case (Some bn)
    show ?thesis
    proof (cases "bn \<noteq> [] \<and> bn \<in> set successful")
      case False
      with 2 Some show ?thesis by (auto simp: wanted_Some)
    next
      case True
      with 2(2)[OF Some] Some show ?thesis
        by (auto simp: wanted_Some dict_append_map_of split: option.splits)
    qed
  qed
qed

lemma group_remote_entries:
  assumes "(b, fl) \<in> set (group_remote successful files [])"
  shows "fl = filter (wanted successful b) files \<and> fl \<noteq> []"
proof -
  have "distinct (map fst (group_remote successful files []))"
    by (rule group_remote_distinct) simp
  with assms have "map_of (group_remote successful files []) b = Some fl" by simp
  then show ?thesis by (auto simp: group_remote_map_of split: if_splits)
qed


lemma group_remote_keys:
  "b \<in> fst ` set (group_remote successful files [])
     \<longleftrightarrow> filter (wanted successful b) files \<noteq> []"
proof -
  have "b \<in> fst ` set (group_remote successful files [])
          \<longleftrightarrow> map_of (group_remote successful files []) b \<noteq> None"
    by (simp add: map_of_eq_None_iff)
  then show ?thesis by (simp add: group_remote_map_of)
qed

lemma remote_timestamps_entries:
  "(t, b, fl') \<in> set (remote_timestamps d)
     \<longleftrightarrow> (\<exists>fl. (b, fl) \<in> set d \<and> get_archive_timestamp b = Some t
                \<and> fl' = sort_key get_volume_number fl)"
  by (induction d rule: remote_timestamps.induct) (auto split: option.splits)

lemma remote_timestamps_keys:
  "map (\<lambda>x. fst (snd x)) (remote_timestamps d)
     = filter (\<lambda>b. get_archive_timestamp b \<noteq> None) (map fst d)"
  by (induction d rule: remote_timestamps.induct) (auto split: option.splits)

lemma delete_files_trace:
  "delete_files E ftp fl w = (r, w')
   \<Longrightarrow> \<exists>tr. w' = w @ tr \<and> prefix (deleted tr) fl \<and> (r = Inr () \<longrightarrow> deleted tr = fl)
          \<and> set (unlinked tr) = {} \<and> (\<forall>e. r = Inl e \<longrightarrow> e = KeyboardInterrupt)"
proof (induction fl arbitrary: w)
  case Nil
  then show ?case by auto
next
  case (Cons f fl)
  let ?w1 = "w @ [Delete ftp f (ftp_delete E w ftp f)]"
  show ?case
  proof (cases "\<exists>e. ftp_delete E w ftp f = Inl e \<and> \<not> is_Exception e")
    case True
    with Cons.prems have "r = Inl KeyboardInterrupt" "w' = ?w1"
      by (auto simp: delete_def perform_def is_Exception_def)
    then show ?thesis by (intro exI[of _ "[Delete ftp f (ftp_delete E w ftp f)]"]) simp
  next
    case False
    with Cons.prems have "delete_files E ftp fl ?w1 = (r, w')"
      by (auto simp: delete_def perform_def split: sum.splits if_splits)
    from Cons.IH[OF this] obtain tr where
      tr: "w' = ?w1 @ tr" "prefix (deleted tr) fl" "r = Inr () \<longrightarrow> deleted tr = fl"
          "set (unlinked tr) = {}" "\<forall>e. r = Inl e \<longrightarrow> e = KeyboardInterrupt" by blast
    then show ?thesis
      by (intro exI[of _ "Delete ftp f (ftp_delete E w ftp f) # tr"]) simp
  qed
qed

lemma remove_remote_sets_trace:
  "remove_remote_sets E ftp rs w = (r, w')
   \<Longrightarrow> \<exists>tr. w' = w @ tr \<and> prefix (deleted tr) (concat (map (\<lambda>x. snd (snd x)) rs))
          \<and> (r = Inr () \<longrightarrow> deleted tr = concat (map (\<lambda>x. snd (snd x)) rs))
          \<and> set (unlinked tr) = {} \<and> (\<forall>e. r = Inl e \<longrightarrow> e = KeyboardInterrupt)"
proof (induction rs arbitrary: w)
  case Nil
  then show ?case by auto
next
  case (Cons x rs)
  obtain t b fl where x: "x = (t, b, fl)" by (cases x)
  obtain r1 w1 where d: "delete_files E ftp fl w = (r1, w1)" by (cases "delete_files E ftp fl w")
  from delete_files_trace[OF d] obtain t1 where
    t1: "w1 = w @ t1" "prefix (deleted t1) fl" "r1 = Inr () \<longrightarrow> deleted t1 = fl"
        "set (unlinked t1) = {}" "\<forall>e. r1 = Inl e \<longrightarrow> e = KeyboardInterrupt" by blast
  show ?case
  proof (cases r1)
    case (Inl e)
    with Cons.prems x d have "r = r1" "w' = w1" by simp_all
    with t1 Inl x show ?thesis by (intro exI[of _ t1]) auto
  next
    case (Inr u)
    with Cons.prems x d have "remove_remote_sets E ftp rs w1 = (r, w')" by simp
    from Cons.IH[OF this] obtain t2 where
      t2: "w' = w1 @ t2" "prefix (deleted t2) (concat (map (\<lambda>x. snd (snd x)) rs))"
          "r = Inr () \<longrightarrow> deleted t2 = concat (map (\<lambda>x. snd (snd x)) rs)"
          "set (unlinked t2) = {}" "\<forall>e. r = Inl e \<longrightarrow> e = KeyboardInterrupt" by blast
    with t1 Inr x show ?thesis
      by (intro exI[of _ "t1 @ t2"]) (auto simp: deleted_append unlinked_append)
  qed
qed

lemma filter_wanted:
  "filter (wanted successful b) files
     = (if b \<noteq> [] \<and> b \<in> set successful
        then filter (\<lambda>f. get_archive_base_name f = Some b) files else [])"
  by (induction files) (auto simp: wanted_def)

lemma group_remote_iff:
  "(b, fl) \<in> set (group_remote successful files [])
     \<longleftrightarrow> fl = filter (wanted successful b) files \<and> fl \<noteq> []"
proof
  assume "(b, fl) \<in> set (group_remote successful files [])"
  then show "fl = filter (wanted successful b) files \<and> fl \<noteq> []"
    by (rule group_remote_entries)
next
  assume a: "fl = filter (wanted successful b) files \<and> fl \<noteq> []"
  then have "filter (wanted successful b) files \<noteq> []" by auto
  then have "b \<in> fst ` set (group_remote successful files [])"
    by (simp add: group_remote_keys)
  then obtain fl0 where m: "(b, fl0) \<in> set (group_remote successful files [])" by auto
  from group_remote_entries[OF m] a have "fl0 = fl" by simp
  with m show "(b, fl) \<in> set (group_remote successful files [])" by simp
qed

lemma sort_key_Nil_iff: "sort_key f xs = [] \<longleftrightarrow> xs = []"
  by (metis length_0_conv length_sort)

lemma stamped_sets_wanted:
  "(t, b, fl) \<in> set (stamped_sets successful files)
     \<longleftrightarrow> filter (wanted successful b) files \<noteq> [] \<and> get_archive_timestamp b = Some t
         \<and> fl = sort_key get_volume_number (filter (wanted successful b) files)"
proof -
  have "(t, b, fl) \<in> set (stamped_sets successful files)
          \<longleftrightarrow> (\<exists>fl0. (b, fl0) \<in> set (group_remote successful files [])
                 \<and> get_archive_timestamp b = Some t \<and> fl = sort_key get_volume_number fl0)"
    unfolding stamped_sets_def by (simp add: remote_timestamps_entries)
  also have "\<dots> \<longleftrightarrow> filter (wanted successful b) files \<noteq> [] \<and> get_archive_timestamp b = Some t
         \<and> fl = sort_key get_volume_number (filter (wanted successful b) files)"
    unfolding group_remote_iff by blast
  finally show ?thesis .
qed

lemma stamped_sets_iff:
  "(t, b, fl) \<in> set (stamped_sets successful files)
     \<longleftrightarrow> b \<in> set successful \<and> b \<noteq> [] \<and> get_archive_timestamp b = Some t
         \<and> fl = sort_key get_volume_number (filter (\<lambda>f. get_archive_base_name f = Some b) files)
         \<and> fl \<noteq> []"
proof (cases "b \<noteq> [] \<and> b \<in> set successful")
  case True
  then have "filter (wanted successful b) files
               = filter (\<lambda>f. get_archive_base_name f = Some b) files"
    by (simp add: filter_wanted)
  with True show ?thesis unfolding stamped_sets_wanted by (auto simp: sort_key_Nil_iff)
next
  case False
  then have "filter (wanted successful b) files = []" by (auto simp: filter_wanted)
  with False show ?thesis unfolding stamped_sets_wanted by auto
qed

lemma stamped_sets_sorted: "sorted (map fst (stamped_sets successful files))"
  by (simp add: stamped_sets_def)

lemma stamped_sets_distinct: "distinct (map (\<lambda>x. fst (snd x)) (stamped_sets successful files))"
proof -
  have "distinct (map fst (group_remote successful files []))"
    by (rule group_remote_distinct) simp
  then have d: "distinct (map (\<lambda>x. fst (snd x)) (remote_timestamps (group_remote successful files [])))"
    by (simp add: remote_timestamps_keys)
  have i: "inj_on (\<lambda>x. fst (snd x)) (set (remote_timestamps (group_remote successful files [])))"
    and r: "distinct (remote_timestamps (group_remote successful files []))"
    using d by (simp_all add: distinct_map)
  show ?thesis
    unfolding stamped_sets_def using i r by (simp add: distinct_map)
qed


lemma slice_to_minus:
  assumes "1 \<le> n" "int (length xs) > n"
  shows "slice_to xs (- n) = take (length xs - nat n) xs"
proof -
  from assms have "nat (int (length xs) + - n) = length xs - nat n" by linarith
  with assms show ?thesis by (simp add: slice_to_def)
qed

lemma cleanup_old_listed:
  assumes "ftp_cwd E w ftp remote_dir = Inr ()"
    and "ftp_nlst E (w @ [Cwd ftp remote_dir (Inr ())]) ftp = Inr files"
    and "1 \<le> max_copies"
  shows "cleanup_old_ftp_backups E successful ftp remote_dir max_copies w
     = except_Exception
         (remove_remote_sets E ftp
            (take (length (stamped_sets successful files) - nat max_copies)
               (stamped_sets successful files)))
         (\<lambda>e. return ()) (w @ [Cwd ftp remote_dir (Inr ()), Nlst ftp (Inr files)])"
proof -
  let ?st = "stamped_sets successful files"
  let ?wl = "w @ [Cwd ftp remote_dir (Inr ()), Nlst ftp (Inr files)]"
  have c: "cleanup_old_ftp_backups E successful ftp remote_dir max_copies w
     = except_Exception
         (if int (length ?st) > max_copies
          then remove_remote_sets E ftp (slice_to ?st (- max_copies)) else return ())
         (\<lambda>e. return ()) ?wl"
    using assms(1,2)
    by (simp add: cleanup_old_ftp_backups_def prog_defs op_defs Let_def stamped_sets_def)
  show ?thesis
  proof (cases "int (length ?st) > max_copies")
    case True
    with c slice_to_minus[OF assms(3) True] show ?thesis by simp
  next
    case False
    then have "take (length ?st - nat max_copies) ?st = []" by simp
    with c False show ?thesis by (simp add: prog_defs)
  qed
qed

text \<open>
  The remote prune for \<^verbatim>\<open>max_copies\<close> of at least 1. After a listing that succeeds,
  the names handed to \<^verbatim>\<open>delete\<close> are the files of all but the last \<^verbatim>\<open>max_copies\<close>
  entries of \<open>stamped_sets\<close>, set by set (a beginning of them if the user interrupts).
  The entries of \<open>stamped_sets\<close> are sorted by timestamp, name each base name once, and
  are exactly the successful base names with a timestamp and a listed file, each with
  all the listed files of that base name. So a set without a timestamp, and a set that
  did not succeed in this run, is never deleted; the entries that are kept are the last
  \<^verbatim>\<open>max_copies\<close> (all, when there are fewer), none of them older than a deleted one; and
  with no successful set the run does not prune at all.
\<close>

theorem remote_prune:
  assumes "ftp_cwd E w ftp remote_dir = Inr ()"
    and "ftp_nlst E (w @ [Cwd ftp remote_dir (Inr ())]) ftp = Inr files"
    and "1 \<le> max_copies"
    and "cleanup_old_ftp_backups E successful ftp remote_dir max_copies w = (r, w')"
  shows "prefix (deleted (drop (length w) w'))
           (concat (map (\<lambda>x. snd (snd x))
              (take (length (stamped_sets successful files) - nat max_copies)
                 (stamped_sets successful files))))
       \<and> (r = Inr ()
           \<longrightarrow> deleted (drop (length w) w')
                = concat (map (\<lambda>x. snd (snd x))
                    (take (length (stamped_sets successful files) - nat max_copies)
                       (stamped_sets successful files))))
       \<and> length (drop (length (stamped_sets successful files) - nat max_copies)
                    (stamped_sets successful files))
           = min (length (stamped_sets successful files)) (nat max_copies)
       \<and> (\<forall>x\<in>set (take (length (stamped_sets successful files) - nat max_copies)
                      (stamped_sets successful files)).
            \<forall>y\<in>set (drop (length (stamped_sets successful files) - nat max_copies)
                      (stamped_sets successful files)). fst x \<le> fst y)
       \<and> sorted (map fst (stamped_sets successful files))
       \<and> distinct (map (\<lambda>x. fst (snd x)) (stamped_sets successful files))
       \<and> cleanup E ftp remote_dir max_copies (self\<lparr>successful_uploads := []\<rparr>) w = (Inr (), w)
       \<and> (\<forall>t b fl. (t, b, fl) \<in> set (stamped_sets successful files)
             \<longleftrightarrow> b \<in> set successful \<and> b \<noteq> [] \<and> get_archive_timestamp b = Some t
                 \<and> fl = sort_key get_volume_number
                          (filter (\<lambda>f. get_archive_base_name f = Some b) files)
                 \<and> fl \<noteq> [])"
proof -
  let ?rs = "take (length (stamped_sets successful files) - nat max_copies)
               (stamped_sets successful files)"
  let ?wl = "w @ [Cwd ftp remote_dir (Inr ()), Nlst ftp (Inr files)]"
  obtain r0 w0 where rm: "remove_remote_sets E ftp ?rs ?wl = (r0, w0)"
    by (cases "remove_remote_sets E ftp ?rs ?wl")
  from remove_remote_sets_trace[OF rm] obtain tr where
    tr: "w0 = ?wl @ tr" "prefix (deleted tr) (concat (map (\<lambda>x. snd (snd x)) ?rs))"
        "r0 = Inr () \<longrightarrow> deleted tr = concat (map (\<lambda>x. snd (snd x)) ?rs)"
        "\<forall>e. r0 = Inl e \<longrightarrow> e = KeyboardInterrupt" by blast
  have "cleanup_old_ftp_backups E successful ftp remote_dir max_copies w = (r0, w0)"
  proof (cases r0)
    case (Inl e)
    with tr(4) have "e = KeyboardInterrupt" by simp
    with Inl rm show ?thesis
      unfolding cleanup_old_listed[OF assms(1,2,3)]
      by (simp add: except_Exception_def is_Exception_def)
  next
    case (Inr u)
    with rm show ?thesis
      unfolding cleanup_old_listed[OF assms(1,2,3)] by (simp add: except_Exception_def)
  qed
  with assms(4) have e: "r = r0" "w' = w0" by simp_all
  with tr(1) have "drop (length w) w' = [Cwd ftp remote_dir (Inr ()), Nlst ftp (Inr files)] @ tr"
    by simp
  then have d: "deleted (drop (length w) w') = deleted tr" by (simp add: deleted_append)
  have k: "length (drop (length (stamped_sets successful files) - nat max_copies)
                    (stamped_sets successful files))
           = min (length (stamped_sets successful files)) (nat max_copies)"
    by simp
  have o: "\<forall>x\<in>set (take n (stamped_sets successful files)).
            \<forall>y\<in>set (drop n (stamped_sets successful files)). fst x \<le> fst y" for n
  proof -
    have "sorted (map fst (take n (stamped_sets successful files)
                           @ drop n (stamped_sets successful files)))"
      using stamped_sets_sorted[of successful files] by simp
    then show ?thesis unfolding map_append sorted_append by auto
  qed
  have z: "cleanup E ftp remote_dir max_copies (self\<lparr>successful_uploads := []\<rparr>) w = (Inr (), w)"
    by (simp add: cleanup_def return_def)
  show ?thesis
    unfolding d using tr(2,3) e(1) k o z
    by (intro conjI allI stamped_sets_sorted stamped_sets_distinct stamped_sets_iff) simp_all
qed

lemma six_sets_prune:
  "cleanup_old_ftp_backups (listing [''site_20260101_030000_full.tar'', ''site_20260101_030000_full.tar.1'', ''site_20260102_030000_full.tar'', ''site_20260103_030000_full.tar'', ''site_20260104_030000_full.tar'', ''site_20260105_030000_full.tar'', ''site_20260106_030000_full.tar'', ''site_20260106_030000_full.tar.1'', ''notes.txt'', ''old_20250101_000000_full.tar''] calm) [''site_20260101_030000_full.tar'', ''site_20260102_030000_full.tar'', ''site_20260103_030000_full.tar'', ''site_20260104_030000_full.tar'', ''site_20260105_030000_full.tar'', ''site_20260106_030000_full.tar''] 0 ''/backups'' 5 [Connect (Inr 0)]
   = (Inr (),
      [Connect (Inr 0), Cwd 0 ''/backups'' (Inr ()), Nlst 0 (Inr [''site_20260101_030000_full.tar'', ''site_20260101_030000_full.tar.1'', ''site_20260102_030000_full.tar'', ''site_20260103_030000_full.tar'', ''site_20260104_030000_full.tar'', ''site_20260105_030000_full.tar'', ''site_20260106_030000_full.tar'', ''site_20260106_030000_full.tar.1'', ''notes.txt'', ''old_20250101_000000_full.tar'']),
       Delete 0 ''site_20260101_030000_full.tar'' (Inr ()), Delete 0 ''site_20260101_030000_full.tar.1'' (Inr ())])"
  by code_simp

lemma six_sets_stamped:
  "map (\<lambda>x. fst (snd x)) (stamped_sets [''site_20260101_030000_full.tar'', ''site_20260102_030000_full.tar'', ''site_20260103_030000_full.tar'', ''site_20260104_030000_full.tar'', ''site_20260105_030000_full.tar'', ''site_20260106_030000_full.tar''] [''site_20260101_030000_full.tar'', ''site_20260101_030000_full.tar.1'', ''site_20260102_030000_full.tar'', ''site_20260103_030000_full.tar'', ''site_20260104_030000_full.tar'', ''site_20260105_030000_full.tar'', ''site_20260106_030000_full.tar'', ''site_20260106_030000_full.tar.1'', ''notes.txt'', ''old_20250101_000000_full.tar'']) = [''site_20260101_030000_full.tar'', ''site_20260102_030000_full.tar'', ''site_20260103_030000_full.tar'', ''site_20260104_030000_full.tar'', ''site_20260105_030000_full.tar'', ''site_20260106_030000_full.tar'']
   \<and> concat (map (\<lambda>x. snd (snd x)) (take (length (stamped_sets [''site_20260101_030000_full.tar'', ''site_20260102_030000_full.tar'', ''site_20260103_030000_full.tar'', ''site_20260104_030000_full.tar'', ''site_20260105_030000_full.tar'', ''site_20260106_030000_full.tar''] [''site_20260101_030000_full.tar'', ''site_20260101_030000_full.tar.1'', ''site_20260102_030000_full.tar'', ''site_20260103_030000_full.tar'', ''site_20260104_030000_full.tar'', ''site_20260105_030000_full.tar'', ''site_20260106_030000_full.tar'', ''site_20260106_030000_full.tar.1'', ''notes.txt'', ''old_20250101_000000_full.tar'']) - nat 5)
        (stamped_sets [''site_20260101_030000_full.tar'', ''site_20260102_030000_full.tar'', ''site_20260103_030000_full.tar'', ''site_20260104_030000_full.tar'', ''site_20260105_030000_full.tar'', ''site_20260106_030000_full.tar''] [''site_20260101_030000_full.tar'', ''site_20260101_030000_full.tar.1'', ''site_20260102_030000_full.tar'', ''site_20260103_030000_full.tar'', ''site_20260104_030000_full.tar'', ''site_20260105_030000_full.tar'', ''site_20260106_030000_full.tar'', ''site_20260106_030000_full.tar.1'', ''notes.txt'', ''old_20250101_000000_full.tar'']))) = [''site_20260101_030000_full.tar'', ''site_20260101_030000_full.tar.1'']"
  by code_simp

theorem remote_prune_witness:
  "deleted (drop 1 (snd (cleanup_old_ftp_backups (listing [''site_20260101_030000_full.tar'', ''site_20260101_030000_full.tar.1'', ''site_20260102_030000_full.tar'', ''site_20260103_030000_full.tar'', ''site_20260104_030000_full.tar'', ''site_20260105_030000_full.tar'', ''site_20260106_030000_full.tar'', ''site_20260106_030000_full.tar.1'', ''notes.txt'', ''old_20250101_000000_full.tar''] calm) [''site_20260101_030000_full.tar'', ''site_20260102_030000_full.tar'', ''site_20260103_030000_full.tar'', ''site_20260104_030000_full.tar'', ''site_20260105_030000_full.tar'', ''site_20260106_030000_full.tar''] 0 ''/backups'' 5 [Connect (Inr 0)])))
     = [''site_20260101_030000_full.tar'', ''site_20260101_030000_full.tar.1'']
   \<and> map (\<lambda>x. fst (snd x)) (stamped_sets [''site_20260101_030000_full.tar'', ''site_20260102_030000_full.tar'', ''site_20260103_030000_full.tar'', ''site_20260104_030000_full.tar'', ''site_20260105_030000_full.tar'', ''site_20260106_030000_full.tar''] [''site_20260101_030000_full.tar'', ''site_20260101_030000_full.tar.1'', ''site_20260102_030000_full.tar'', ''site_20260103_030000_full.tar'', ''site_20260104_030000_full.tar'', ''site_20260105_030000_full.tar'', ''site_20260106_030000_full.tar'', ''site_20260106_030000_full.tar.1'', ''notes.txt'', ''old_20250101_000000_full.tar'']) = [''site_20260101_030000_full.tar'', ''site_20260102_030000_full.tar'', ''site_20260103_030000_full.tar'', ''site_20260104_030000_full.tar'', ''site_20260105_030000_full.tar'', ''site_20260106_030000_full.tar'']"
proof -
  have c: "ftp_cwd (listing [''site_20260101_030000_full.tar'', ''site_20260101_030000_full.tar.1'', ''site_20260102_030000_full.tar'', ''site_20260103_030000_full.tar'', ''site_20260104_030000_full.tar'', ''site_20260105_030000_full.tar'', ''site_20260106_030000_full.tar'', ''site_20260106_030000_full.tar.1'', ''notes.txt'', ''old_20250101_000000_full.tar''] calm) [Connect (Inr 0)] 0 ''/backups'' = Inr ()"
    and n: "ftp_nlst (listing [''site_20260101_030000_full.tar'', ''site_20260101_030000_full.tar.1'', ''site_20260102_030000_full.tar'', ''site_20260103_030000_full.tar'', ''site_20260104_030000_full.tar'', ''site_20260105_030000_full.tar'', ''site_20260106_030000_full.tar'', ''site_20260106_030000_full.tar.1'', ''notes.txt'', ''old_20250101_000000_full.tar''] calm) ([Connect (Inr 0)] @ [Cwd 0 ''/backups'' (Inr ())]) 0 = Inr [''site_20260101_030000_full.tar'', ''site_20260101_030000_full.tar.1'', ''site_20260102_030000_full.tar'', ''site_20260103_030000_full.tar'', ''site_20260104_030000_full.tar'', ''site_20260105_030000_full.tar'', ''site_20260106_030000_full.tar'', ''site_20260106_030000_full.tar.1'', ''notes.txt'', ''old_20250101_000000_full.tar'']"
    by (simp_all add: listing_def calm_def)
  have m: "(1::int) \<le> 5" by simp
  from remote_prune[OF c n m six_sets_prune] six_sets_stamped six_sets_prune
  show ?thesis by simp
qed

subsection \<open>Runs in which the code leaves its description\<close>

text \<open>
  Claim C7 says that \<^verbatim>\<open>_upload_file_to_ftp_with_retry\<close> never lets an exception reach
  its caller. The code evaluated where that fails: the first \<^verbatim>\<open>STOR\<close> raises
  \<^verbatim>\<open>error_temp\<close> and the server then refuses connections. The handler calls
  \<^verbatim>\<open>_connect_ftp\<close> outside any \<^verbatim>\<open>try\<close>, so its \<^verbatim>\<open>ConnectionError\<close> leaves the
  function after the first of the three attempts.
\<close>

theorem upload_raises_when_reconnect_fails:
  "upload_file_to_ftp_with_retry (example_config ''5'') (unreachable (transient_stores 1 calm)) 0
     ''db_20260127_020401_full.tar'' ''db_20260127_020401_full.tar'' ''/backups'' 3
     [Connect (Inr 0)]
   = (Inl ConnectionError,
      [Connect (Inr 0), Upload_call ''db_20260127_020401_full.tar'',
       Cwd 0 ''/backups'' (Inr ()),
       Stat ''db_20260127_020401_full.tar'' (Inr 100),
       Open_rb ''db_20260127_020401_full.tar'' (Inr ()),
       Storbinary 0 ''db_20260127_020401_full.tar'' (Inl error_temp),
       Sleep 1 (Inr ()), Quit 0 (Inr ()), Connect (Inl OtherException),
       Sleep 5 (Inr ()), Connect (Inl OtherException), Sleep 5 (Inr ()),
       Connect (Inl OtherException)])"
  by code_simp

text \<open>
  Claim C9 says that after a reconnect the new session serves every later operation.
  The code evaluated where that fails: the first \<^verbatim>\<open>STOR\<close> of a set of two volumes
  raises \<^verbatim>\<open>error_temp\<close>. The retry of volume 0 runs on the new session 1, but the
  caller still holds session 0, which was quit: the upload of volume 1 is called with it,
  every \<^verbatim>\<open>cwd\<close> fails, and the set fails.
\<close>

theorem later_volume_uses_closed_session:
  "process_archive_set (example_config ''5'') (closing (transient_stores 1 calm)) 0
     ''db_20260127_020401_full.tar''
     [''db_20260127_020401_full.tar'', ''db_20260127_020401_full.tar.1''] ''/backups''
     [Connect (Inr 0)]
   = (Inr False,
      [Connect (Inr 0), Cwd 0 ''/backups'' (Inr ()), Nlst 0 (Inr []),
       Upload_call ''db_20260127_020401_full.tar'', Cwd 0 ''/backups'' (Inr ()),
       Stat ''db_20260127_020401_full.tar'' (Inr 100),
       Open_rb ''db_20260127_020401_full.tar'' (Inr ()),
       Storbinary 0 ''db_20260127_020401_full.tar'' (Inl error_temp),
       Sleep 1 (Inr ()), Quit 0 (Inr ()), Connect (Inr 1),
       Cwd 1 ''/backups'' (Inr ()),
       Stat ''db_20260127_020401_full.tar'' (Inr 100),
       Open_rb ''db_20260127_020401_full.tar'' (Inr ()),
       Storbinary 1 ''db_20260127_020401_full.tar'' (Inr ()),
       Stat ''db_20260127_020401_full.tar'' (Inr 100),
       Size 1 ''db_20260127_020401_full.tar'' (Inr (Some 100)),
       Upload_call ''db_20260127_020401_full.tar.1'',
       Cwd 0 ''/backups'' (Inl OtherException), Sleep 1 (Inr ()),
       Cwd 0 ''/backups'' (Inl OtherException), Sleep 2 (Inr ()),
       Cwd 0 ''/backups'' (Inl OtherException)])"
  by code_simp

text \<open>
  Claim C1 says that a set is recorded as uploaded only when every local volume is on the
  server. The code evaluated where that fails: the set has the volumes \<^verbatim>\<open>.tar\<close> and
  \<^verbatim>\<open>.tar.1\<close>, the server lists \<^verbatim>\<open>.tar\<close> and \<^verbatim>\<open>.tar.old\<close>. Two remote names start with
  the base name and the set has two volumes, so the run records the set as successful
  without any \<^verbatim>\<open>STOR\<close>, and \<^verbatim>\<open>.tar.1\<close> is not on the server.
\<close>

theorem uploaded_with_a_volume_missing:
  "run (example_config ''5'')
     (directory [''db_20260127_020401_full.tar'', ''db_20260127_020401_full.tar.1'']
        (listing [''db_20260127_020401_full.tar'', ''db_20260127_020401_full.tar.old''] calm))
     [] new_backup []
   = (Inr (Some 0),
      \<lparr>self_ftp = Some 0, successful_uploads = [''db_20260127_020401_full.tar''],
       failed_uploads = []\<rparr>,
      [Connect (Inr 0), Cwd 0 ''/backups'' (Inr ()),
       Glob ''*.tar'' (Inr [''db_20260127_020401_full.tar'']),
       Glob ''*.tar.*'' (Inr [''db_20260127_020401_full.tar.1'']),
       Cwd 0 ''/backups'' (Inr ()),
       Nlst 0 (Inr [''db_20260127_020401_full.tar'', ''db_20260127_020401_full.tar.old'']),
       Cwd 0 ''/backups'' (Inr ()),
       Nlst 0 (Inr [''db_20260127_020401_full.tar'', ''db_20260127_020401_full.tar.old'']),
       Glob ''db_20260127_020401_full.tar*''
         (Inr [''db_20260127_020401_full.tar'', ''db_20260127_020401_full.tar.1'']),
       Quit 0 (Inr ())])"
  by code_simp

text \<open>
  Claim C3 says that the remote prune deletes the files of all but the newest
  \<^verbatim>\<open>max_copies\<close> successful sets. The code evaluated at \<^verbatim>\<open>max_copies = 0\<close>, with two
  successful, timestamped sets on the server: \<^verbatim>\<open>archive_timestamps[:-0]\<close> is the empty
  list, so nothing is deleted, where the claim has both sets deleted (and the code logs
  that it kept \<^verbatim>\<open>min(2, 0)\<close> sets). At \<^verbatim>\<open>max_copies = 1\<close> the older set is deleted, as
  claimed.
\<close>

theorem zero_copies_deletes_nothing:
  "cleanup_old_ftp_backups (listing [''db_20260127_020401_full.tar'', ''db_20260128_020401_full.tar''] calm) [''db_20260127_020401_full.tar'', ''db_20260128_020401_full.tar''] 0 ''/backups'' 0
     [Connect (Inr 0)]
   = (Inr (), [Connect (Inr 0), Cwd 0 ''/backups'' (Inr ()), Nlst 0 (Inr [''db_20260127_020401_full.tar'', ''db_20260128_020401_full.tar''])])
   \<and> deleted (snd (cleanup_old_ftp_backups (listing [''db_20260127_020401_full.tar'', ''db_20260128_020401_full.tar''] calm) [''db_20260127_020401_full.tar'', ''db_20260128_020401_full.tar''] 0
         ''/backups'' 1 [Connect (Inr 0)])) = [''db_20260127_020401_full.tar'']
   \<and> (case run (example_config ''0'') (directory [''db_20260127_020401_full.tar'', ''db_20260128_020401_full.tar''] (server [] calm)) []
          new_backup [] of
        (r, self', w') \<Rightarrow>
          r = Inr (Some 0) \<and> successful_uploads self' = [''db_20260127_020401_full.tar'', ''db_20260128_020401_full.tar''] \<and> deleted w' = []
          \<and> remote_files [] w' = [''db_20260127_020401_full.tar'', ''db_20260128_020401_full.tar''])"
  by code_simp

text \<open>
  Claim C2 says that the local cleanup deletes files of sets recorded as uploaded only.
  The code evaluated where that fails: the source directory holds three sets of one file
  each, the upload of the second is refused, and the name of its file starts with the base
  name of the first. The first and the third set succeed, the second is recorded as failed.
  The cleanup takes \<^verbatim>\<open>glob(base_name + "*")\<close> for the files of the first set, so it
  removes the file of the failed set with them.
\<close>

theorem failed_set_deleted_locally:
  "(case run (example_config ''5'')
          (directory [''db_20260127_020401_full.tar'', ''db_20260127_020401_full.tar_v2.tar'', ''db_20260128_020401_full.tar''] (store_refused ''db_20260127_020401_full.tar_v2.tar'' (server [] calm))) [] new_backup [] of
      (r, self', w') \<Rightarrow>
        r = Inr (Some 1) \<and> successful_uploads self' = [''db_20260127_020401_full.tar'', ''db_20260128_020401_full.tar'']
        \<and> failed_uploads self' = [''db_20260127_020401_full.tar_v2.tar''] \<and> unlinked w' = [''db_20260127_020401_full.tar'', ''db_20260127_020401_full.tar_v2.tar''])
   \<and> get_archive_base_name ''db_20260127_020401_full.tar_v2.tar'' = Some ''db_20260127_020401_full.tar_v2.tar''"
  by code_simp

text \<open>
  Claim C5 says that for a set of which some but not all volumes are on the server, the
  Reconciler uploads exactly the local volumes that the remote listing does not hold. The
  code evaluated where that fails: the Locator finds the set with the volumes \<^verbatim>\<open>.tar\<close>,
  \<^verbatim>\<open>.tar.1\<close> and \<^verbatim>\<open>.tar.2\<close>, and the server lists \<^verbatim>\<open>.tar\<close>, \<^verbatim>\<open>.tar.1\<close> and
  \<^verbatim>\<open>.tar.1.bak\<close>. Three remote names start with the base name and the set has three
  volumes, so the Reconciler returns \<^verbatim>\<open>True\<close> after the listing, with no upload call,
  and \<^verbatim>\<open>.tar.2\<close>, the one local volume that the listing does not hold, is not uploaded.
  It is the same with the volumes \<^verbatim>\<open>.tar\<close> and \<^verbatim>\<open>.tar.1\<close> and the listing \<^verbatim>\<open>.tar\<close>,
  \<^verbatim>\<open>.tar.old\<close>. The defect is that of claim C1: the test under the comment
  \<^verbatim>\<open># Verify all volumes are present\<close> compares two counts.
\<close>

theorem repair_skipped_when_counts_agree:
  "get_multi_volume_archives
     (directory [''db_20260127_020401_full.tar'', ''db_20260127_020401_full.tar.1'',
                 ''db_20260127_020401_full.tar.2''] calm) [] []
   = (Inr [(''db_20260127_020401_full.tar'',
            [''db_20260127_020401_full.tar'', ''db_20260127_020401_full.tar.1'',
             ''db_20260127_020401_full.tar.2''])],
      [Glob ''*.tar'' (Inr [''db_20260127_020401_full.tar'']),
       Glob ''*.tar.*'' (Inr [''db_20260127_020401_full.tar.1'',
                              ''db_20260127_020401_full.tar.2''])])
   \<and> process_archive_set (example_config ''5'')
       (listing [''db_20260127_020401_full.tar'', ''db_20260127_020401_full.tar.1'',
                 ''db_20260127_020401_full.tar.1.bak''] calm) 0
       ''db_20260127_020401_full.tar''
       [''db_20260127_020401_full.tar'', ''db_20260127_020401_full.tar.1'',
        ''db_20260127_020401_full.tar.2''] ''/backups'' [Connect (Inr 0)]
     = (Inr True,
        [Connect (Inr 0), Cwd 0 ''/backups'' (Inr ()),
         Nlst 0 (Inr [''db_20260127_020401_full.tar'', ''db_20260127_020401_full.tar.1'',
                      ''db_20260127_020401_full.tar.1.bak''])])
   \<and> filter (\<lambda>v. v \<notin> set [''db_20260127_020401_full.tar'', ''db_20260127_020401_full.tar.1'',
                            ''db_20260127_020401_full.tar.1.bak''])
       [''db_20260127_020401_full.tar'', ''db_20260127_020401_full.tar.1'',
        ''db_20260127_020401_full.tar.2'']
     = [''db_20260127_020401_full.tar.2'']
   \<and> process_archive_set (example_config ''5'')
       (listing [''db_20260127_020401_full.tar'', ''db_20260127_020401_full.tar.old''] calm) 0
       ''db_20260127_020401_full.tar''
       [''db_20260127_020401_full.tar'', ''db_20260127_020401_full.tar.1''] ''/backups''
       [Connect (Inr 0)]
     = (Inr True,
        [Connect (Inr 0), Cwd 0 ''/backups'' (Inr ()),
         Nlst 0 (Inr [''db_20260127_020401_full.tar'', ''db_20260127_020401_full.tar.old''])])"
  by code_simp

text \<open>
  Claim C8 says that the exit status is 130 on external interruption. The code evaluated
  where that fails: a \<^verbatim>\<open>KeyboardInterrupt\<close> raised inside one of the three bare
  \<^verbatim>\<open>except:\<close> blocks is swallowed, the run goes on and the status is 0. In the first run
  the \<^verbatim>\<open>STOR\<close> raises \<^verbatim>\<open>error_temp\<close> and the user interrupts the \<^verbatim>\<open>quit\<close> of the retry
  handler: the code reconnects, uploads and prunes. In the second the user interrupts the
  \<^verbatim>\<open>quit\<close> of the \<^verbatim>\<open>finally\<close> clause of \<^verbatim>\<open>run\<close>. In the third the remote directory is
  made and the user interrupts the last \<^verbatim>\<open>cwd\<close> of \<^verbatim>\<open>_ensure_remote_directory\<close>. The
  fourth run is for comparison: an interrupt of the \<^verbatim>\<open>STOR\<close> leaves \<^verbatim>\<open>run\<close>, and
  \<^verbatim>\<open>main\<close> exits with 130.
\<close>

theorem interrupt_swallowed_by_bare_except:
  "main (directory [''db_20260127_020401_full.tar''] (interrupted_quit (transient_stores 1 calm)))
     (Inr (example_config ''5'', [])) []
   = (0,
      [Connect (Inr 0), Cwd 0 ''/backups'' (Inr ()),
       Glob ''*.tar'' (Inr [''db_20260127_020401_full.tar'']), Glob ''*.tar.*'' (Inr []),
       Cwd 0 ''/backups'' (Inr ()), Nlst 0 (Inr []),
       Upload_call ''db_20260127_020401_full.tar'', Cwd 0 ''/backups'' (Inr ()),
       Stat ''db_20260127_020401_full.tar'' (Inr 100),
       Open_rb ''db_20260127_020401_full.tar'' (Inr ()),
       Storbinary 0 ''db_20260127_020401_full.tar'' (Inl error_temp),
       Sleep 1 (Inr ()), Quit 0 (Inl KeyboardInterrupt), Connect (Inr 1),
       Cwd 1 ''/backups'' (Inr ()),
       Stat ''db_20260127_020401_full.tar'' (Inr 100),
       Open_rb ''db_20260127_020401_full.tar'' (Inr ()),
       Storbinary 1 ''db_20260127_020401_full.tar'' (Inr ()),
       Stat ''db_20260127_020401_full.tar'' (Inr 100),
       Size 1 ''db_20260127_020401_full.tar'' (Inr (Some 100)),
       Cwd 0 ''/backups'' (Inr ()), Nlst 0 (Inr []),
       Glob ''db_20260127_020401_full.tar*'' (Inr [''db_20260127_020401_full.tar'']),
       Quit 0 (Inr ())])
   \<and> main (directory [''db_20260127_020401_full.tar''] (interrupted_quit calm))
       (Inr (example_config ''5'', [])) []
     = (0,
        [Connect (Inr 0), Cwd 0 ''/backups'' (Inr ()),
         Glob ''*.tar'' (Inr [''db_20260127_020401_full.tar'']), Glob ''*.tar.*'' (Inr []),
         Cwd 0 ''/backups'' (Inr ()), Nlst 0 (Inr []),
         Upload_call ''db_20260127_020401_full.tar'', Cwd 0 ''/backups'' (Inr ()),
         Stat ''db_20260127_020401_full.tar'' (Inr 100),
         Open_rb ''db_20260127_020401_full.tar'' (Inr ()),
         Storbinary 0 ''db_20260127_020401_full.tar'' (Inr ()),
         Stat ''db_20260127_020401_full.tar'' (Inr 100),
         Size 0 ''db_20260127_020401_full.tar'' (Inr (Some 100)),
         Cwd 0 ''/backups'' (Inr ()), Nlst 0 (Inr []),
         Glob ''db_20260127_020401_full.tar*'' (Inr [''db_20260127_020401_full.tar'']),
         Quit 0 (Inl KeyboardInterrupt)])
   \<and> main (directory [''db_20260127_020401_full.tar''] (interrupted_walk calm))
       (Inr (example_config ''5'', [])) []
     = (0,
        [Connect (Inr 0), Cwd 0 ''/backups'' (Inl error_perm), Cwd 0 ''/'' (Inr ()),
         Cwd 0 ''//backups'' (Inl error_perm), Mkd 0 ''//backups'' (Inr ()),
         Cwd 0 ''/backups'' (Inl KeyboardInterrupt),
         Glob ''*.tar'' (Inr [''db_20260127_020401_full.tar'']), Glob ''*.tar.*'' (Inr []),
         Cwd 0 ''/backups'' (Inr ()), Nlst 0 (Inr []),
         Upload_call ''db_20260127_020401_full.tar'', Cwd 0 ''/backups'' (Inr ()),
         Stat ''db_20260127_020401_full.tar'' (Inr 100),
         Open_rb ''db_20260127_020401_full.tar'' (Inr ()),
         Storbinary 0 ''db_20260127_020401_full.tar'' (Inr ()),
         Stat ''db_20260127_020401_full.tar'' (Inr 100),
         Size 0 ''db_20260127_020401_full.tar'' (Inr (Some 100)),
         Cwd 0 ''/backups'' (Inr ()), Nlst 0 (Inr []),
         Glob ''db_20260127_020401_full.tar*'' (Inr [''db_20260127_020401_full.tar'']),
         Quit 0 (Inr ())])
   \<and> main (directory [''db_20260127_020401_full.tar''] (interrupted_store calm))
       (Inr (example_config ''5'', [])) []
     = (130,
        [Connect (Inr 0), Cwd 0 ''/backups'' (Inr ()),
         Glob ''*.tar'' (Inr [''db_20260127_020401_full.tar'']), Glob ''*.tar.*'' (Inr []),
         Cwd 0 ''/backups'' (Inr ()), Nlst 0 (Inr []),
         Upload_call ''db_20260127_020401_full.tar'', Cwd 0 ''/backups'' (Inr ()),
         Stat ''db_20260127_020401_full.tar'' (Inr 100),
         Open_rb ''db_20260127_020401_full.tar'' (Inr ()),
         Storbinary 0 ''db_20260127_020401_full.tar'' (Inl KeyboardInterrupt),
         Quit 0 (Inr ())])"
  by code_simp

end
